theory Spec2Isabelle
  imports Main "HOL-Library.AList" "HOL-Library.Sublist"
begin

section \<open>Strings and containers of the JavaScript runtime\<close>

text \<open>
  A JavaScript string is a sequence of UTF-16 code units; the model keeps each code unit as
  a natural number. ASCII literals of the source are written through \<open>asc\<close>, the Georgian
  literals by their code units (all of them lie in the Basic Multilingual Plane, one code
  unit per letter).
\<close>

type_synonym jstr = "nat list"

definition asc :: "string \<Rightarrow> jstr" where
  "asc s = map of_char s"

text \<open>
  \<open>String.prototype.trim\<close> removes the WhiteSpace and LineTerminator code points of
  ECMAScript from both ends.
\<close>

definition isWhiteSpace :: "nat \<Rightarrow> bool" where
  "isWhiteSpace c =
     (c = 0x9 \<or> c = 0xA \<or> c = 0xB \<or> c = 0xC \<or> c = 0xD \<or> c = 0x20 \<or> c = 0xA0 \<or>
      c = 0x1680 \<or> (0x2000 \<le> c \<and> c \<le> 0x200A) \<or> c = 0x2028 \<or> c = 0x2029 \<or>
      c = 0x202F \<or> c = 0x205F \<or> c = 0x3000 \<or> c = 0xFEFF)"

definition trim :: "jstr \<Rightarrow> jstr" where
  "trim s = rev (dropWhile isWhiteSpace (rev (dropWhile isWhiteSpace s)))"

definition startsWith :: "jstr \<Rightarrow> jstr \<Rightarrow> bool" where
  "startsWith s p = (take (length p) s = p)"

text \<open>
  \<open>String.prototype.toLowerCase\<close> and \<open>toUpperCase\<close> are the platform's Unicode case
  mappings. They are not code of the repository: every function that calls one of them
  takes it as the parameter \<open>lc\<close> or \<open>uc\<close>, and every theorem holds for any such function.
  \<open>ascii_lower\<close> and \<open>ascii_upper\<close> are the instances used to run the model on concrete
  inputs: \<open>ascii_lower\<close> agrees with \<open>toLowerCase\<close> on ASCII and on the Georgian Mkhedruli
  letters, which are lowercase; \<open>ascii_upper\<close> agrees with \<open>toUpperCase\<close> on ASCII, and the
  runs apply it to room codes only.
\<close>

definition ascii_lower :: "jstr \<Rightarrow> jstr" where
  "ascii_lower s = map (\<lambda>c. if 65 \<le> c \<and> c \<le> 90 then c + 32 else c) s"

definition ascii_upper :: "jstr \<Rightarrow> jstr" where
  "ascii_upper s = map (\<lambda>c. if 97 \<le> c \<and> c \<le> 122 then c - 32 else c) s"

text \<open>The decimal rendering of an array index inside a template literal.\<close>

fun decimal :: "nat \<Rightarrow> jstr" where
  "decimal n = (if n < 10 then [48 + n] else decimal (n div 10) @ [48 + n mod 10])"

declare decimal.simps [simp del]

text \<open>
  A JavaScript \<open>Map\<close> (and a plain object used as a dictionary) keeps its entries in
  insertion order, one entry per key: an association list whose \<open>set\<close> replaces the value
  of a present key in place and appends an absent one.
\<close>

type_synonym ('k, 'v) jsmap = "('k \<times> 'v) list"

definition Map_get :: "('k, 'v) jsmap \<Rightarrow> 'k \<Rightarrow> 'v option" where
  "Map_get m k = map_of m k"

definition Map_set :: "('k, 'v) jsmap \<Rightarrow> 'k \<Rightarrow> 'v \<Rightarrow> ('k, 'v) jsmap" where
  "Map_set m k v = AList.update k v m"

definition Map_delete :: "('k, 'v) jsmap \<Rightarrow> 'k \<Rightarrow> ('k, 'v) jsmap" where
  "Map_delete m k = AList.delete k m"

definition Map_values :: "('k, 'v) jsmap \<Rightarrow> 'v list" where
  "Map_values m = map snd m"

definition Map_keys :: "('k, 'v) jsmap \<Rightarrow> 'k list" where
  "Map_keys m = map fst m"

text \<open>Assignment to a field of the object stored under a key (the object is shared with the map).\<close>

definition Map_modify :: "('k, 'v) jsmap \<Rightarrow> 'k \<Rightarrow> ('v \<Rightarrow> 'v) \<Rightarrow> ('k, 'v) jsmap" where
  "Map_modify m k f = AList.map_entry k f m"

text \<open>\<open>forEach\<close> with a callback that assigns to fields of each value.\<close>

definition Map_forEach :: "('k, 'v) jsmap \<Rightarrow> ('v \<Rightarrow> 'v) \<Rightarrow> ('k, 'v) jsmap" where
  "Map_forEach m f = map (\<lambda>(k, v). (k, f v)) m"

text \<open>A JavaScript \<open>Set\<close>: insertion-ordered, no duplicates.\<close>

definition Set_add :: "'a list \<Rightarrow> 'a \<Rightarrow> 'a list" where
  "Set_add s x = (if x \<in> set s then s else s @ [x])"

definition Set_has :: "'a list \<Rightarrow> 'a \<Rightarrow> bool" where
  "Set_has s x = (x \<in> set s)"

section \<open>Constants of \<open>server.js\<close>\<close>

definition GEORGIAN_ALPHABET :: "jstr list" where
  "GEORGIAN_ALPHABET =
     [[0x10D0], [0x10D1], [0x10D2], [0x10D3], [0x10D4], [0x10D5], [0x10D6], [0x10D7],
      [0x10D8], [0x10D9], [0x10DA], [0x10DB], [0x10DC], [0x10DD], [0x10DE],
      [0x10DF], [0x10E0], [0x10E1], [0x10E2], [0x10E3], [0x10E4], [0x10E5], [0x10E6],
      [0x10E7], [0x10E8], [0x10E9], [0x10EA], [0x10EB], [0x10EC], [0x10ED], [0x10EE],
      [0x10EF], [0x10F0]]"

definition BONUS_CATEGORIES :: "jstr list" where
  "BONUS_CATEGORIES =
     [[0x10D1, 0x10E0, 0x10D4, 0x10DC, 0x10D3, 0x10D8],
      [0x10E4, 0x10D4, 0x10E0, 0x10D8],
      [0x10DC, 0x10D8, 0x10D5, 0x10D7, 0x10D8],
      [0x10DB, 0x10E3, 0x10E1, 0x10D8, 0x10D9, 0x10D0],
      [0x10E4, 0x10D8, 0x10DA, 0x10DB, 0x10D8],
      [0x10E1, 0x10D0, 0x10ED, 0x10DB, 0x10D4, 0x10DA, 0x10D8],
      [0x10E1, 0x10DE, 0x10DD, 0x10E0, 0x10E2, 0x10D8],
      [0x10DE, 0x10E0, 0x10DD, 0x10E4, 0x10D4, 0x10E1, 0x10D8, 0x10D0]]"

definition DEFAULT_CATEGORIES :: "jstr list" where
  "DEFAULT_CATEGORIES =
     [[0x10E5, 0x10D0, 0x10DA, 0x10D0, 0x10E5, 0x10D8],
      [0x10E1, 0x10DD, 0x10E4, 0x10D4, 0x10DA, 0x10D8],
      [0x10E1, 0x10D0, 0x10EE, 0x10D4, 0x10DA, 0x10D8],
      [0x10D2, 0x10D5, 0x10D0, 0x10E0, 0x10D8],
      [0x10EA, 0x10EE, 0x10DD, 0x10D5, 0x10D4, 0x10DA, 0x10D8],
      [0x10E4, 0x10E0, 0x10D8, 0x10DC, 0x10D5, 0x10D4, 0x10DA, 0x10D8],
      [0x10DB, 0x10EA, 0x10D4, 0x10DC, 0x10D0, 0x10E0, 0x10D4]]"

text \<open>The user-facing error strings of the handlers.\<close>

definition MSG_ROOM_NOT_FOUND :: jstr where
  "MSG_ROOM_NOT_FOUND =
     [0x10DD, 0x10D7, 0x10D0, 0x10EE, 0x10D8, 0x20, 0x10D5, 0x10D4, 0x10E0, 0x20,
      0x10DB, 0x10DD, 0x10D8, 0x10EB, 0x10D4, 0x10D1, 0x10DC, 0x10D0]"

definition MSG_ALREADY_STARTED :: jstr where
  "MSG_ALREADY_STARTED =
     [0x10D7, 0x10D0, 0x10DB, 0x10D0, 0x10E8, 0x10D8, 0x20, 0x10E3, 0x10D9, 0x10D5, 0x10D4,
      0x20, 0x10D3, 0x10D0, 0x10EC, 0x10E7, 0x10D4, 0x10D1, 0x10E3, 0x10DA, 0x10D8, 0x10D0]"

definition MSG_ROOM_FULL :: jstr where
  "MSG_ROOM_FULL =
     [0x10DD, 0x10D7, 0x10D0, 0x10EE, 0x10D8, 0x20, 0x10E1, 0x10D0, 0x10D5, 0x10E1, 0x10D4,
      0x10D0, 0x20, 0x28, 0x10DB, 0x10D0, 0x10E5, 0x10E1, 0x2E, 0x20, 0x38, 0x20, 0x10DB,
      0x10DD, 0x10D7, 0x10D0, 0x10DB, 0x10D0, 0x10E8, 0x10D4, 0x29]"

definition MSG_NOT_ALL_READY :: jstr where
  "MSG_NOT_ALL_READY =
     [0x10E7, 0x10D5, 0x10D4, 0x10DA, 0x10D0, 0x20, 0x10DB, 0x10DD, 0x10D7, 0x10D0, 0x10DB,
      0x10D0, 0x10E8, 0x10D4, 0x20, 0x10DB, 0x10D6, 0x10D0, 0x10D3, 0x20, 0x10D0, 0x10E0,
      0x20, 0x10D0, 0x10E0, 0x10D8, 0x10E1]"

definition MSG_WAIT_FOR_TIMER :: jstr where
  "MSG_WAIT_FOR_TIMER =
     [0x10D3, 0x10D0, 0x10D4, 0x10DA, 0x10DD, 0x10D3, 0x10D4, 0x10D7, 0x20, 0x10E2, 0x10D0,
      0x10D8, 0x10DB, 0x10D4, 0x10E0, 0x10E1]"

section \<open>Data model\<close>

datatype phase = lobby | sticks | playing | stopped | results | ended

text \<open>
  A score is a JavaScript number. The scores of the game are sums and differences of 0, 10
  and 20, integers far below \<open>2 ^ 53\<close>, until an operand that is not a number turns them
  into \<open>NaN\<close>, which every later sum and difference keeps.
\<close>

datatype jsnum = Num int | NaN

fun jsadd :: "jsnum \<Rightarrow> jsnum \<Rightarrow> jsnum" where
  "jsadd (Num a) (Num b) = Num (a + b)"
| "jsadd x y = NaN"

fun jssub :: "jsnum \<Rightarrow> jsnum \<Rightarrow> jsnum" where
  "jssub (Num a) (Num b) = Num (a - b)"
| "jssub x y = NaN"

text \<open>
  An entry of \<open>player.categoryScores\<close>; the own property \<open>invalidatedBy\<close> is absent until
  a peer sets it.
\<close>

record score =
  points :: int
  isValid :: bool
  answer :: jstr
  invalidatedBy :: "jstr option"

text \<open>
  A player object; the field \<open>id\<close> is called \<open>pid\<close> here. \<open>answers\<close> is the object the
  client sent (category key to raw string); \<open>categoryScores\<close> does not exist before the
  first scoring pass. A session id that is missing is the empty string (both are falsy where
  the source tests it).
\<close>

record player =
  pid :: jstr
  nick :: jstr
  avatarSeed :: jstr
  isHost :: bool
  isReady :: bool
  isConnected :: bool
  socketId :: "nat option"
  sessionId :: jstr
  answers :: "jstr \<rightharpoonup> jstr"
  roundScore :: jsnum
  totalScore :: jsnum
  hasSubmitted :: bool
  categoryScores :: "(jstr \<rightharpoonup> score) option"

text \<open>
  The settings and the game state of a room. \<open>categories\<close> is \<open>None\<close> when a client
  replaced the list by a falsy value (\<open>setupCategories\<close> then falls back to the defaults).
  \<open>usedLetters\<close> is a \<open>Set\<close>, \<open>activeCategories\<close> an object whose keys are read in
  insertion order. The field \<open>roundStartTime\<close> is never assigned after \<open>createRoom\<close> and
  never read; it is left out.
\<close>

record settings =
  minTime :: int
  maxRounds :: int
  useBonus :: bool
  categories :: "jstr list option"

record gameState =
  phase :: phase
  currentRound :: int
  currentLetter :: jstr
  usedLetters :: "jstr list"
  activeCategories :: "(jstr, jstr) jsmap"
  stoppedBy :: "jstr option"
  timerEnabled :: bool
  allAnswersSubmitted :: bool

record room =
  code :: jstr
  hostId :: jstr
  players :: "(jstr, player) jsmap"
  settings :: settings
  gameState :: gameState

section \<open>Round engine\<close>

subsection \<open>\<open>calculateScores\<close>\<close>

text \<open>\<open>player.answers[cat] || ''\<close>: a missing key and the empty string both give \<open>''\<close>.\<close>

definition raw_answer :: "player \<Rightarrow> jstr \<Rightarrow> jstr" where
  "raw_answer p cat = (case answers p cat of None \<Rightarrow> [] | Some v \<Rightarrow> v)"

text \<open>\<open>(player.answers[cat] || '').trim().toLowerCase()\<close>\<close>

definition normalized :: "(jstr \<Rightarrow> jstr) \<Rightarrow> player \<Rightarrow> jstr \<Rightarrow> jstr" where
  "normalized lc p cat = lc (trim (raw_answer p cat))"

text \<open>
  The body of the inner \<open>categories.forEach\<close> for one player and one category: the entry
  stored in \<open>categoryScores[cat]\<close>. The duplicate check is the loop over all players of
  the source, which overwrites \<open>points\<close> at every other player with the same answer.
\<close>

definition score_category :: "(jstr \<Rightarrow> jstr) \<Rightarrow> player list \<Rightarrow> jstr \<Rightarrow> player \<Rightarrow> jstr \<Rightarrow> score" where
  "score_category lc ps letter p cat =
     (let a = normalized lc p cat in
      if length a > 0 \<and> startsWith a (lc letter)
      then \<lparr>points = foldl (\<lambda>pts other.
                      if pid other \<noteq> pid p
                      then (if normalized lc other cat = a then 10 else pts)
                      else pts) 20 ps,
            isValid = True, answer = raw_answer p cat, invalidatedBy = None\<rparr>
      else \<lparr>points = 0, isValid = False, answer = raw_answer p cat, invalidatedBy = None\<rparr>)"

text \<open>
  The body of the outer \<open>players.forEach\<close>: reset \<open>roundScore\<close> and \<open>categoryScores\<close>, visit
  the category keys in order, then add the round to the total.
\<close>

definition score_step :: "(jstr \<Rightarrow> jstr) \<Rightarrow> player list \<Rightarrow> jstr \<Rightarrow> player \<Rightarrow> jstr \<Rightarrow> player" where
  "score_step lc ps letter q cat =
     (let sc = score_category lc ps letter q cat in
      q\<lparr>categoryScores := Some ((case categoryScores q of None \<Rightarrow> Map.empty | Some m \<Rightarrow> m)(cat \<mapsto> sc)),
        roundScore := jsadd (roundScore q) (Num (points sc))\<rparr>)"

definition score_player :: "(jstr \<Rightarrow> jstr) \<Rightarrow> player list \<Rightarrow> jstr \<Rightarrow> jstr list \<Rightarrow> player \<Rightarrow> player" where
  "score_player lc ps letter cats p =
     (let q = foldl (score_step lc ps letter) (p\<lparr>roundScore := Num 0, categoryScores := Some Map.empty\<rparr>) cats
      in q\<lparr>totalScore := jsadd (totalScore q) (roundScore q)\<rparr>)"

definition calculateScores :: "(jstr \<Rightarrow> jstr) \<Rightarrow> room \<Rightarrow> room" where
  "calculateScores lc r =
     (let ps = Map_values (players r);
          cats = Map_keys (activeCategories (gameState r))
      in r\<lparr>players := Map_forEach (players r)
                          (score_player lc ps (currentLetter (gameState r)) cats)\<rparr>)"

subsection \<open>Random choices\<close>

text \<open>
  \<open>Math.floor(Math.random() * n)\<close> is some index below \<open>n\<close>, each with the same
  probability when \<open>Math.random\<close> is uniform. The draw is an input of the model: a natural
  number, reduced below \<open>n\<close>.
\<close>

definition random_index :: "nat \<Rightarrow> nat \<Rightarrow> nat" where
  "random_index rnd n = rnd mod n"

subsection \<open>\<open>selectRandomLetter\<close>\<close>

definition selectRandomLetter :: "nat \<Rightarrow> room \<Rightarrow> room \<times> jstr" where
  "selectRandomLetter rnd r =
     (let available = filter (\<lambda>l. \<not> Set_has (usedLetters (gameState r)) l) GEORGIAN_ALPHABET in
      if length available = 0
      then (r\<lparr>gameState := (gameState r)\<lparr>usedLetters := []\<rparr>\<rparr>,
            GEORGIAN_ALPHABET ! random_index rnd (length GEORGIAN_ALPHABET))
      else (r, available ! random_index rnd (length available)))"

text \<open>
  Lines 586 to 588 of the \<open>sticks:draw\<close> handler: select the letter, make it the current
  letter and add it to the used set.
\<close>

definition draw_letter :: "nat \<Rightarrow> room \<Rightarrow> room \<times> jstr" where
  "draw_letter rnd r =
     (let (r1, letter) = selectRandomLetter rnd r in
      (r1\<lparr>gameState := (gameState r1)\<lparr>currentLetter := letter,
             usedLetters := Set_add (usedLetters (gameState r1)) letter\<rparr>\<rparr>, letter))"

subsection \<open>\<open>setupCategories\<close>\<close>

definition setupCategories :: "nat \<Rightarrow> room \<Rightarrow> room \<times> (jstr, jstr) jsmap" where
  "setupCategories rnd r =
     (let categoryList = (case categories (settings r) of None \<Rightarrow> DEFAULT_CATEGORIES | Some l \<Rightarrow> l);
          cats0 = foldl (\<lambda>obj (index, catName). Map_set obj (asc ''cat_'' @ decimal index) catName)
                    [] (enumerate 0 categoryList);
          cats1 = (if useBonus (settings r)
                   then Map_set cats0 (asc ''bonus'')
                          (BONUS_CATEGORIES ! random_index rnd (length BONUS_CATEGORIES))
                   else cats0)
      in (r\<lparr>gameState := (gameState r)\<lparr>activeCategories := cats1\<rparr>\<rparr>, cats1))"

subsection \<open>\<open>allPlayersReady\<close>\<close>

definition allPlayersReady :: "room \<Rightarrow> bool" where
  "allPlayersReady r =
     (foldl (\<lambda>allReady p. if isConnected p \<and> \<not> isReady p then False else allReady)
            True (Map_values (players r))
      \<and> length (players r) \<ge> 1)"

section \<open>The server\<close>

text \<open>
  The process-global stores of \<open>server.js\<close>. Room objects live in a store of their own
  (\<open>heap\<close>), because timer callbacks hold a reference to the room object itself while the
  handlers look the room up by its code in \<open>rooms\<close>: the two can part when a room is
  deleted or its code is reused. \<open>conns\<close> holds the two variables every connection closure
  keeps (\<open>currentPlayerId\<close>, \<open>currentRoomCode\<close>); the key is the socket id. The field
  \<open>playerData\<close> of a \<open>disconnectedPlayers\<close> entry is never read and is left out.

  Pending \<open>setTimeout\<close> callbacks are kept with their handle and due time; \<open>clock\<close> is the
  time in milliseconds. A callback is described by the code it runs and the variables it
  captured.

  The \<open>answer:invalidate\<close> handler reads and writes properties of whatever object the
  client's category key resolves to, and a key that is not an own property of
  \<open>categoryScores\<close> resolves along the prototype chain. The part of the built-in objects the
  handler can reach is state of the process as well: the property \<open>invalidatedBy\<close> of
  \<open>Object.prototype\<close> (\<open>proto_invalidatedBy\<close>), which every object without an own property
  of that name inherits, and the own property \<open>invalidatedBy\<close> of each function that is a
  method of \<open>Object.prototype\<close> (\<open>method_invalidatedBy\<close>, by the name of the method).
\<close>

record conn =
  currentPlayerId :: "jstr option"
  currentRoomCode :: "jstr option"
  connected :: bool

record session =
  s_roomCode :: jstr
  s_playerId :: jstr

record pending =
  d_roomCode :: jstr
  d_timeout :: nat

datatype callback =
    DrawAnimationDone nat nat jstr
  | LetterShown nat
  | MinTimeElapsed nat
  | StopCountdownDone nat
  | EndGameCooldown nat nat
  | ReconnectExpired jstr jstr jstr

record server =
  heap :: "nat \<rightharpoonup> room"
  nextAddr :: nat
  rooms :: "(jstr, nat) jsmap"
  playerSessions :: "(jstr, session) jsmap"
  disconnectedPlayers :: "(jstr, pending) jsmap"
  timers :: "(nat \<times> nat \<times> callback) list"
  nextTimer :: nat
  clock :: nat
  conns :: "(nat, conn) jsmap"
  proto_invalidatedBy :: "jstr option"
  method_invalidatedBy :: "jstr \<rightharpoonup> jstr"

definition initial :: server where
  "initial = \<lparr>heap = Map.empty, nextAddr = 0, rooms = [], playerSessions = [],
              disconnectedPlayers = [], timers = [], nextTimer = 0, clock = 0, conns = [],
              proto_invalidatedBy = None, method_invalidatedBy = Map.empty\<rparr>"

text \<open>
  What a handler sends: \<open>socket.emit\<close> (to the originating connection), \<open>io.to(room).emit\<close>
  (to every member of the socket.io room) and \<open>socket.to(room).emit\<close> (to every member but
  the sender). The event name is the one of the source; of the payload the model keeps error
  messages, the success flag, the player or letter the event is about, and for the payloads
  built by \<open>getRoomData\<close> and \<open>getAllAnswers\<close> the room they are projected from. Which
  sockets are members of a socket.io room (\<open>socket.join\<close>, \<open>socket.leave\<close>) decides delivery
  only and is not part of the state.
\<close>

datatype target = ToSocket nat | ToRoom "jstr option" | ToRoomExcept nat "jstr option"

datatype payload = NoData | Message jstr | Success bool | Data room | Subject jstr

datatype emit = Emit target string payload

datatype error = TypeError

subsection \<open>Timers\<close>

text \<open>Node replaces a delay below 1 or above 2147483647 by 1.\<close>

definition timer_delay :: "int \<Rightarrow> nat" where
  "timer_delay d = (if d < 1 \<or> d > 2147483647 then 1 else nat d)"

definition setTimeout :: "server \<Rightarrow> callback \<Rightarrow> int \<Rightarrow> server \<times> nat" where
  "setTimeout s cb d =
     (s\<lparr>timers := timers s @ [(nextTimer s, clock s + timer_delay d, cb)],
        nextTimer := nextTimer s + 1\<rparr>, nextTimer s)"

definition clearTimeout :: "server \<Rightarrow> nat \<Rightarrow> server" where
  "clearTimeout s h = s\<lparr>timers := filter (\<lambda>(h', due, cb). h' \<noteq> h) (timers s)\<rparr>"

subsection \<open>Lookups shared by the handlers\<close>

text \<open>A string variable is falsy when it is \<open>null\<close> or empty.\<close>

definition truthy :: "jstr option \<Rightarrow> bool" where
  "truthy x = (case x of None \<Rightarrow> False | Some v \<Rightarrow> v \<noteq> [])"

text \<open>
  \<open>if (!currentRoomCode || !currentPlayerId) return;\<close> The result is the pair of the two
  variables when the handler goes on.
\<close>

definition bound_ids :: "server \<Rightarrow> nat \<Rightarrow> (jstr \<times> jstr) option" where
  "bound_ids s k =
     (case Map_get (conns s) k of
        None \<Rightarrow> None
      | Some c \<Rightarrow>
          (case (currentRoomCode c, currentPlayerId c) of
             (Some rc, Some me) \<Rightarrow> if \<not> truthy (Some rc) \<or> \<not> truthy (Some me) then None else Some (rc, me)
           | _ \<Rightarrow> None))"

text \<open>\<open>rooms.get(code)\<close>: the room object and its address.\<close>

definition rooms_get :: "server \<Rightarrow> jstr \<Rightarrow> (nat \<times> room) option" where
  "rooms_get s rc =
     (case Map_get (rooms s) rc of
        None \<Rightarrow> None
      | Some a \<Rightarrow> (case heap s a of None \<Rightarrow> None | Some r \<Rightarrow> Some (a, r)))"

definition put_room :: "server \<Rightarrow> nat \<Rightarrow> room \<Rightarrow> server" where
  "put_room s a r = s\<lparr>heap := (heap s)(a \<mapsto> r)\<rparr>"

text \<open>The value of the variable \<open>currentRoomCode\<close> of a connection closure, read by a callback.\<close>

definition room_var :: "server \<Rightarrow> nat \<Rightarrow> jstr option" where
  "room_var s k = (case Map_get (conns s) k of None \<Rightarrow> None | Some c \<Rightarrow> currentRoomCode c)"

subsection \<open>\<open>generateRoomCode\<close>, \<open>generatePlayerId\<close>, \<open>createRoom\<close>\<close>

definition ROOM_CODE_CHARS :: jstr where
  "ROOM_CODE_CHARS = asc ''ABCDEFGHJKLMNPQRSTUVWXYZ23456789''"

text \<open>\<open>rnd i\<close> is the draw of the \<open>i\<close>-th iteration of the loop.\<close>

definition generateRoomCode :: "(nat \<Rightarrow> nat) \<Rightarrow> jstr" where
  "generateRoomCode rnd =
     foldl (\<lambda>c i. c @ [ROOM_CODE_CHARS ! random_index (rnd i) (length ROOM_CODE_CHARS)]) [] [0..<5]"

text \<open>\<open>uuid\<close> is the string \<open>uuidv4()\<close> returned.\<close>

definition generatePlayerId :: "jstr \<Rightarrow> jstr" where
  "generatePlayerId uuid = asc ''player_'' @ take 8 uuid"

definition createRoom :: "server \<Rightarrow> (nat \<Rightarrow> nat) \<Rightarrow> jstr \<Rightarrow> jstr \<Rightarrow> jstr \<Rightarrow> nat \<Rightarrow> jstr \<Rightarrow> server \<times> nat \<times> room" where
  "createRoom s rnd host hnick havatar k sid =
     (let roomCode = generateRoomCode rnd;
          r = \<lparr>code = roomCode, hostId = host,
               players = Map_set [] host
                  \<lparr>pid = host, nick = hnick, avatarSeed = havatar, isHost = True, isReady = True,
                   isConnected = True, socketId = Some k, sessionId = sid, answers = Map.empty,
                   roundScore = Num 0, totalScore = Num 0, hasSubmitted = False, categoryScores = None\<rparr>,
               settings = \<lparr>minTime = 15, maxRounds = 5, useBonus = False,
                           categories = Some DEFAULT_CATEGORIES\<rparr>,
               gameState = \<lparr>phase = lobby, currentRound = 0, currentLetter = [], usedLetters = [],
                            activeCategories = [], stoppedBy = None, timerEnabled = False,
                            allAnswersSubmitted = False\<rparr>\<rparr>;
          a = nextAddr s
      in (s\<lparr>heap := (heap s)(a \<mapsto> r), nextAddr := a + 1, rooms := Map_set (rooms s) roomCode a\<rparr>, a, r))"

subsection \<open>Host succession\<close>

text \<open>
  The block shared by \<open>room:leave\<close> and the reconnect timeout: when the player who left was
  the host and somebody remains, the first player in insertion order becomes host.
\<close>

definition succeed_host :: "jstr \<Rightarrow> jstr \<Rightarrow> room \<Rightarrow> room \<times> emit list" where
  "succeed_host rc leaver r =
     (if hostId r = leaver \<and> length (players r) > 0
      then (case players r of
              [] \<Rightarrow> (r, [])
            | (k0, newHost) # rest \<Rightarrow>
                (r\<lparr>players := (k0, newHost\<lparr>isHost := True\<rparr>) # rest, hostId := pid newHost\<rparr>,
                 [Emit (ToRoom (Some rc)) ''host:changed'' (Subject (pid newHost))]))
      else (r, []))"

subsection \<open>\<open>handlePlayerDisconnect\<close> and its timeout\<close>

definition handlePlayerDisconnect :: "server \<Rightarrow> nat \<Rightarrow> jstr \<Rightarrow> jstr \<Rightarrow> server \<times> emit list" where
  "handlePlayerDisconnect s k playerId rc =
     (case rooms_get s rc of
        None \<Rightarrow> (s, [])
      | Some (a, r) \<Rightarrow>
          (case Map_get (players r) playerId of
             None \<Rightarrow> (s, [])
           | Some p \<Rightarrow>
               if socketId p \<noteq> Some k then (s, [])
               else
                 let r' = r\<lparr>players := Map_modify (players r) playerId
                                          (\<lambda>q. q\<lparr>isConnected := False, socketId := None\<rparr>)\<rparr>;
                     s1 = put_room s a r';
                     s2 = (case Map_get (disconnectedPlayers s1) playerId of
                             None \<Rightarrow> s1
                           | Some d \<Rightarrow> clearTimeout s1 (d_timeout d));
                     (s3, h) = setTimeout s2 (ReconnectExpired playerId rc (nick p)) 120000;
                     s4 = s3\<lparr>disconnectedPlayers :=
                               Map_set (disconnectedPlayers s3) playerId
                                 \<lparr>d_roomCode = rc, d_timeout = h\<rparr>\<rparr>
                 in (s4, [Emit (ToRoom (Some rc)) ''player:disconnected'' (Subject playerId),
                          Emit (ToRoom (Some rc)) ''room:update'' (Data r')])))"

text \<open>The callback armed by \<open>handlePlayerDisconnect\<close> (lines 281 to 314).\<close>

definition reconnect_expired :: "server \<Rightarrow> jstr \<Rightarrow> jstr \<Rightarrow> jstr \<Rightarrow> server \<times> emit list" where
  "reconnect_expired s playerId rc pnick =
     (case rooms_get s rc of
        None \<Rightarrow> (s, [])
      | Some (a, r) \<Rightarrow>
          (case Map_get (players r) playerId of
             None \<Rightarrow> (s, [])
           | Some p \<Rightarrow>
               if isConnected p then (s, [])
               else
                 let r1 = r\<lparr>players := Map_delete (players r) playerId\<rparr>;
                     s1 = s\<lparr>disconnectedPlayers := Map_delete (disconnectedPlayers s) playerId\<rparr>;
                     s2 = (if sessionId p \<noteq> []
                           then s1\<lparr>playerSessions := Map_delete (playerSessions s1) (sessionId p)\<rparr>
                           else s1);
                     (r2, e) = succeed_host rc playerId r1
                 in if length (players r2) = 0
                    then ((put_room s2 a r2)\<lparr>rooms := Map_delete (rooms s2) rc\<rparr>, e)
                    else (put_room s2 a r2,
                          e @ [Emit (ToRoom (Some rc)) ''room:update'' (Data r2),
                               Emit (ToRoom (Some rc)) ''player:left'' (Subject playerId)])))"

subsection \<open>\<open>session:restore\<close>\<close>

text \<open>The scan \<open>for (const [roomCode, r] of rooms)\<close>: the first room holding the player with this session.\<close>

fun scan_rooms :: "server \<Rightarrow> (jstr, nat) jsmap \<Rightarrow> jstr \<Rightarrow> jstr \<Rightarrow> (jstr \<times> nat \<times> room) option" where
  "scan_rooms s [] playerId sid = None"
| "scan_rooms s ((rc, a) # rest) playerId sid =
     (case heap s a of
        None \<Rightarrow> scan_rooms s rest playerId sid
      | Some r \<Rightarrow>
          (case Map_get (players r) playerId of
             None \<Rightarrow> scan_rooms s rest playerId sid
           | Some p \<Rightarrow> if sessionId p = sid then Some (rc, a, r)
                       else scan_rooms s rest playerId sid))"

text \<open>Lines 378 to 423, once room, player and session are found.\<close>

definition restore_found :: "server \<Rightarrow> nat \<Rightarrow> jstr \<Rightarrow> jstr \<Rightarrow> nat \<Rightarrow> room \<Rightarrow> server \<times> emit list" where
  "restore_found s k playerId rc a r =
     (let disconnected = Map_get (disconnectedPlayers s) playerId;
          s1 = (case disconnected of
                  None \<Rightarrow> s
                | Some d \<Rightarrow> (clearTimeout s (d_timeout d))
                              \<lparr>disconnectedPlayers := Map_delete (disconnectedPlayers s) playerId\<rparr>);
          r' = r\<lparr>players := Map_modify (players r) playerId
                                (\<lambda>q. q\<lparr>isConnected := True, socketId := Some k\<rparr>)\<rparr>;
          s2 = (put_room s1 a r')
                 \<lparr>conns := Map_modify (conns s1) k
                             (\<lambda>c. c\<lparr>currentPlayerId := Some playerId, currentRoomCode := Some rc\<rparr>)\<rparr>;
          stillOff = (case Map_get (players r') playerId of None \<Rightarrow> False | Some q \<Rightarrow> \<not> isConnected q)
      in (s2, [Emit (ToSocket k) ''session:restored'' (Success True)]
              @ (if disconnected \<noteq> None \<or> stillOff
                 then [Emit (ToRoomExcept k (Some rc)) ''player:reconnected'' (Subject playerId)]
                 else [])
              @ [Emit (ToRoom (Some rc)) ''room:update'' (Data r')]))"

definition session_restore :: "server \<Rightarrow> nat \<Rightarrow> jstr \<Rightarrow> jstr \<Rightarrow> server \<times> emit list" where
  "session_restore s k sid playerId =
     (let session = Map_get (playerSessions s) sid;
          room0 = (case session of None \<Rightarrow> None | Some se \<Rightarrow> rooms_get s (s_roomCode se));
          player0 = (case room0 of None \<Rightarrow> None | Some (a, r) \<Rightarrow> Map_get (players r) playerId)
      in case (session, room0, player0) of
           (Some se, Some (a, r), Some p) \<Rightarrow> restore_found s k playerId (s_roomCode se) a r
         | _ \<Rightarrow>
             (case scan_rooms s (rooms s) playerId sid of
                Some (rc, a, r) \<Rightarrow>
                  restore_found
                    (s\<lparr>playerSessions := Map_set (playerSessions s) sid
                                           \<lparr>s_roomCode = rc, s_playerId = playerId\<rparr>\<rparr>)
                    k playerId rc a r
              | None \<Rightarrow>
                  ((if session \<noteq> None
                    then s\<lparr>playerSessions := Map_delete (playerSessions s) sid\<rparr> else s),
                   [Emit (ToSocket k) ''session:restored'' (Success False)])))"

subsection \<open>\<open>room:create\<close> and \<open>room:join\<close>\<close>

definition room_create :: "server \<Rightarrow> nat \<Rightarrow> jstr \<Rightarrow> jstr \<Rightarrow> jstr \<Rightarrow> (nat \<Rightarrow> nat) \<Rightarrow> jstr \<Rightarrow> server \<times> emit list" where
  "room_create s k pnick pavatar sid rnd uuid =
     (let playerId = generatePlayerId uuid;
          (s1, a, r) = createRoom s rnd playerId pnick pavatar k sid;
          s2 = s1\<lparr>conns := Map_modify (conns s1) k
                     (\<lambda>c. c\<lparr>currentPlayerId := Some playerId, currentRoomCode := Some (code r)\<rparr>),
                  playerSessions := Map_set (playerSessions s1) sid
                     \<lparr>s_roomCode = code r, s_playerId = playerId\<rparr>\<rparr>
      in (s2, [Emit (ToSocket k) ''room:created'' (Data r)]))"

definition room_join :: "(jstr \<Rightarrow> jstr) \<Rightarrow> server \<Rightarrow> nat \<Rightarrow> jstr \<Rightarrow> jstr \<Rightarrow> jstr \<Rightarrow> jstr \<Rightarrow> jstr \<Rightarrow> server \<times> emit list" where
  "room_join uc s k roomCode pnick pavatar sid uuid =
     (case rooms_get s (uc roomCode) of
        None \<Rightarrow> (s, [Emit (ToSocket k) ''room:error'' (Message MSG_ROOM_NOT_FOUND)])
      | Some (a, r) \<Rightarrow>
          if phase (gameState r) \<noteq> lobby
          then (s, [Emit (ToSocket k) ''room:error'' (Message MSG_ALREADY_STARTED)])
          else if length (players r) \<ge> 8
          then (s, [Emit (ToSocket k) ''room:error'' (Message MSG_ROOM_FULL)])
          else
            let playerId = generatePlayerId uuid;
                r' = r\<lparr>players := Map_set (players r) playerId
                        \<lparr>pid = playerId, nick = pnick, avatarSeed = pavatar, isHost = False,
                         isReady = False, isConnected = True, socketId = Some k, sessionId = sid,
                         answers = Map.empty, roundScore = Num 0, totalScore = Num 0,
                         hasSubmitted = False, categoryScores = None\<rparr>\<rparr>;
                s1 = (put_room s a r')
                       \<lparr>conns := Map_modify (conns s) k
                          (\<lambda>c. c\<lparr>currentPlayerId := Some playerId,
                                 currentRoomCode := Some (uc roomCode)\<rparr>),
                        playerSessions := Map_set (playerSessions s) sid
                          \<lparr>s_roomCode = code r, s_playerId = playerId\<rparr>\<rparr>
            in (s1, [Emit (ToSocket k) ''room:joined'' (Data r'),
                     Emit (ToRoomExcept k (Some (code r))) ''player:joined'' (Subject playerId),
                     Emit (ToRoom (Some (code r))) ''room:update'' (Data r')]))"

subsection \<open>\<open>player:ready\<close> and \<open>settings:update\<close>\<close>

definition player_ready :: "server \<Rightarrow> nat \<Rightarrow> bool \<Rightarrow> server \<times> emit list" where
  "player_ready s k ready =
     (case bound_ids s k of
        None \<Rightarrow> (s, [])
      | Some (rc, me) \<Rightarrow>
          (case rooms_get s rc of
             None \<Rightarrow> (s, [])
           | Some (a, r) \<Rightarrow>
               (case Map_get (players r) me of
                  None \<Rightarrow> (s, [])
                | Some p \<Rightarrow>
                    let r' = r\<lparr>players := Map_modify (players r) me (\<lambda>q. q\<lparr>isReady := ready\<rparr>)\<rparr>
                    in (put_room s a r',
                        [Emit (ToRoom (Some rc)) ''room:update'' (Data r'),
                         Emit (ToRoom (Some rc)) ''player:readyChanged'' (Subject me)]))))"

text \<open>
  The object a client sends with \<open>settings:update\<close>: any subset of the four settings. The
  spread \<open>{ ...room.settings, ...settings }\<close> overwrites the fields that are present.
\<close>

record settings_patch =
  p_minTime :: "int option"
  p_maxRounds :: "int option"
  p_useBonus :: "bool option"
  p_categories :: "jstr list option"

definition merge_settings :: "settings \<Rightarrow> settings_patch \<Rightarrow> settings" where
  "merge_settings st pt =
     \<lparr>minTime = (case p_minTime pt of None \<Rightarrow> minTime st | Some v \<Rightarrow> v),
      maxRounds = (case p_maxRounds pt of None \<Rightarrow> maxRounds st | Some v \<Rightarrow> v),
      useBonus = (case p_useBonus pt of None \<Rightarrow> useBonus st | Some v \<Rightarrow> v),
      categories = (case p_categories pt of None \<Rightarrow> categories st | Some v \<Rightarrow> Some v)\<rparr>"

definition settings_update_event :: "server \<Rightarrow> nat \<Rightarrow> settings_patch \<Rightarrow> server \<times> emit list" where
  "settings_update_event s k pt =
     (case bound_ids s k of
        None \<Rightarrow> (s, [])
      | Some (rc, me) \<Rightarrow>
          (case rooms_get s rc of
             None \<Rightarrow> (s, [])
           | Some (a, r) \<Rightarrow>
               if hostId r \<noteq> me then (s, [])
               else
                 let r' = r\<lparr>settings := merge_settings (settings r) pt\<rparr>
                 in (put_room s a r',
                     [Emit (ToRoom (Some rc)) ''room:update'' (Data r'),
                      Emit (ToRoom (Some rc)) ''settings:changed'' (Data r')])))"

subsection \<open>\<open>game:start\<close>\<close>

definition game_start :: "server \<Rightarrow> nat \<Rightarrow> server \<times> emit list" where
  "game_start s k =
     (case bound_ids s k of
        None \<Rightarrow> (s, [])
      | Some (rc, me) \<Rightarrow>
          (case rooms_get s rc of
             None \<Rightarrow> (s, [])
           | Some (a, r) \<Rightarrow>
               if hostId r \<noteq> me then (s, [])
               else if \<not> allPlayersReady r
               then (s, [Emit (ToSocket k) ''game:error'' (Message MSG_NOT_ALL_READY)])
               else
                 let r' = r\<lparr>gameState := (gameState r)\<lparr>phase := sticks, currentRound := 0,
                                                        usedLetters := []\<rparr>,
                            players := Map_forEach (players r)
                               (\<lambda>p. p\<lparr>totalScore := Num 0, roundScore := Num 0, answers := Map.empty\<rparr>)\<rparr>
                 in (put_room s a r',
                     [Emit (ToRoom (Some rc)) ''game:started'' (Data r'),
                      Emit (ToRoom (Some rc)) ''phase:sticks'' NoData])))"

subsection \<open>\<open>sticks:draw\<close> and its two timers\<close>

definition sticks_draw :: "server \<Rightarrow> nat \<Rightarrow> nat \<Rightarrow> server \<times> emit list" where
  "sticks_draw s k rnd =
     (case bound_ids s k of
        None \<Rightarrow> (s, [])
      | Some (rc, me) \<Rightarrow>
          (case rooms_get s rc of
             None \<Rightarrow> (s, [])
           | Some (a, r) \<Rightarrow>
               if hostId r \<noteq> me then (s, [])
               else
                 let (r', letter) = draw_letter rnd r;
                     (s1, h) = setTimeout (put_room s a r') (DrawAnimationDone k a letter) 2000
                 in (s1, [Emit (ToRoom (Some rc)) ''sticks:drawing'' NoData])))"

text \<open>The outer callback (lines 592 to 599): announce the letter, arm the inner timer.\<close>

definition draw_animation_done :: "server \<Rightarrow> nat \<Rightarrow> nat \<Rightarrow> jstr \<Rightarrow> server \<times> emit list" where
  "draw_animation_done s k a letter =
     (let (s1, h) = setTimeout s (LetterShown a) 1500
      in (s1, [Emit (ToRoom (room_var s k)) ''sticks:result'' (Subject letter)]))"

text \<open>\<open>startRound(room)\<close>, run by the inner callback on the room object it captured.\<close>

definition startRound :: "server \<Rightarrow> nat \<Rightarrow> nat \<Rightarrow> server \<times> emit list" where
  "startRound s a rnd =
     (case heap s a of
        None \<Rightarrow> (s, [])
      | Some r \<Rightarrow>
          let r1 = r\<lparr>gameState := (gameState r)\<lparr>currentRound := currentRound (gameState r) + 1,
                                                  phase := playing, timerEnabled := False,
                                                  stoppedBy := None,
                                                  allAnswersSubmitted := False\<rparr>,
                     players := Map_forEach (players r)
                        (\<lambda>p. p\<lparr>answers := Map.empty, hasSubmitted := False, roundScore := Num 0\<rparr>)\<rparr>;
              (r2, cats) = setupCategories rnd r1;
              (s1, h) = setTimeout (put_room s a r2) (MinTimeElapsed a) (minTime (settings r2) * 1000)
          in (s1, [Emit (ToRoom (Some (code r2))) ''round:start'' (Data r2)]))"

text \<open>The min-time callback (lines 627 to 630).\<close>

definition min_time_elapsed :: "server \<Rightarrow> nat \<Rightarrow> server \<times> emit list" where
  "min_time_elapsed s a =
     (case heap s a of
        None \<Rightarrow> (s, [])
      | Some r \<Rightarrow>
          (put_room s a (r\<lparr>gameState := (gameState r)\<lparr>timerEnabled := True\<rparr>\<rparr>),
           [Emit (ToRoom (Some (code r))) ''stop:enabled'' NoData]))"

subsection \<open>\<open>answers:submit\<close>\<close>

definition answers_submit :: "server \<Rightarrow> nat \<Rightarrow> (jstr \<rightharpoonup> jstr) \<Rightarrow> server \<times> emit list" where
  "answers_submit s k ans =
     (case bound_ids s k of
        None \<Rightarrow> (s, [])
      | Some (rc, me) \<Rightarrow>
          (case rooms_get s rc of
             None \<Rightarrow> (s, [])
           | Some (a, r) \<Rightarrow>
               (case Map_get (players r) me of
                  None \<Rightarrow> (s, [])
                | Some p \<Rightarrow>
                    let r1 = r\<lparr>players := Map_modify (players r) me
                                   (\<lambda>q. q\<lparr>answers := ans, hasSubmitted := True\<rparr>)\<rparr>;
                        allSubmitted = foldl (\<lambda>b q. if isConnected q \<and> \<not> hasSubmitted q then False else b)
                                         True (Map_values (players r1))
                    in if allSubmitted
                       then (put_room s a (r1\<lparr>gameState := (gameState r1)\<lparr>allAnswersSubmitted := True\<rparr>\<rparr>),
                             [Emit (ToRoom (Some rc)) ''player:submitted'' (Subject me),
                              Emit (ToRoom (Some rc)) ''all:submitted'' NoData])
                       else (put_room s a r1,
                             [Emit (ToRoom (Some rc)) ''player:submitted'' (Subject me)]))))"

subsection \<open>\<open>round:stop\<close>, \<open>endRound\<close>\<close>

text \<open>
  The handler reads \<open>player.nick\<close> without checking that the player is still in the room:
  for a connection whose player was removed this is a \<open>TypeError\<close>, thrown out of the
  handler.
\<close>

definition round_stop :: "server \<Rightarrow> nat \<Rightarrow> error + server \<times> emit list" where
  "round_stop s k =
     (case bound_ids s k of
        None \<Rightarrow> Inr (s, [])
      | Some (rc, me) \<Rightarrow>
          (case rooms_get s rc of
             None \<Rightarrow> Inr (s, [])
           | Some (a, r) \<Rightarrow>
               if phase (gameState r) \<noteq> playing then Inr (s, [])
               else if \<not> timerEnabled (gameState r)
               then Inr (s, [Emit (ToSocket k) ''game:error'' (Message MSG_WAIT_FOR_TIMER)])
               else
                 (case Map_get (players r) me of
                    None \<Rightarrow> Inl TypeError
                  | Some p \<Rightarrow>
                      let r' = r\<lparr>gameState := (gameState r)\<lparr>phase := stopped,
                                                             stoppedBy := Some (nick p)\<rparr>\<rparr>;
                          (s1, h) = setTimeout (put_room s a r') (StopCountdownDone a) 5000
                      in Inr (s1, [Emit (ToRoom (Some rc)) ''round:stopped'' (Subject (nick p))]))))"

text \<open>\<open>endRound(room)\<close>, run by the stop countdown on the room object it captured.\<close>

definition endRound :: "(jstr \<Rightarrow> jstr) \<Rightarrow> server \<Rightarrow> nat \<Rightarrow> server \<times> emit list" where
  "endRound lc s a =
     (case heap s a of
        None \<Rightarrow> (s, [])
      | Some r \<Rightarrow>
          let r' = calculateScores lc (r\<lparr>gameState := (gameState r)\<lparr>phase := results\<rparr>\<rparr>)
          in (put_room s a r', [Emit (ToRoom (Some (code r'))) ''round:results'' (Data r')]))"

subsection \<open>\<open>answer:invalidate\<close>\<close>

text \<open>
  \<open>targetPlayer.categoryScores[category]\<close> is a property read on a plain object
  (\<open>categoryScores\<close> is created by the literal \<open>{}\<close>): an own property, which is a recorded
  entry, or else a property of \<open>Object.prototype\<close>. The properties of \<open>Object.prototype\<close>
  are its eleven methods, the accessor \<open>__proto__\<close>, whose value on a plain object is
  \<open>Object.prototype\<close> itself, and \<open>invalidatedBy\<close> once the handler has put it there.
\<close>

definition OBJECT_PROTOTYPE_METHODS :: "jstr list" where
  "OBJECT_PROTOTYPE_METHODS =
     map asc [''constructor'', ''__defineGetter__'', ''__defineSetter__'', ''hasOwnProperty'',
              ''__lookupGetter__'', ''__lookupSetter__'', ''isPrototypeOf'',
              ''propertyIsEnumerable'', ''toString'', ''valueOf'', ''toLocaleString'']"

text \<open>What the variable \<open>score\<close> of the handler can hold.\<close>

datatype slot =
    Entry score
  | ObjectPrototype
  | PrototypeMethod jstr
  | InheritedString jstr

text \<open>
  The value of \<open>categoryScores[category]\<close> when it is truthy (objects and functions are, a
  string is unless it is empty), for the object \<open>m\<close> of recorded entries.
\<close>

definition lookup_category :: "server \<Rightarrow> (jstr \<rightharpoonup> score) \<Rightarrow> jstr \<Rightarrow> slot option" where
  "lookup_category s m category =
     (case m category of
        Some sc \<Rightarrow> Some (Entry sc)
      | None \<Rightarrow>
          if category = asc ''__proto__'' then Some ObjectPrototype
          else if category \<in> set OBJECT_PROTOTYPE_METHODS then Some (PrototypeMethod category)
          else if category = asc ''invalidatedBy''
          then (case proto_invalidatedBy s of
                  None \<Rightarrow> None
                | Some v \<Rightarrow> if v \<noteq> [] then Some (InheritedString v) else None)
          else None)"

text \<open>
  \<open>score.invalidatedBy\<close>: the own property when there is one, else the property of
  \<open>Object.prototype\<close> (a function and a string primitive inherit from it as well).
\<close>

definition read_invalidatedBy :: "server \<Rightarrow> slot \<Rightarrow> jstr option" where
  "read_invalidatedBy s sl =
     (case sl of
        Entry sc \<Rightarrow> (case invalidatedBy sc of Some v \<Rightarrow> Some v | None \<Rightarrow> proto_invalidatedBy s)
      | ObjectPrototype \<Rightarrow> proto_invalidatedBy s
      | PrototypeMethod f \<Rightarrow>
          (case method_invalidatedBy s f of Some v \<Rightarrow> Some v | None \<Rightarrow> proto_invalidatedBy s)
      | InheritedString v \<Rightarrow> proto_invalidatedBy s)"

text \<open>
  The body of the \<open>if\<close> at line 733, for the target player \<open>tp\<close>: the target after the
  toggle and the server with the built-in objects as the toggle leaves them; \<open>None\<close> when
  the condition of line 733 fails. \<open>delete\<close> removes an own property only, and does nothing
  to a string; an assignment to a property of a string is dropped. \<open>score.points\<close> is the
  cached number of a recorded entry and \<open>undefined\<close> on everything else, and a number plus or
  minus \<open>undefined\<close> is \<open>NaN\<close>.
\<close>

definition toggle_score :: "server \<Rightarrow> jstr \<Rightarrow> jstr \<Rightarrow> player \<Rightarrow> (player \<times> server) option" where
  "toggle_score s me category tp =
     (case categoryScores tp of
        None \<Rightarrow> None
      | Some m \<Rightarrow>
          (case lookup_category s m category of
             None \<Rightarrow> None
           | Some sl \<Rightarrow>
               if truthy (read_invalidatedBy s sl)
               then (case sl of
                       Entry sc \<Rightarrow>
                         Some (tp\<lparr>categoryScores := Some (m(category \<mapsto> sc\<lparr>invalidatedBy := None\<rparr>)),
                                  roundScore := jsadd (roundScore tp) (Num (points sc)),
                                  totalScore := jsadd (totalScore tp) (Num (points sc))\<rparr>, s)
                     | ObjectPrototype \<Rightarrow>
                         Some (tp\<lparr>roundScore := jsadd (roundScore tp) NaN,
                                  totalScore := jsadd (totalScore tp) NaN\<rparr>,
                               s\<lparr>proto_invalidatedBy := None\<rparr>)
                     | PrototypeMethod f \<Rightarrow>
                         Some (tp\<lparr>roundScore := jsadd (roundScore tp) NaN,
                                  totalScore := jsadd (totalScore tp) NaN\<rparr>,
                               s\<lparr>method_invalidatedBy := (method_invalidatedBy s)(f := None)\<rparr>)
                     | InheritedString v \<Rightarrow>
                         Some (tp\<lparr>roundScore := jsadd (roundScore tp) NaN,
                                  totalScore := jsadd (totalScore tp) NaN\<rparr>, s))
               else (case sl of
                       Entry sc \<Rightarrow>
                         Some (tp\<lparr>categoryScores := Some (m(category \<mapsto> sc\<lparr>invalidatedBy := Some me\<rparr>)),
                                  roundScore := jssub (roundScore tp) (Num (points sc)),
                                  totalScore := jssub (totalScore tp) (Num (points sc))\<rparr>, s)
                     | ObjectPrototype \<Rightarrow>
                         Some (tp\<lparr>roundScore := jssub (roundScore tp) NaN,
                                  totalScore := jssub (totalScore tp) NaN\<rparr>,
                               s\<lparr>proto_invalidatedBy := Some me\<rparr>)
                     | PrototypeMethod f \<Rightarrow>
                         Some (tp\<lparr>roundScore := jssub (roundScore tp) NaN,
                                  totalScore := jssub (totalScore tp) NaN\<rparr>,
                               s\<lparr>method_invalidatedBy := (method_invalidatedBy s)(f \<mapsto> me)\<rparr>)
                     | InheritedString v \<Rightarrow>
                         Some (tp\<lparr>roundScore := jssub (roundScore tp) NaN,
                                  totalScore := jssub (totalScore tp) NaN\<rparr>, s))))"

definition answer_invalidate :: "server \<Rightarrow> nat \<Rightarrow> jstr \<Rightarrow> jstr \<Rightarrow> server \<times> emit list" where
  "answer_invalidate s k targetPlayerId category =
     (case bound_ids s k of
        None \<Rightarrow> (s, [])
      | Some (rc, me) \<Rightarrow>
          (case rooms_get s rc of
             None \<Rightarrow> (s, [])
           | Some (a, r) \<Rightarrow>
               (case Map_get (players r) targetPlayerId of
                  None \<Rightarrow> (s, [])
                | Some tp \<Rightarrow>
                    (case toggle_score s me category tp of
                       None \<Rightarrow> (s, [])
                     | Some (tp', s1) \<Rightarrow>
                         let r' = r\<lparr>players := Map_modify (players r) targetPlayerId (\<lambda>q. tp')\<rparr>
                         in (put_room s1 a r',
                             [Emit (ToRoom (Some rc)) ''answer:toggled'' (Data r')])))))"

subsection \<open>\<open>game:nextRound\<close>, \<open>game:returnToLobby\<close> and the end-game cooldown\<close>

text \<open>The reset to the lobby, written twice in the source (lines 783 to 792 and 810 to 819).\<close>

definition reset_to_lobby :: "room \<Rightarrow> room" where
  "reset_to_lobby r =
     r\<lparr>gameState := (gameState r)\<lparr>phase := lobby, currentRound := 0, usedLetters := []\<rparr>,
       players := Map_forEach (players r)
          (\<lambda>p. p\<lparr>isReady := isHost p, totalScore := Num 0, roundScore := Num 0, answers := Map.empty\<rparr>)\<rparr>"

definition game_nextRound :: "server \<Rightarrow> nat \<Rightarrow> server \<times> emit list" where
  "game_nextRound s k =
     (case bound_ids s k of
        None \<Rightarrow> (s, [])
      | Some (rc, me) \<Rightarrow>
          (case rooms_get s rc of
             None \<Rightarrow> (s, [])
           | Some (a, r) \<Rightarrow>
               if hostId r \<noteq> me then (s, [])
               else if currentRound (gameState r) \<ge> maxRounds (settings r)
               then
                 let r' = r\<lparr>gameState := (gameState r)\<lparr>phase := ended\<rparr>\<rparr>;
                     (s1, h) = setTimeout (put_room s a r') (EndGameCooldown k a) 10000
                 in (s1, [Emit (ToRoom (Some rc)) ''game:ended'' (Data r')])
               else
                 (put_room s a (r\<lparr>gameState := (gameState r)\<lparr>phase := sticks\<rparr>\<rparr>),
                  [Emit (ToRoom (Some rc)) ''phase:sticks'' NoData])))"

text \<open>The cooldown callback (lines 782 to 795), on the room object it captured.\<close>

definition end_game_cooldown :: "server \<Rightarrow> nat \<Rightarrow> nat \<Rightarrow> server \<times> emit list" where
  "end_game_cooldown s k a =
     (case heap s a of
        None \<Rightarrow> (s, [])
      | Some r \<Rightarrow>
          let r' = reset_to_lobby r
          in (put_room s a r', [Emit (ToRoom (room_var s k)) ''game:reset'' (Data r')]))"

definition game_returnToLobby :: "server \<Rightarrow> nat \<Rightarrow> server \<times> emit list" where
  "game_returnToLobby s k =
     (case bound_ids s k of
        None \<Rightarrow> (s, [])
      | Some (rc, me) \<Rightarrow>
          (case rooms_get s rc of
             None \<Rightarrow> (s, [])
           | Some (a, r) \<Rightarrow>
               if hostId r \<noteq> me then (s, [])
               else
                 let r' = reset_to_lobby r
                 in (put_room s a r', [Emit (ToRoom (Some rc)) ''game:reset'' (Data r')])))"

subsection \<open>\<open>room:leave\<close> and \<open>player:kick\<close>\<close>

definition room_leave :: "server \<Rightarrow> nat \<Rightarrow> server \<times> emit list" where
  "room_leave s k =
     (case bound_ids s k of
        None \<Rightarrow> (s, [])
      | Some (rc, me) \<Rightarrow>
          (case rooms_get s rc of
             None \<Rightarrow> (s, [])
           | Some (a, r) \<Rightarrow>
               let player = Map_get (players r) me;
                   s1 = (case player of
                           None \<Rightarrow> s
                         | Some p \<Rightarrow>
                             if sessionId p \<noteq> []
                             then s\<lparr>playerSessions := Map_delete (playerSessions s) (sessionId p)\<rparr>
                             else s);
                   r1 = r\<lparr>players := Map_delete (players r) me\<rparr>;
                   (r2, e) = succeed_host rc me r1;
                   (s2, e2) =
                     (if length (players r2) = 0
                      then ((put_room s1 a r2)\<lparr>rooms := Map_delete (rooms s1) rc\<rparr>, e)
                      else (put_room s1 a r2,
                            e @ [Emit (ToRoom (Some rc)) ''room:update'' (Data r2),
                                 Emit (ToRoom (Some rc)) ''player:left'' (Subject me)]));
                   s3 = s2\<lparr>conns := Map_modify (conns s2) k
                             (\<lambda>c. c\<lparr>currentPlayerId := None, currentRoomCode := None\<rparr>)\<rparr>
               in (s3, e2 @ [Emit (ToSocket k) ''room:left'' NoData])))"

definition player_kick :: "server \<Rightarrow> nat \<Rightarrow> jstr \<Rightarrow> server \<times> emit list" where
  "player_kick s k targetPlayerId =
     (case bound_ids s k of
        None \<Rightarrow> (s, [])
      | Some (rc, me) \<Rightarrow>
          (case rooms_get s rc of
             None \<Rightarrow> (s, [])
           | Some (a, r) \<Rightarrow>
               if hostId r \<noteq> me then (s, [])
               else if targetPlayerId = me then (s, [])
               else
                 (case Map_get (players r) targetPlayerId of
                    None \<Rightarrow> (s, [])
                  | Some tp \<Rightarrow>
                      let s1 = (if sessionId tp \<noteq> []
                                then s\<lparr>playerSessions := Map_delete (playerSessions s) (sessionId tp)\<rparr>
                                else s);
                          e1 = (case socketId tp of
                                  None \<Rightarrow> []
                                | Some t \<Rightarrow> [Emit (ToSocket t) ''player:kicked'' NoData]);
                          r' = r\<lparr>players := Map_delete (players r) targetPlayerId\<rparr>
                      in (put_room s1 a r',
                          e1 @ [Emit (ToRoom (Some rc)) ''room:update'' (Data r'),
                                Emit (ToRoom (Some rc)) ''player:left'' (Subject targetPlayerId)]))))"

subsection \<open>\<open>player:typing\<close>, \<open>chat:message\<close>, \<open>disconnect\<close>\<close>

definition player_typing :: "server \<Rightarrow> nat \<Rightarrow> jstr \<Rightarrow> server \<times> emit list" where
  "player_typing s k category =
     (case bound_ids s k of
        None \<Rightarrow> (s, [])
      | Some (rc, me) \<Rightarrow> (s, [Emit (ToRoomExcept k (Some rc)) ''player:isTyping'' (Subject me)]))"

definition chat_message :: "server \<Rightarrow> nat \<Rightarrow> jstr \<Rightarrow> server \<times> emit list" where
  "chat_message s k msg =
     (case bound_ids s k of
        None \<Rightarrow> (s, [])
      | Some (rc, me) \<Rightarrow>
          (case rooms_get s rc of
             None \<Rightarrow> (s, [])
           | Some (a, r) \<Rightarrow>
               (case Map_get (players r) me of
                  None \<Rightarrow> (s, [])
                | Some p \<Rightarrow> (s, [Emit (ToRoom (Some rc)) ''chat:message'' (Message (take 200 msg))]))))"

text \<open>
  The transport closed the connection: the handler runs \<open>handlePlayerDisconnect\<close> when both
  variables are truthy (\<open>currentRoomCode && currentPlayerId\<close>), and the socket receives no
  event afterwards.
\<close>

definition disconnect :: "server \<Rightarrow> nat \<Rightarrow> server \<times> emit list" where
  "disconnect s k =
     (let (s1, e) = (case bound_ids s k of
                       None \<Rightarrow> (s, [])
                     | Some (rc, me) \<Rightarrow> handlePlayerDisconnect s k me rc)
      in (s1\<lparr>conns := Map_modify (conns s1) k (\<lambda>c. c\<lparr>connected := False\<rparr>)\<rparr>, e))"

section \<open>Events and runs\<close>

text \<open>
  What happens to the server: a client connects, a connected client sends one of the events
  of the protocol, time passes, or a pending timer whose delay has elapsed fires. Random
  draws and generated identifiers are carried by the event that consumes them. An event
  from a socket that is not connected does not exist; the model ignores it.
\<close>

datatype event =
    Connect nat
  | SessionRestore nat jstr jstr
  | RoomCreate nat jstr jstr jstr "nat \<Rightarrow> nat" jstr
  | RoomJoin nat jstr jstr jstr jstr jstr
  | PlayerReady nat bool
  | SettingsUpdate nat settings_patch
  | GameStart nat
  | SticksDraw nat nat
  | PlayerTyping nat jstr
  | AnswersSubmit nat "jstr \<rightharpoonup> jstr"
  | RoundStop nat
  | AnswerInvalidate nat jstr jstr
  | GameNextRound nat
  | GameReturnToLobby nat
  | RoomLeave nat
  | PlayerKick nat jstr
  | ChatMessage nat jstr
  | Disconnect nat
  | Advance nat
  | Fire nat nat

definition is_connected :: "server \<Rightarrow> nat \<Rightarrow> bool" where
  "is_connected s k = (case Map_get (conns s) k of None \<Rightarrow> False | Some c \<Rightarrow> connected c)"

definition connect :: "server \<Rightarrow> nat \<Rightarrow> server \<times> emit list" where
  "connect s k =
     (case Map_get (conns s) k of
        None \<Rightarrow> (s\<lparr>conns := Map_set (conns s) k
                     \<lparr>currentPlayerId = None, currentRoomCode = None, connected = True\<rparr>\<rparr>, [])
      | Some c \<Rightarrow> (s, []))"

text \<open>The code a callback runs; \<open>rnd\<close> is the draw \<open>startRound\<close> consumes for the bonus category.\<close>

fun run_callback :: "(jstr \<Rightarrow> jstr) \<Rightarrow> server \<Rightarrow> nat \<Rightarrow> callback \<Rightarrow> server \<times> emit list" where
  "run_callback lc s rnd (DrawAnimationDone k a letter) = draw_animation_done s k a letter"
| "run_callback lc s rnd (LetterShown a) = startRound s a rnd"
| "run_callback lc s rnd (MinTimeElapsed a) = min_time_elapsed s a"
| "run_callback lc s rnd (StopCountdownDone a) = endRound lc s a"
| "run_callback lc s rnd (EndGameCooldown k a) = end_game_cooldown s k a"
| "run_callback lc s rnd (ReconnectExpired playerId rc pnick) = reconnect_expired s playerId rc pnick"

definition find_timer :: "server \<Rightarrow> nat \<Rightarrow> (nat \<times> callback) option" where
  "find_timer s h = map_of (timers s) h"

definition fire :: "(jstr \<Rightarrow> jstr) \<Rightarrow> server \<Rightarrow> nat \<Rightarrow> nat \<Rightarrow> server \<times> emit list" where
  "fire lc s h rnd =
     (case find_timer s h of
        None \<Rightarrow> (s, [])
      | Some (due, cb) \<Rightarrow>
          if due \<le> clock s then run_callback lc (clearTimeout s h) rnd cb else (s, []))"

definition from_socket :: "server \<Rightarrow> nat \<Rightarrow> server \<times> emit list \<Rightarrow> error + server \<times> emit list" where
  "from_socket s k res = (if is_connected s k then Inr res else Inr (s, []))"

fun step :: "(jstr \<Rightarrow> jstr) \<Rightarrow> (jstr \<Rightarrow> jstr) \<Rightarrow> server \<Rightarrow> event \<Rightarrow> error + server \<times> emit list" where
  "step lc uc s (Connect k) = Inr (connect s k)"
| "step lc uc s (SessionRestore k sid playerId) = from_socket s k (session_restore s k sid playerId)"
| "step lc uc s (RoomCreate k pnick pavatar sid rnd uuid) =
     from_socket s k (room_create s k pnick pavatar sid rnd uuid)"
| "step lc uc s (RoomJoin k roomCode pnick pavatar sid uuid) =
     from_socket s k (room_join uc s k roomCode pnick pavatar sid uuid)"
| "step lc uc s (PlayerReady k ready) = from_socket s k (player_ready s k ready)"
| "step lc uc s (SettingsUpdate k pt) = from_socket s k (settings_update_event s k pt)"
| "step lc uc s (GameStart k) = from_socket s k (game_start s k)"
| "step lc uc s (SticksDraw k rnd) = from_socket s k (sticks_draw s k rnd)"
| "step lc uc s (PlayerTyping k category) = from_socket s k (player_typing s k category)"
| "step lc uc s (AnswersSubmit k ans) = from_socket s k (answers_submit s k ans)"
| "step lc uc s (RoundStop k) = (if is_connected s k then round_stop s k else Inr (s, []))"
| "step lc uc s (AnswerInvalidate k targetPlayerId category) =
     from_socket s k (answer_invalidate s k targetPlayerId category)"
| "step lc uc s (GameNextRound k) = from_socket s k (game_nextRound s k)"
| "step lc uc s (GameReturnToLobby k) = from_socket s k (game_returnToLobby s k)"
| "step lc uc s (RoomLeave k) = from_socket s k (room_leave s k)"
| "step lc uc s (PlayerKick k targetPlayerId) = from_socket s k (player_kick s k targetPlayerId)"
| "step lc uc s (ChatMessage k msg) = from_socket s k (chat_message s k msg)"
| "step lc uc s (Disconnect k) = from_socket s k (disconnect s k)"
| "step lc uc s (Advance d) = Inr (s\<lparr>clock := clock s + d\<rparr>, [])"
| "step lc uc s (Fire h rnd) = Inr (fire lc s h rnd)"

text \<open>A run handles the events in order and stops at the first error thrown.\<close>

fun run :: "(jstr \<Rightarrow> jstr) \<Rightarrow> (jstr \<Rightarrow> jstr) \<Rightarrow> server \<Rightarrow> event list \<Rightarrow> error + server" where
  "run lc uc s [] = Inr s"
| "run lc uc s (e # es) =
     (case step lc uc s e of Inl x \<Rightarrow> Inl x | Inr (s', out) \<Rightarrow> run lc uc s' es)"

text \<open>The states the server can be in: those a run from the empty server ends in.\<close>

inductive reachable :: "(jstr \<Rightarrow> jstr) \<Rightarrow> (jstr \<Rightarrow> jstr) \<Rightarrow> server \<Rightarrow> bool"
  for lc :: "jstr \<Rightarrow> jstr" and uc :: "jstr \<Rightarrow> jstr" where
    reachable_initial: "reachable lc uc initial"
  | reachable_step: "reachable lc uc s \<Longrightarrow> step lc uc s e = Inr (s', out) \<Longrightarrow> reachable lc uc s'"

section \<open>Definitions for the statements\<close>

text \<open>
  The scoring rule in the words of the specification, to be compared with the loops above.
  None of these definitions uses a function of the round engine. The answer of a player for
  a category is the string the client sent under the category key, the empty string when it
  sent none. A string is the trimmed form of another when the other is that string between
  two runs of white space and the string itself neither begins nor ends with white space.
  The normalised answer is the lowercased trimmed form. One string starts with another when
  the other is a prefix of it (\<open>prefix\<close> is the prefix order of lists).
\<close>

definition answer_for :: "player \<Rightarrow> jstr \<Rightarrow> jstr" where
  "answer_for p c = (case answers p c of None \<Rightarrow> [] | Some v \<Rightarrow> v)"

definition trimmed_form :: "jstr \<Rightarrow> jstr \<Rightarrow> bool" where
  "trimmed_form raw t =
     (\<exists>before after. raw = before @ t @ after \<and>
         (\<forall>c \<in> set before. isWhiteSpace c) \<and> (\<forall>c \<in> set after. isWhiteSpace c) \<and>
         (t \<noteq> [] \<longrightarrow> \<not> isWhiteSpace (hd t) \<and> \<not> isWhiteSpace (last t)))"

definition spec_normalized :: "(jstr \<Rightarrow> jstr) \<Rightarrow> player \<Rightarrow> jstr \<Rightarrow> jstr \<Rightarrow> bool" where
  "spec_normalized lc p c a = (\<exists>t. trimmed_form (answer_for p c) t \<and> a = lc t)"

text \<open>
  The entry the specification asks for, for the normalised answer \<open>a\<close> of a player: invalid
  with 0 points when \<open>a\<close> is empty or does not start with the lowercased letter; otherwise
  valid with 20 points, or 10 when another player (a different player id) has the same
  normalised answer for the category.
\<close>

definition spec_valid :: "(jstr \<Rightarrow> jstr) \<Rightarrow> jstr \<Rightarrow> jstr \<Rightarrow> bool" where
  "spec_valid lc letter a = (\<not> (a = [] \<or> \<not> prefix (lc letter) a))"

definition spec_points :: "(jstr \<Rightarrow> jstr) \<Rightarrow> player list \<Rightarrow> jstr \<Rightarrow> player \<Rightarrow> jstr \<Rightarrow> jstr \<Rightarrow> int" where
  "spec_points lc ps letter p c a =
     (if a = [] \<or> \<not> prefix (lc letter) a then 0
      else if (\<exists>q \<in> set ps. pid q \<noteq> pid p \<and> spec_normalized lc q c a) then 10
      else 20)"

text \<open>The points recorded for a list of category keys, summed.\<close>

definition recorded_points :: "(jstr \<rightharpoonup> score) \<Rightarrow> jstr list \<Rightarrow> int" where
  "recorded_points m cats = (\<Sum>c\<leftarrow>cats. case m c of None \<Rightarrow> 0 | Some sc \<Rightarrow> points sc)"

text \<open>
  The letters still available in the words of the specification: the alphabet, in its order,
  without the used letters.
\<close>

definition available_letters :: "jstr list \<Rightarrow> jstr list" where
  "available_letters used = filter (\<lambda>l. l \<notin> set used) GEORGIAN_ALPHABET"

text \<open>Consecutive draws in one room, one random number each.\<close>

fun draw_many :: "nat list \<Rightarrow> room \<Rightarrow> room" where
  "draw_many [] r = r"
| "draw_many (x # xs) r = draw_many xs (fst (draw_letter x r))"

text \<open>
  The checks the handlers of the game events make before they change anything, collected
  from the source: both connection variables set and the room registered
  (\<open>bound_room\<close>), for the host-only events the sender is the host (\<open>host_room\<close>); on top of
  that \<open>game:start\<close> wants every connected player ready, \<open>round:stop\<close> the playing phase
  and the stop timer elapsed, \<open>answers:submit\<close> the sender among the players. The other
  events have no guard here.
\<close>

definition bound_room :: "server \<Rightarrow> nat \<Rightarrow> (jstr \<times> jstr \<times> nat \<times> room) option" where
  "bound_room s k =
     (if \<not> is_connected s k then None
      else case bound_ids s k of
             None \<Rightarrow> None
           | Some (rc, me) \<Rightarrow>
               (case rooms_get s rc of None \<Rightarrow> None | Some (a, r) \<Rightarrow> Some (rc, me, a, r)))"

definition host_room :: "server \<Rightarrow> nat \<Rightarrow> (jstr \<times> jstr \<times> nat \<times> room) option" where
  "host_room s k =
     (case bound_room s k of
        None \<Rightarrow> None
      | Some (rc, me, a, r) \<Rightarrow> if hostId r = me then Some (rc, me, a, r) else None)"

fun guard :: "server \<Rightarrow> event \<Rightarrow> bool" where
  "guard s (GameStart k) =
     (case host_room s k of None \<Rightarrow> False | Some (rc, me, a, r) \<Rightarrow> allPlayersReady r)"
| "guard s (SticksDraw k rnd) = (host_room s k \<noteq> None)"
| "guard s (GameNextRound k) = (host_room s k \<noteq> None)"
| "guard s (GameReturnToLobby k) = (host_room s k \<noteq> None)"
| "guard s (RoundStop k) =
     (case bound_room s k of
        None \<Rightarrow> False
      | Some (rc, me, a, r) \<Rightarrow> phase (gameState r) = playing \<and> timerEnabled (gameState r))"
| "guard s (AnswersSubmit k ans) =
     (case bound_room s k of
        None \<Rightarrow> False
      | Some (rc, me, a, r) \<Rightarrow> Map_get (players r) me \<noteq> None)"
| "guard s e = True"

text \<open>
  The two sides of the relation between letter and phase, and the invariant that carries
  one of them through every step: a room that is in a round has its letter set; every
  pending callback that will start or end a round (or arm the timer that starts it) refers
  to a room whose letter is set; and room objects live below the next free address.
\<close>

definition letter_set :: "room \<Rightarrow> bool" where
  "letter_set r = (currentLetter (gameState r) \<noteq> [])"

definition in_round :: "room \<Rightarrow> bool" where
  "in_round r = (phase (gameState r) = playing \<or> phase (gameState r) = stopped \<or>
                 phase (gameState r) = results)"

fun needs_letter :: "callback \<Rightarrow> nat option" where
  "needs_letter (DrawAnimationDone k a letter) = Some a"
| "needs_letter (LetterShown a) = Some a"
| "needs_letter (StopCountdownDone a) = Some a"
| "needs_letter (MinTimeElapsed a) = None"
| "needs_letter (EndGameCooldown k a) = None"
| "needs_letter (ReconnectExpired p rc n) = None"

definition letter_inv :: "server \<Rightarrow> bool" where
  "letter_inv s =
     ((\<forall>a r. heap s a = Some r \<longrightarrow> in_round r \<longrightarrow> letter_set r) \<and>
      (\<forall>h due cb a. (h, due, cb) \<in> set (timers s) \<longrightarrow> needs_letter cb = Some a \<longrightarrow>
          (\<exists>r. heap s a = Some r \<and> letter_set r)) \<and>
      (\<forall>a. heap s a \<noteq> None \<longrightarrow> a < nextAddr s))"

text \<open>The registry holds one entry per code.\<close>

definition registry_ok :: "server \<Rightarrow> bool" where
  "registry_ok s = distinct (map fst (rooms s))"

section \<open>Concrete rooms and runs\<close>

text \<open>
  A lowercase mapping to run the scoring pass on capitals: it agrees with \<open>toLowerCase\<close> on
  ASCII, on the Mkhedruli letters (U+10D0 to U+10FF, which are lowercase) and on the Mtavruli
  capitals (U+1C90 to U+1CBA and U+1CBD to U+1CBF, whose lowercase letters lie 0xBC0 below).
\<close>

definition georgian_lower :: "jstr \<Rightarrow> jstr" where
  "georgian_lower s =
     map (\<lambda>c. if 65 \<le> c \<and> c \<le> 90 then c + 32
              else if (0x1C90 \<le> c \<and> c \<le> 0x1CBA) \<or> (0x1CBD \<le> c \<and> c \<le> 0x1CBF) then c - 0xBC0
              else c) s"

text \<open>
  Scenario S2 extended: the letter is U+10D1 and there are three categories. The three
  players answer \<open>cat_0\<close> with the same word: the first as it is, the second in capitals
  between a tab and a no-break space, the third followed by a space. For \<open>cat_1\<close> the first
  player gives another word with the letter, the second a word with another letter, the
  third two spaces. For \<open>cat_2\<close> the first player sends nothing, the second the capital of
  the letter alone, the third the letter after a word with another letter.
\<close>

definition new_player :: "jstr \<Rightarrow> jstr \<Rightarrow> (jstr \<rightharpoonup> jstr) \<Rightarrow> int \<Rightarrow> player" where
  "new_player i n ans tot =
     \<lparr>pid = i, nick = n, avatarSeed = [], isHost = False, isReady = True, isConnected = True,
      socketId = None, sessionId = [], answers = ans, roundScore = Num 5, totalScore = Num tot,
      hasSubmitted = True, categoryScores = None\<rparr>"

definition S2_player_a :: player where
  "S2_player_a = new_player (asc ''player_a'') (asc ''A'')
     [asc ''cat_0'' \<mapsto> [0x10D1, 0x10D0, 0x10E5, 0x10DD],
      asc ''cat_1'' \<mapsto> [0x10D1, 0x10D0, 0x10D7, 0x10E3, 0x10DB, 0x10D8]] 40"

definition S2_player_b :: player where
  "S2_player_b = new_player (asc ''player_b'') (asc ''B'')
     [asc ''cat_0'' \<mapsto> [0x9, 0x1C91, 0x1C90, 0x1CA5, 0x1C9D, 0xA0],
      asc ''cat_1'' \<mapsto> [0x10D7, 0x10D1, 0x10D8, 0x10DA, 0x10D8, 0x10E1, 0x10D8],
      asc ''cat_2'' \<mapsto> [0x1C91]] 0"

definition S2_player_c :: player where
  "S2_player_c = new_player (asc ''player_c'') (asc ''C'')
     [asc ''cat_0'' \<mapsto> [0x10D1, 0x10D0, 0x10E5, 0x10DD, 0x20],
      asc ''cat_1'' \<mapsto> [0x20, 0x20],
      asc ''cat_2'' \<mapsto> [0x10D0, 0x10D1, 0x10D0, 0x20, 0x10D1]] 15"

definition S2_room :: room where
  "S2_room =
     \<lparr>code = asc ''ABCDE'', hostId = asc ''player_a'',
      players = [(asc ''player_a'', S2_player_a), (asc ''player_b'', S2_player_b),
                 (asc ''player_c'', S2_player_c)],
      settings = \<lparr>minTime = 15, maxRounds = 5, useBonus = False, categories = None\<rparr>,
      gameState = \<lparr>phase = stopped, currentRound = 1, currentLetter = [0x10D1],
                   usedLetters = [[0x10D1]],
                   activeCategories = [(asc ''cat_0'', [0x10E5]), (asc ''cat_1'', [0x10E1]),
                                       (asc ''cat_2'', [0x10D2])],
                   stoppedBy = Some (asc ''A''), timerEnabled = True,
                   allAnswersSubmitted = True\<rparr>\<rparr>"

text \<open>
  A server with one room of two connected players in the third round of a game, in a given
  phase and with a given \<open>timerEnabled\<close>; the first player has a scored entry of 20 points
  for \<open>cat_0\<close>.
\<close>

definition demo_player_a :: player where
  "demo_player_a =
     \<lparr>pid = asc ''player_a'', nick = asc ''A'', avatarSeed = [], isHost = True, isReady = True,
      isConnected = True, socketId = Some 1, sessionId = asc ''sa'',
      answers = [asc ''cat_0'' \<mapsto> [0x10D1, 0x10D0, 0x10E5, 0x10DD]],
      roundScore = Num 20, totalScore = Num 50, hasSubmitted = True,
      categoryScores = Some [asc ''cat_0'' \<mapsto>
         \<lparr>points = 20, isValid = True, answer = [0x10D1, 0x10D0, 0x10E5, 0x10DD],
          invalidatedBy = None\<rparr>]\<rparr>"

definition demo_player_b :: player where
  "demo_player_b =
     \<lparr>pid = asc ''player_b'', nick = asc ''B'', avatarSeed = [], isHost = False, isReady = True,
      isConnected = True, socketId = Some 2, sessionId = asc ''sb'',
      answers = Map.empty, roundScore = Num 0, totalScore = Num 10, hasSubmitted = False,
      categoryScores = Some [asc ''cat_0'' \<mapsto>
         \<lparr>points = 0, isValid = False, answer = [], invalidatedBy = None\<rparr>]\<rparr>"

definition demo_room :: "phase \<Rightarrow> bool \<Rightarrow> room" where
  "demo_room ph te =
     \<lparr>code = asc ''ABCDE'', hostId = asc ''player_a'',
      players = [(asc ''player_a'', demo_player_a), (asc ''player_b'', demo_player_b)],
      settings = \<lparr>minTime = 15, maxRounds = 5, useBonus = False,
                  categories = Some [[0x10E5]]\<rparr>,
      gameState = \<lparr>phase = ph, currentRound = 3, currentLetter = [0x10D1],
                   usedLetters = [[0x10D0], [0x10D2], [0x10D1]],
                   activeCategories = [(asc ''cat_0'', [0x10E5])],
                   stoppedBy = None, timerEnabled = te, allAnswersSubmitted = False\<rparr>\<rparr>"

definition demo_server :: "phase \<Rightarrow> bool \<Rightarrow> server" where
  "demo_server ph te =
     \<lparr>heap = [0 \<mapsto> demo_room ph te], nextAddr = 1, rooms = [(asc ''ABCDE'', 0)],
      playerSessions = [(asc ''sa'', \<lparr>s_roomCode = asc ''ABCDE'', s_playerId = asc ''player_a''\<rparr>),
                        (asc ''sb'', \<lparr>s_roomCode = asc ''ABCDE'', s_playerId = asc ''player_b''\<rparr>)],
      disconnectedPlayers = [], timers = [], nextTimer = 12, clock = 90000,
      conns = [(1, \<lparr>currentPlayerId = Some (asc ''player_a''),
                    currentRoomCode = Some (asc ''ABCDE''), connected = True\<rparr>),
               (2, \<lparr>currentPlayerId = Some (asc ''player_b''),
                    currentRoomCode = Some (asc ''ABCDE''), connected = True\<rparr>)],
      proto_invalidatedBy = None, method_invalidatedBy = Map.empty\<rparr>"

text \<open>
  Scenario S8 starts in a room whose used set is empty, as \<open>game:start\<close> leaves it.
\<close>

definition S8_room :: room where
  "S8_room =
     \<lparr>code = asc ''ABCDE'', hostId = asc ''player_a'', players = [],
      settings = \<lparr>minTime = 15, maxRounds = 5, useBonus = False,
                  categories = Some DEFAULT_CATEGORIES\<rparr>,
      gameState = \<lparr>phase = sticks, currentRound = 0, currentLetter = [], usedLetters = [],
                   activeCategories = [], stoppedBy = None, timerEnabled = False,
                   allAnswersSubmitted = False\<rparr>\<rparr>"

text \<open>Identifiers and codes the runs below generate.\<close>

definition uuidA :: jstr where "uuidA = asc ''a0000000-0000-4000-8000-000000000000''"

definition uuidB :: jstr where "uuidB = asc ''b0000000-0000-4000-8000-000000000000''"

definition pidA :: jstr where "pidA = generatePlayerId uuidA"

definition pidB :: jstr where "pidB = generatePlayerId uuidB"

definition codeA :: jstr where "codeA = generateRoomCode (\<lambda>i. 0)"

text \<open>
  One player creates a room, sets one round with no minimum time and one category, plays the
  round to its results and ends the game; then returns to the lobby and starts a new game
  one second later.
\<close>

definition one_round :: "event list" where
  "one_round =
     [Connect 1,
      RoomCreate 1 (asc ''Ana'') (asc ''seed'') (asc ''sa'') (\<lambda>i. 0) uuidA,
      SettingsUpdate 1 \<lparr>p_minTime = Some 0, p_maxRounds = Some 1, p_useBonus = None,
                        p_categories = Some [[0x10E5, 0x10D0, 0x10DA, 0x10D0, 0x10E5, 0x10D8]]\<rparr>,
      GameStart 1, SticksDraw 1 0,
      Advance 2000, Fire 0 0, Advance 1500, Fire 1 0,
      AnswersSubmit 1 [asc ''cat_0'' \<mapsto> [0x10D0, 0x10DB]],
      Advance 1, Fire 2 0,
      RoundStop 1, Advance 5000, Fire 3 0,
      GameNextRound 1]"

definition new_game_in_cooldown :: "event list" where
  "new_game_in_cooldown = one_round @ [Advance 1000, GameReturnToLobby 1, GameStart 1, Advance 9000]"

text \<open>A new game is started while the round of the first one is still being played.\<close>

definition playing_round :: "event list" where
  "playing_round =
     [Connect 1,
      RoomCreate 1 (asc ''Ana'') (asc ''seed'') (asc ''sa'') (\<lambda>i. 0) uuidA,
      GameStart 1, SticksDraw 1 0,
      Advance 2000, Fire 0 0, Advance 1500, Fire 1 0]"

definition second_game :: "event list" where
  "second_game =
     playing_round @
     [GameReturnToLobby 1, GameStart 1, SticksDraw 1 1,
      Advance 2000, Fire 3 0, Advance 1500, Fire 4 0, Advance 11500]"

text \<open>
  Two players play a round of one category to its results: the host answers with a word
  that has the letter (20 points), the second player sends nothing. Then the second player
  toggles the host's entry twice; in the second run the second player first sends
  \<open>answer:invalidate\<close> for the category \<open>__proto__\<close> of its own scores.
\<close>

definition two_player_results :: "event list" where
  "two_player_results =
     [Connect 1,
      RoomCreate 1 (asc ''Ana'') (asc ''seed'') (asc ''sa'') (\<lambda>i. 0) uuidA,
      Connect 2, RoomJoin 2 codeA (asc ''Beka'') (asc ''seed'') (asc ''sb'') uuidB,
      PlayerReady 2 True,
      SettingsUpdate 1 \<lparr>p_minTime = Some 0, p_maxRounds = Some 1, p_useBonus = None,
                        p_categories = Some [[0x10E5, 0x10D0, 0x10DA, 0x10D0, 0x10E5, 0x10D8]]\<rparr>,
      GameStart 1, SticksDraw 1 0,
      Advance 2000, Fire 0 0, Advance 1500, Fire 1 0,
      AnswersSubmit 1 [asc ''cat_0'' \<mapsto> [0x10D0, 0x10DB]],
      Advance 1, Fire 2 0,
      RoundStop 1, Advance 5000, Fire 3 0]"

definition toggle_twice :: "event list" where
  "toggle_twice =
     [AnswerInvalidate 2 pidA (asc ''cat_0''), AnswerInvalidate 2 pidA (asc ''cat_0'')]"

definition proto_toggle :: event where
  "proto_toggle = AnswerInvalidate 2 pidB (asc ''__proto__'')"

text \<open>Two clients create a room each, and the random draws give both the same code.\<close>

definition two_creates :: "event list" where
  "two_creates =
     [Connect 1, RoomCreate 1 (asc ''Ana'') (asc ''seed'') (asc ''sa'') (\<lambda>i. 0) uuidA,
      Connect 2, RoomCreate 2 (asc ''Beka'') (asc ''seed'') (asc ''sb'') (\<lambda>i. 0) uuidB]"

text \<open>A second player joins, loses the connection, and the host kicks the player.\<close>

definition kick_disconnected :: "event list" where
  "kick_disconnected =
     [Connect 1, RoomCreate 1 (asc ''Ana'') (asc ''seed'') (asc ''sa'') (\<lambda>i. 0) uuidA,
      Connect 2, RoomJoin 2 codeA (asc ''Beka'') (asc ''seed'') (asc ''sb'') uuidB,
      Disconnect 2, PlayerKick 1 pidB]"

text \<open>
  The second player restores the session on a second connection while the first is still
  open, the second connection drops, and the player leaves through the first.
\<close>

definition leave_disconnected :: "event list" where
  "leave_disconnected =
     [Connect 1, RoomCreate 1 (asc ''Ana'') (asc ''seed'') (asc ''sa'') (\<lambda>i. 0) uuidA,
      Connect 2, RoomJoin 2 codeA (asc ''Beka'') (asc ''seed'') (asc ''sb'') uuidB,
      Connect 3, SessionRestore 3 (asc ''sb'') pidB,
      Disconnect 3, RoomLeave 2]"

text \<open>The disconnected player comes back on a new connection.\<close>

definition restore_disconnected :: "event list" where
  "restore_disconnected =
     [Connect 1, RoomCreate 1 (asc ''Ana'') (asc ''seed'') (asc ''sa'') (\<lambda>i. 0) uuidA,
      Connect 2, RoomJoin 2 codeA (asc ''Beka'') (asc ''seed'') (asc ''sb'') uuidB,
      Disconnect 2, Connect 3, SessionRestore 3 (asc ''sb'') pidB]"

text \<open>
  The two-player room with one pending timer of each kind, all of them due.
\<close>

definition timers_server :: "phase \<Rightarrow> server" where
  "timers_server ph =
     (demo_server ph False)
       \<lparr>timers := [(1, 100, ReconnectExpired (asc ''player_b'') (asc ''ABCDE'') (asc ''B'')),
                   (2, 200, EndGameCooldown 1 0), (3, 300, MinTimeElapsed 0),
                   (4, 400, StopCountdownDone 0), (5, 500, LetterShown 0),
                   (6, 600, DrawAnimationDone 1 0 [0x10D0])],
        nextTimer := 7, clock := 20000\<rparr>"

subsection \<open>Observations on the result of a run\<close>

text \<open>What a run ends with: the room registered under a code, its phase and letter.\<close>

definition room_of :: "error + server \<Rightarrow> jstr \<Rightarrow> room option" where
  "room_of res rc = (case res of Inl x \<Rightarrow> None | Inr s \<Rightarrow> map_option snd (rooms_get s rc))"

definition phase_of :: "error + server \<Rightarrow> jstr \<Rightarrow> phase option" where
  "phase_of res rc = map_option (\<lambda>r. phase (gameState r)) (room_of res rc)"

definition letter_of :: "error + server \<Rightarrow> jstr \<Rightarrow> jstr option" where
  "letter_of res rc = map_option (\<lambda>r. currentLetter (gameState r)) (room_of res rc)"

definition stop_enabled_of :: "error + server \<Rightarrow> jstr \<Rightarrow> bool option" where
  "stop_enabled_of res rc = map_option (\<lambda>r. timerEnabled (gameState r)) (room_of res rc)"

definition round_of :: "error + server \<Rightarrow> jstr \<Rightarrow> int option" where
  "round_of res rc = map_option (\<lambda>r. currentRound (gameState r)) (room_of res rc)"

definition clock_of :: "error + server \<Rightarrow> nat option" where
  "clock_of res = (case res of Inl x \<Rightarrow> None | Inr s \<Rightarrow> Some (clock s))"

definition members_of :: "error + server \<Rightarrow> jstr \<Rightarrow> jstr list option" where
  "members_of res rc = map_option (\<lambda>r. Map_keys (players r)) (room_of res rc)"

definition registry_of :: "error + server \<Rightarrow> (jstr \<times> nat) list" where
  "registry_of res = (case res of Inl x \<Rightarrow> [] | Inr s \<Rightarrow> rooms s)"

definition bound_of :: "error + server \<Rightarrow> nat \<Rightarrow> (jstr \<times> jstr) option" where
  "bound_of res k = (case res of Inl x \<Rightarrow> None | Inr s \<Rightarrow> bound_ids s k)"

definition pending_of :: "error + server \<Rightarrow> (jstr \<times> pending) list" where
  "pending_of res = (case res of Inl x \<Rightarrow> [] | Inr s \<Rightarrow> disconnectedPlayers s)"

definition total_of :: "error + server \<Rightarrow> jstr \<Rightarrow> jstr \<Rightarrow> jsnum option" where
  "total_of res rc p =
     (case room_of res rc of
        None \<Rightarrow> None
      | Some r \<Rightarrow> map_option totalScore (Map_get (players r) p))"

definition round_score_of :: "error + server \<Rightarrow> jstr \<Rightarrow> jstr \<Rightarrow> jsnum option" where
  "round_score_of res rc p =
     (case room_of res rc of
        None \<Rightarrow> None
      | Some r \<Rightarrow> map_option roundScore (Map_get (players r) p))"

definition entry_of :: "error + server \<Rightarrow> jstr \<Rightarrow> jstr \<Rightarrow> jstr \<Rightarrow> score option" where
  "entry_of res rc p c =
     (case room_of res rc of
        None \<Rightarrow> None
      | Some r \<Rightarrow>
          (case Map_get (players r) p of
             None \<Rightarrow> None
           | Some q \<Rightarrow> (case categoryScores q of None \<Rightarrow> None | Some m \<Rightarrow> m c)))"

definition prototype_of :: "error + server \<Rightarrow> jstr option" where
  "prototype_of res = (case res of Inl x \<Rightarrow> None | Inr s \<Rightarrow> proto_invalidatedBy s)"

definition timers_of :: "error + server \<Rightarrow> (nat \<times> nat \<times> callback) list" where
  "timers_of res = (case res of Inl x \<Rightarrow> [] | Inr s \<Rightarrow> timers s)"

section \<open>Verified properties\<close>

subsection \<open>The scoring pass\<close>

lemma duplicate_loop:
  "foldl (\<lambda>pts other. if pid other \<noteq> i then (if g other = a then 10 else pts) else pts) acc ps
     = (if (\<exists>q \<in> set ps. pid q \<noteq> i \<and> g q = a) then (10::int) else acc)"
  by (induction ps arbitrary: acc) auto

text \<open>\<open>trim\<close> computes the trimmed form, and there is no other.\<close>

lemma trimmed_form_trim: "trimmed_form raw (trim raw)"
proof -
  define d where "d = dropWhile isWhiteSpace raw"
  define e where "e = dropWhile isWhiteSpace (rev d)"
  have t: "trim raw = rev e" by (simp add: trim_def d_def e_def)
  have "rev d = takeWhile isWhiteSpace (rev d) @ e" by (simp add: e_def)
  then have "rev (rev d) = rev (takeWhile isWhiteSpace (rev d) @ e)" by simp
  then have d: "d = rev e @ rev (takeWhile isWhiteSpace (rev d))" by simp
  have raw: "raw = takeWhile isWhiteSpace raw @ rev e @ rev (takeWhile isWhiteSpace (rev d))"
    using d by (simp add: d_def)
  have b: "\<forall>c \<in> set (takeWhile isWhiteSpace raw). isWhiteSpace c"
    by (auto dest: set_takeWhileD)
  have a: "\<forall>c \<in> set (rev (takeWhile isWhiteSpace (rev d))). isWhiteSpace c"
    by (auto dest: set_takeWhileD)
  have ends: "\<not> isWhiteSpace (hd (rev e)) \<and> \<not> isWhiteSpace (last (rev e))" if ne: "rev e \<noteq> []"
  proof -
    from ne have ne': "e \<noteq> []" by simp
    then have l: "\<not> isWhiteSpace (hd e)" unfolding e_def by (rule hd_dropWhile)
    have "d \<noteq> []" using d ne by auto
    then have "\<not> isWhiteSpace (hd d)" unfolding d_def by (rule hd_dropWhile)
    moreover have "hd d = hd (rev e)" using d ne by (metis hd_append2)
    ultimately show ?thesis using l ne' by (simp add: last_rev)
  qed
  show ?thesis
    unfolding trimmed_form_def t using raw b a ends by blast
qed

lemma trimmed_form_unique:
  assumes "trimmed_form raw t"
  shows "t = trim raw"
proof -
  from assms obtain before after where
    h: "raw = before @ t @ after" "\<forall>c \<in> set before. isWhiteSpace c" "\<forall>c \<in> set after. isWhiteSpace c"
       "t \<noteq> [] \<longrightarrow> \<not> isWhiteSpace (hd t) \<and> \<not> isWhiteSpace (last t)"
    unfolding trimmed_form_def by blast
  show ?thesis
  proof (cases "t = []")
    case True
    then have "\<forall>c \<in> set raw. isWhiteSpace c" using h by auto
    then have "dropWhile isWhiteSpace raw = []" by (simp add: dropWhile_eq_Nil_conv)
    then show ?thesis using True by (auto simp: trim_def dest: set_dropWhileD)
  next
    case False
    then obtain x xs where t: "t = x # xs" by (cases t) auto
    from False h(4) have e: "\<not> isWhiteSpace (hd t)" "\<not> isWhiteSpace (last t)" by simp_all
    have "dropWhile isWhiteSpace raw = dropWhile isWhiteSpace (t @ after)"
      unfolding h(1) using h(2) by (simp add: dropWhile_append2)
    also have "\<dots> = t @ after" using e(1) t by simp
    finally have d: "dropWhile isWhiteSpace raw = t @ after" .
    have "dropWhile isWhiteSpace (rev after @ rev t) = dropWhile isWhiteSpace (rev t)"
      by (rule dropWhile_append2) (use h(3) in auto)
    then have "dropWhile isWhiteSpace (rev (t @ after)) = dropWhile isWhiteSpace (rev t)"
      by simp
    also have "\<dots> = rev t"
    proof -
      have "rev t \<noteq> []" using False by simp
      moreover have "\<not> isWhiteSpace (hd (rev t))" using e(2) False by (simp add: hd_rev)
      ultimately show ?thesis by (cases "rev t") auto
    qed
    finally show ?thesis by (simp add: trim_def d)
  qed
qed

lemma trimmed_form_iff: "trimmed_form raw t \<longleftrightarrow> t = trim raw"
  using trimmed_form_trim trimmed_form_unique by blast

lemma answer_for_raw: "answer_for p c = raw_answer p c"
  by (simp add: answer_for_def raw_answer_def)

lemma spec_normalized_iff: "spec_normalized lc p c a \<longleftrightarrow> a = normalized lc p c"
  by (simp add: spec_normalized_def trimmed_form_iff normalized_def answer_for_raw)

lemma startsWith_prefix: "startsWith s p \<longleftrightarrow> prefix p s"
proof
  assume "startsWith s p"
  then have "s = p @ drop (length p) s"
    unfolding startsWith_def by (metis append_take_drop_id)
  then show "prefix p s" by (metis prefixI)
next
  assume "prefix p s"
  then obtain r where "s = p @ r" by (auto elim: prefixE)
  then show "startsWith s p" by (simp add: startsWith_def)
qed

lemma score_category_spec:
  "score_category lc ps letter p c =
     \<lparr>points = spec_points lc ps letter p c (normalized lc p c),
      isValid = spec_valid lc letter (normalized lc p c),
      answer = answer_for p c, invalidatedBy = None\<rparr>"
  by (auto simp: score_category_def spec_points_def spec_valid_def Let_def duplicate_loop
        startsWith_prefix spec_normalized_iff answer_for_raw)

lemma score_step_frame:
  "pid (score_step lc ps letter q c) = pid q \<and> answers (score_step lc ps letter q c) = answers q
   \<and> totalScore (score_step lc ps letter q c) = totalScore q"
  by (simp add: score_step_def Let_def)

lemma score_category_cong:
  "pid q = pid p \<Longrightarrow> answers q = answers p \<Longrightarrow> score_category lc ps letter q c = score_category lc ps letter p c"
  by (simp add: score_category_def normalized_def raw_answer_def Let_def)

lemma score_step_eq:
  "pid q = pid p \<Longrightarrow> answers q = answers p \<Longrightarrow> categoryScores q = Some m \<Longrightarrow>
   score_step lc ps letter q c =
     q\<lparr>categoryScores := Some (m(c \<mapsto> score_category lc ps letter p c)),
       roundScore := jsadd (roundScore q) (Num (points (score_category lc ps letter p c)))\<rparr>"
  by (simp add: score_step_def Let_def score_category_cong [of q p])

lemma score_loop:
  "pid q = pid p \<Longrightarrow> answers q = answers p \<Longrightarrow> categoryScores q = Some m \<Longrightarrow> roundScore q = Num n \<Longrightarrow>
   (let q' = foldl (score_step lc ps letter) q cats in
      pid q' = pid p \<and> answers q' = answers p \<and> totalScore q' = totalScore q \<and>
      roundScore q' = Num (n + (\<Sum>c\<leftarrow>cats. points (score_category lc ps letter p c))) \<and>
      (\<exists>m'. categoryScores q' = Some m' \<and>
         (\<forall>c. m' c = (if c \<in> set cats then Some (score_category lc ps letter p c) else m c))))"
proof (induction cats arbitrary: q m n rule: rev_induct)
  case Nil
  then show ?case by simp
next
  case (snoc c cats)
  define q1 where "q1 = foldl (score_step lc ps letter) q cats"
  from snoc.IH [OF snoc.prems] obtain m1 where
    h: "pid q1 = pid p" "answers q1 = answers p" "totalScore q1 = totalScore q"
       "roundScore q1 = Num (n + (\<Sum>c\<leftarrow>cats. points (score_category lc ps letter p c)))"
       "categoryScores q1 = Some m1"
       "\<forall>c. m1 c = (if c \<in> set cats then Some (score_category lc ps letter p c) else m c)"
    unfolding q1_def Let_def by blast
  have "foldl (score_step lc ps letter) q (cats @ [c]) = score_step lc ps letter q1 c"
    by (simp add: q1_def)
  also have "\<dots> = q1\<lparr>categoryScores := Some (m1(c \<mapsto> score_category lc ps letter p c)),
       roundScore := jsadd (roundScore q1) (Num (points (score_category lc ps letter p c)))\<rparr>"
    by (rule score_step_eq [OF h(1) h(2) h(5)])
  finally show ?case using h by (simp add: Let_def)
qed

lemma recorded_points_loop:
  "(\<forall>c. m c = (if c \<in> set cats then Some (f c) else None)) \<Longrightarrow>
   recorded_points m cats = (\<Sum>c\<leftarrow>cats. points (f c))"
proof -
  assume h: "\<forall>c. m c = (if c \<in> set cats then Some (f c) else None)"
  have "map (\<lambda>c. case m c of None \<Rightarrow> 0 | Some sc \<Rightarrow> points sc) cats = map (\<lambda>c. points (f c)) cats"
    using h by (intro map_cong) auto
  then show ?thesis unfolding recorded_points_def by (rule arg_cong [where f = sum_list])
qed

text \<open>
  Claim C1. In the scoring pass, for every player \<open>p\<close> of the room and every category key
  \<open>c\<close>, with \<open>a\<close> the lowercased trimmed answer of \<open>p\<close> for \<open>c\<close>: the recorded entry is
  invalid with 0 points when \<open>a\<close> is empty or does not start with the lowercased
  \<open>currentLetter\<close>; otherwise it is valid with 20 points, reduced to 10 exactly when some
  other player has the identical normalised answer (however many of them there are). The
  entry keeps the raw answer and carries no \<open>invalidatedBy\<close>. \<open>roundScore\<close> is the sum of
  the recorded points over the category keys, whatever it was before, and \<open>totalScore\<close>
  grows by \<open>roundScore\<close>.
\<close>

theorem calculateScores_scoring_pass:
  assumes "Map_get (players r) k = Some p"
  shows "\<exists>p' m. Map_get (players (calculateScores lc r)) k = Some p' \<and>
     categoryScores p' = Some m \<and>
     (\<forall>c \<in> set (Map_keys (activeCategories (gameState r))).
        \<exists>sc a. m c = Some sc \<and> spec_normalized lc p c a \<and>
          isValid sc = spec_valid lc (currentLetter (gameState r)) a \<and>
          points sc = spec_points lc (Map_values (players r)) (currentLetter (gameState r)) p c a \<and>
          answer sc = answer_for p c \<and> invalidatedBy sc = None) \<and>
     roundScore p' = Num (recorded_points m (Map_keys (activeCategories (gameState r)))) \<and>
     totalScore p' = jsadd (totalScore p) (roundScore p') \<and>
     pid p' = pid p \<and> answers p' = answers p"
proof -
  define ps where "ps = Map_values (players r)"
  define letter where "letter = currentLetter (gameState r)"
  define cats where "cats = Map_keys (activeCategories (gameState r))"
  define q0 where "q0 = p\<lparr>roundScore := Num 0, categoryScores := Some Map.empty\<rparr>"
  define q1 where "q1 = foldl (score_step lc ps letter) q0 cats"
  have get: "Map_get (players (calculateScores lc r)) k = Some (score_player lc ps letter cats p)"
    using assms
    by (simp add: calculateScores_def Let_def Map_get_def Map_forEach_def map_of_map
          ps_def letter_def cats_def)
  have sp: "score_player lc ps letter cats p = q1\<lparr>totalScore := jsadd (totalScore q1) (roundScore q1)\<rparr>"
    by (simp add: score_player_def Let_def q1_def q0_def)
  have "pid q0 = pid p" "answers q0 = answers p" "categoryScores q0 = Some Map.empty"
    "roundScore q0 = Num 0"
    by (simp_all add: q0_def)
  from score_loop [OF this, of lc ps letter cats] obtain m1 where
    h: "pid q1 = pid p" "answers q1 = answers p" "totalScore q1 = totalScore q0"
       "roundScore q1 = Num (0 + (\<Sum>c\<leftarrow>cats. points (score_category lc ps letter p c)))"
       "categoryScores q1 = Some m1"
       "\<forall>c. m1 c = (if c \<in> set cats then Some (score_category lc ps letter p c) else None)"
    unfolding q1_def Let_def by blast
  have pts: "recorded_points m1 cats = (\<Sum>c\<leftarrow>cats. points (score_category lc ps letter p c))"
    by (rule recorded_points_loop [OF h(6)])
  have ent: "\<forall>c \<in> set cats. \<exists>sc a. m1 c = Some sc \<and> spec_normalized lc p c a \<and>
          isValid sc = spec_valid lc letter a \<and> points sc = spec_points lc ps letter p c a \<and>
          answer sc = answer_for p c \<and> invalidatedBy sc = None"
  proof
    fix c assume "c \<in> set cats"
    then have "m1 c = Some (score_category lc ps letter p c)" using h(6) by simp
    then show "\<exists>sc a. m1 c = Some sc \<and> spec_normalized lc p c a \<and>
          isValid sc = spec_valid lc letter a \<and> points sc = spec_points lc ps letter p c a \<and>
          answer sc = answer_for p c \<and> invalidatedBy sc = None"
      by (intro exI [of _ "score_category lc ps letter p c"] exI [of _ "normalized lc p c"])
         (simp add: score_category_spec spec_normalized_iff)
  qed
  show ?thesis
    unfolding get sp ps_def [symmetric] letter_def [symmetric] cats_def [symmetric]
    using h pts ent by (simp add: q0_def)
qed

text \<open>The answers of scenario S2, raw and normalised.\<close>

lemma S2_normalized:
  "normalized georgian_lower S2_player_a (asc ''cat_0'') = [0x10D1, 0x10D0, 0x10E5, 0x10DD]"
  "normalized georgian_lower S2_player_b (asc ''cat_0'') = [0x10D1, 0x10D0, 0x10E5, 0x10DD]"
  "normalized georgian_lower S2_player_c (asc ''cat_0'') = [0x10D1, 0x10D0, 0x10E5, 0x10DD]"
  "normalized georgian_lower S2_player_a (asc ''cat_1'') = [0x10D1, 0x10D0, 0x10D7, 0x10E3, 0x10DB, 0x10D8]"
  "normalized georgian_lower S2_player_b (asc ''cat_1'') = [0x10D7, 0x10D1, 0x10D8, 0x10DA, 0x10D8, 0x10E1, 0x10D8]"
  "normalized georgian_lower S2_player_c (asc ''cat_1'') = []"
  "normalized georgian_lower S2_player_a (asc ''cat_2'') = []"
  "normalized georgian_lower S2_player_b (asc ''cat_2'') = [0x10D1]"
  "normalized georgian_lower S2_player_c (asc ''cat_2'') = [0x10D0, 0x10D1, 0x10D0, 0x20, 0x10D1]"
  by (simp_all add: normalized_def raw_answer_def S2_player_a_def S2_player_b_def S2_player_c_def
        new_player_def asc_def trim_def isWhiteSpace_def georgian_lower_def)

lemma S2_answers:
  "answer_for S2_player_a (asc ''cat_0'') = [0x10D1, 0x10D0, 0x10E5, 0x10DD]"
  "answer_for S2_player_a (asc ''cat_2'') = []"
  "answer_for S2_player_b (asc ''cat_0'') = [0x9, 0x1C91, 0x1C90, 0x1CA5, 0x1C9D, 0xA0]"
  "answer_for S2_player_c (asc ''cat_1'') = [0x20, 0x20]"
  by (simp_all add: answer_for_def S2_player_a_def S2_player_b_def S2_player_c_def
        new_player_def asc_def)

lemma S2_ids:
  "pid S2_player_a = asc ''player_a''" "pid S2_player_b = asc ''player_b''"
  "pid S2_player_c = asc ''player_c''"
  "totalScore S2_player_a = Num 40" "totalScore S2_player_b = Num 0" "totalScore S2_player_c = Num 15"
  "roundScore S2_player_a = Num 5"
  by (simp_all add: S2_player_a_def S2_player_b_def S2_player_c_def new_player_def)

lemma S2_keys:
  "Map_keys (activeCategories (gameState S2_room)) = [asc ''cat_0'', asc ''cat_1'', asc ''cat_2'']"
  "Map_values (players S2_room) = [S2_player_a, S2_player_b, S2_player_c]"
  "currentLetter (gameState S2_room) = [0x10D1]"
  "Map_get (players S2_room) (asc ''player_a'') = Some S2_player_a"
  "Map_get (players S2_room) (asc ''player_b'') = Some S2_player_b"
  "Map_get (players S2_room) (asc ''player_c'') = Some S2_player_c"
  by (simp_all add: S2_room_def Map_keys_def Map_values_def Map_get_def asc_def)

lemma S2_pids: "asc ''player_a'' \<noteq> asc ''player_b''" "asc ''player_a'' \<noteq> asc ''player_c''"
  "asc ''player_b'' \<noteq> asc ''player_c''" "asc ''player_b'' \<noteq> asc ''player_a''"
  "asc ''player_c'' \<noteq> asc ''player_a''" "asc ''player_c'' \<noteq> asc ''player_b''"
  by (simp_all add: asc_def)

text \<open>
  The theorem at the room of scenario S2, for each of the three players. The word the three
  share scores 10 for each of them, in capitals and between white space as well; the unique
  valid answers score 20; the word with another letter, the answer of white space only, the
  missing answer and the answer that has the letter in the middle are invalid and score 0.
  The round scores are 30, 30 and 10, whatever they were, and the totals grow by them.
\<close>

theorem calculateScores_scoring_pass_witness:
  "Map_get (players S2_room) (asc ''player_a'') = Some S2_player_a \<and>
   roundScore S2_player_a = Num 5 \<and> totalScore S2_player_a = Num 40 \<and>
   (\<exists>p' m s0 s1 s2.
      Map_get (players (calculateScores georgian_lower S2_room)) (asc ''player_a'') = Some p' \<and>
      categoryScores p' = Some m \<and>
      m (asc ''cat_0'') = Some s0 \<and> points s0 = 10 \<and> isValid s0 \<and>
      answer s0 = [0x10D1, 0x10D0, 0x10E5, 0x10DD] \<and>
      m (asc ''cat_1'') = Some s1 \<and> points s1 = 20 \<and> isValid s1 \<and>
      m (asc ''cat_2'') = Some s2 \<and> points s2 = 0 \<and> \<not> isValid s2 \<and> answer s2 = [] \<and>
      roundScore p' = Num 30 \<and> totalScore p' = Num 70) \<and>
   (\<exists>p' m s0 s1 s2.
      Map_get (players (calculateScores georgian_lower S2_room)) (asc ''player_b'') = Some p' \<and>
      categoryScores p' = Some m \<and>
      m (asc ''cat_0'') = Some s0 \<and> points s0 = 10 \<and> isValid s0 \<and>
      answer s0 = [0x9, 0x1C91, 0x1C90, 0x1CA5, 0x1C9D, 0xA0] \<and>
      m (asc ''cat_1'') = Some s1 \<and> points s1 = 0 \<and> \<not> isValid s1 \<and>
      m (asc ''cat_2'') = Some s2 \<and> points s2 = 20 \<and> isValid s2 \<and>
      roundScore p' = Num 30 \<and> totalScore p' = Num 30) \<and>
   (\<exists>p' m s0 s1 s2.
      Map_get (players (calculateScores georgian_lower S2_room)) (asc ''player_c'') = Some p' \<and>
      categoryScores p' = Some m \<and>
      m (asc ''cat_0'') = Some s0 \<and> points s0 = 10 \<and> isValid s0 \<and>
      m (asc ''cat_1'') = Some s1 \<and> points s1 = 0 \<and> \<not> isValid s1 \<and> answer s1 = [0x20, 0x20] \<and>
      m (asc ''cat_2'') = Some s2 \<and> points s2 = 0 \<and> \<not> isValid s2 \<and>
      roundScore p' = Num 10 \<and> totalScore p' = Num 25)"
proof -
  note ev = S2_keys S2_ids S2_pids S2_normalized S2_answers spec_normalized_iff spec_valid_def
    spec_points_def recorded_points_def georgian_lower_def
  have a: "\<exists>p' m s0 s1 s2.
      Map_get (players (calculateScores georgian_lower S2_room)) (asc ''player_a'') = Some p' \<and>
      categoryScores p' = Some m \<and>
      m (asc ''cat_0'') = Some s0 \<and> points s0 = 10 \<and> isValid s0 \<and>
      answer s0 = [0x10D1, 0x10D0, 0x10E5, 0x10DD] \<and>
      m (asc ''cat_1'') = Some s1 \<and> points s1 = 20 \<and> isValid s1 \<and>
      m (asc ''cat_2'') = Some s2 \<and> points s2 = 0 \<and> \<not> isValid s2 \<and> answer s2 = [] \<and>
      roundScore p' = Num 30 \<and> totalScore p' = Num 70"
    using calculateScores_scoring_pass [OF S2_keys(4), of georgian_lower]
    by (simp add: ev del: split_paired_Ex) fastforce
  have b: "\<exists>p' m s0 s1 s2.
      Map_get (players (calculateScores georgian_lower S2_room)) (asc ''player_b'') = Some p' \<and>
      categoryScores p' = Some m \<and>
      m (asc ''cat_0'') = Some s0 \<and> points s0 = 10 \<and> isValid s0 \<and>
      answer s0 = [0x9, 0x1C91, 0x1C90, 0x1CA5, 0x1C9D, 0xA0] \<and>
      m (asc ''cat_1'') = Some s1 \<and> points s1 = 0 \<and> \<not> isValid s1 \<and>
      m (asc ''cat_2'') = Some s2 \<and> points s2 = 20 \<and> isValid s2 \<and>
      roundScore p' = Num 30 \<and> totalScore p' = Num 30"
    using calculateScores_scoring_pass [OF S2_keys(5), of georgian_lower]
    by (simp add: ev del: split_paired_Ex) fastforce
  have c: "\<exists>p' m s0 s1 s2.
      Map_get (players (calculateScores georgian_lower S2_room)) (asc ''player_c'') = Some p' \<and>
      categoryScores p' = Some m \<and>
      m (asc ''cat_0'') = Some s0 \<and> points s0 = 10 \<and> isValid s0 \<and>
      m (asc ''cat_1'') = Some s1 \<and> points s1 = 0 \<and> \<not> isValid s1 \<and> answer s1 = [0x20, 0x20] \<and>
      m (asc ''cat_2'') = Some s2 \<and> points s2 = 0 \<and> \<not> isValid s2 \<and>
      roundScore p' = Num 10 \<and> totalScore p' = Num 25"
    using calculateScores_scoring_pass [OF S2_keys(6), of georgian_lower]
    by (simp add: ev del: split_paired_Ex) fastforce
  show ?thesis using a b c S2_keys(4) S2_ids by simp
qed

subsection \<open>Lookups after an update\<close>

lemma Map_get_modify:
  "Map_get (Map_modify m k f) k' = (if k' = k then map_option f (Map_get m k) else Map_get m k')"
  by (auto simp: Map_get_def Map_modify_def map_of_map_entry split: option.splits)

lemma rooms_get_put_room:
  "rooms_get (put_room s a r') rc =
     (case Map_get (rooms s) rc of None \<Rightarrow> None
      | Some b \<Rightarrow> if b = a then Some (a, r') else rooms_get s rc)"
  by (simp add: rooms_get_def put_room_def split: option.splits)

lemma rooms_get_addr: "rooms_get s rc = Some (a, r) \<Longrightarrow> Map_get (rooms s) rc = Some a \<and> heap s a = Some r"
  by (auto simp: rooms_get_def split: option.splits)

lemma bound_ids_put_room [simp]: "bound_ids (put_room s a r) k = bound_ids s k"
  by (simp add: bound_ids_def put_room_def)

lemma is_connected_put_room [simp]: "is_connected (put_room s a r) k = is_connected s k"
  by (simp add: is_connected_def put_room_def)

subsection \<open>The invalidation toggle\<close>

lemma jsnum_round_trip [simp]:
  "jsadd (jssub x (Num n)) (Num n) = x" "jssub (jsadd x (Num n)) (Num n) = x"
  by (cases x; simp)+

text \<open>A toggle leaves the server as it is but for the two properties of the built-in objects.\<close>

lemma toggle_score_server:
  "toggle_score s me c tp = Some (tp', s1) \<Longrightarrow>
   s1 = s\<lparr>proto_invalidatedBy := proto_invalidatedBy s1,
          method_invalidatedBy := method_invalidatedBy s1\<rparr>"
  by (auto simp: toggle_score_def split: option.splits if_splits slot.splits)

lemma toggle_score_frame:
  assumes "toggle_score s me c tp = Some (tp', s1)"
  shows "heap s1 = heap s" and "timers s1 = timers s" and "nextAddr s1 = nextAddr s"
    and "rooms s1 = rooms s"
  using assms
  by (auto simp: toggle_score_def split: option.splits if_splits slot.splits)

lemma toggle_score_entry:
  "categoryScores tp = Some m \<Longrightarrow> m c = Some sc \<Longrightarrow> \<not> truthy (proto_invalidatedBy s) \<Longrightarrow>
   \<exists>tp'. toggle_score s me c tp = Some (tp', s) \<and>
     roundScore tp' = (if truthy (invalidatedBy sc) then jsadd (roundScore tp) (Num (points sc))
                       else jssub (roundScore tp) (Num (points sc))) \<and>
     totalScore tp' = (if truthy (invalidatedBy sc) then jsadd (totalScore tp) (Num (points sc))
                       else jssub (totalScore tp) (Num (points sc))) \<and>
     (\<exists>m' sc'. categoryScores tp' = Some m' \<and> m' c = Some sc' \<and> points sc' = points sc \<and>
         truthy (invalidatedBy sc') = (\<not> truthy (invalidatedBy sc) \<and> me \<noteq> []))"
  by (auto simp: toggle_score_def lookup_category_def read_invalidatedBy_def truthy_def
        split: option.splits)

lemma answer_invalidate_toggles:
  assumes "bound_ids s k = Some (rc, me)" and "rooms_get s rc = Some (a, r)"
    and "Map_get (players r) target = Some tp" and "toggle_score s me c tp = Some (tp', s)"
  shows "\<exists>r'. answer_invalidate s k target c = (put_room s a r', [Emit (ToRoom (Some rc)) ''answer:toggled'' (Data r')])
           \<and> rooms_get (put_room s a r') rc = Some (a, r') \<and> Map_get (players r') target = Some tp'"
  using assms rooms_get_addr [OF assms(2)]
  by (simp add: answer_invalidate_def Let_def rooms_get_put_room Map_get_modify)

lemma bound_ids_nonempty: "bound_ids s k = Some (rc, me) \<Longrightarrow> rc \<noteq> [] \<and> me \<noteq> []"
  by (auto simp: bound_ids_def truthy_def split: option.splits if_splits)

lemma proto_put_room [simp]: "proto_invalidatedBy (put_room s a r) = proto_invalidatedBy s"
  by (simp add: put_room_def)

text \<open>
  The toggle on a recorded entry while \<open>Object.prototype\<close> carries no \<open>invalidatedBy\<close>. A
  toggle sent by a bound connection changes the target's \<open>roundScore\<close> and \<open>totalScore\<close> by
  exactly the \<open>points\<close> cached in the entry (subtracted when the entry was valid, added back
  when it was invalidated), whatever the answers and the letter are at that moment; the entry
  keeps its \<open>points\<close>, and a second toggle (by the same or another bound connection of the
  room) restores both scores to their values before the first.
\<close>

lemma round_trip_on_recorded_entry:
  assumes "bound_ids s k = Some (rc, me)" and "bound_ids s k2 = Some (rc, me2)"
    and "rooms_get s rc = Some (a, r)"
    and "Map_get (players r) target = Some tp"
    and "categoryScores tp = Some m" and "m c = Some sc"
    and "\<not> truthy (proto_invalidatedBy s)"
  shows "\<exists>s1 e1 r1 tp1 s2 e2 r2 tp2.
           answer_invalidate s k target c = (s1, e1) \<and>
           rooms_get s1 rc = Some (a, r1) \<and> Map_get (players r1) target = Some tp1 \<and>
           roundScore tp1 = (if truthy (invalidatedBy sc) then jsadd (roundScore tp) (Num (points sc))
                             else jssub (roundScore tp) (Num (points sc))) \<and>
           totalScore tp1 = (if truthy (invalidatedBy sc) then jsadd (totalScore tp) (Num (points sc))
                             else jssub (totalScore tp) (Num (points sc))) \<and>
           answer_invalidate s1 k2 target c = (s2, e2) \<and>
           rooms_get s2 rc = Some (a, r2) \<and> Map_get (players r2) target = Some tp2 \<and>
           roundScore tp2 = roundScore tp \<and> totalScore tp2 = totalScore tp \<and>
           (\<exists>m2 sc2. categoryScores tp2 = Some m2 \<and> m2 c = Some sc2 \<and> points sc2 = points sc)"
proof -
  from toggle_score_entry [OF assms(5,6,7), of me] obtain tp1 m1 sc1 where
    t1: "toggle_score s me c tp = Some (tp1, s)"
      "roundScore tp1 = (if truthy (invalidatedBy sc) then jsadd (roundScore tp) (Num (points sc))
                         else jssub (roundScore tp) (Num (points sc)))"
      "totalScore tp1 = (if truthy (invalidatedBy sc) then jsadd (totalScore tp) (Num (points sc))
                         else jssub (totalScore tp) (Num (points sc)))"
      "categoryScores tp1 = Some m1" "m1 c = Some sc1" "points sc1 = points sc"
      "truthy (invalidatedBy sc1) = (\<not> truthy (invalidatedBy sc) \<and> me \<noteq> [])"
    by blast
  from answer_invalidate_toggles [OF assms(1,3,4) t1(1)] obtain r1 where
    a1: "answer_invalidate s k target c = (put_room s a r1, [Emit (ToRoom (Some rc)) ''answer:toggled'' (Data r1)])"
        "rooms_get (put_room s a r1) rc = Some (a, r1)" "Map_get (players r1) target = Some tp1"
    by blast
  have p1: "\<not> truthy (proto_invalidatedBy (put_room s a r1))" using assms(7) by simp
  from toggle_score_entry [OF t1(4,5) p1, of me2] obtain tp2 m2 sc2 where
    t2: "toggle_score (put_room s a r1) me2 c tp1 = Some (tp2, put_room s a r1)"
      "roundScore tp2 = (if truthy (invalidatedBy sc1) then jsadd (roundScore tp1) (Num (points sc1))
                         else jssub (roundScore tp1) (Num (points sc1)))"
      "totalScore tp2 = (if truthy (invalidatedBy sc1) then jsadd (totalScore tp1) (Num (points sc1))
                         else jssub (totalScore tp1) (Num (points sc1)))"
      "categoryScores tp2 = Some m2" "m2 c = Some sc2" "points sc2 = points sc1"
    by blast
  have b2: "bound_ids (put_room s a r1) k2 = Some (rc, me2)" using assms(2) by simp
  from answer_invalidate_toggles [OF b2 a1(2,3) t2(1)] obtain r2 where
    a2: "answer_invalidate (put_room s a r1) k2 target c = (put_room (put_room s a r1) a r2, [Emit (ToRoom (Some rc)) ''answer:toggled'' (Data r2)])"
        "rooms_get (put_room (put_room s a r1) a r2) rc = Some (a, r2)" "Map_get (players r2) target = Some tp2"
    by blast
  have ne: "me \<noteq> []" using bound_ids_nonempty [OF assms(1)] by simp
  have "roundScore tp2 = roundScore tp" "totalScore tp2 = totalScore tp"
    using t1 t2 ne by (auto split: if_splits)
  with a1 a2 t1 t2 show ?thesis by (simp del: split_paired_Ex)
qed

subsection \<open>Stopping before the timer\<close>

text \<open>
  Claim C9. When a bound connection sends \<open>round:stop\<close> while its room is in the playing
  phase and \<open>timerEnabled\<close> is still false, the only thing sent is \<open>game:error\<close> with the
  message \<open>MSG_WAIT_FOR_TIMER\<close> to that connection, and the server state (so the phase and
  every room) is unchanged.
\<close>

theorem round_stop_before_timer:
  assumes "is_connected s k" and "bound_ids s k = Some (rc, me)"
    and "rooms_get s rc = Some (a, r)"
    and "phase (gameState r) = playing" and "\<not> timerEnabled (gameState r)"
  shows "step lc uc s (RoundStop k) =
           Inr (s, [Emit (ToSocket k) ''game:error'' (Message MSG_WAIT_FOR_TIMER)])"
  using assms by (simp add: round_stop_def)

subsection \<open>Submitting answers\<close>

text \<open>
  Claim C10. \<open>answers:submit\<close> from a connection bound to a player of its room is accepted
  whatever the phase: the player's \<open>answers\<close> become the submitted map and \<open>hasSubmitted\<close>
  becomes true; nothing else of the player changes (in particular \<open>categoryScores\<close>,
  \<open>roundScore\<close> and \<open>totalScore\<close>, also in the results phase), the other players and the
  phase are unchanged.
\<close>

theorem answers_submit_any_phase:
  assumes "is_connected s k" and "bound_ids s k = Some (rc, me)"
    and "rooms_get s rc = Some (a, r)" and "Map_get (players r) me = Some p"
  shows "\<exists>s' out r'. step lc uc s (AnswersSubmit k ans) = Inr (s', out) \<and>
           rooms_get s' rc = Some (a, r') \<and>
           Map_get (players r') me = Some (p\<lparr>answers := ans, hasSubmitted := True\<rparr>) \<and>
           (\<forall>other. other \<noteq> me \<longrightarrow> Map_get (players r') other = Map_get (players r) other) \<and>
           phase (gameState r') = phase (gameState r)"
  using assms rooms_get_addr [OF assms(3)]
  by (simp add: answers_submit_def from_socket_def Let_def rooms_get_put_room Map_get_modify)

subsection \<open>The two-player room\<close>

lemma demo_bound:
  "bound_ids (demo_server ph te) 1 = Some (asc ''ABCDE'', asc ''player_a'')"
  "bound_ids (demo_server ph te) 2 = Some (asc ''ABCDE'', asc ''player_b'')"
  "is_connected (demo_server ph te) 1" "is_connected (demo_server ph te) 2"
  by (simp_all add: bound_ids_def is_connected_def demo_server_def Map_get_def truthy_def asc_def)

lemma demo_room_get:
  "rooms_get (demo_server ph te) (asc ''ABCDE'') = Some (0, demo_room ph te)"
  by (simp add: rooms_get_def demo_server_def Map_get_def)

lemma demo_players:
  "Map_get (players (demo_room ph te)) (asc ''player_a'') = Some demo_player_a"
  "Map_get (players (demo_room ph te)) (asc ''player_b'') = Some demo_player_b"
  by (simp_all add: demo_room_def Map_get_def asc_def)

text \<open>
  Scenario S7: the second player invalidates the first player's entry of 20 points (round
  score 20 to 0, total 50 to 30), the first player re-validates it (back to 20 and 50).
\<close>

lemma round_trip_S7:
  "\<exists>s1 e1 r1 tp1 s2 e2 r2 tp2.
      answer_invalidate (demo_server results True) 2 (asc ''player_a'') (asc ''cat_0'') = (s1, e1) \<and>
      rooms_get s1 (asc ''ABCDE'') = Some (0, r1) \<and>
      Map_get (players r1) (asc ''player_a'') = Some tp1 \<and>
      roundScore tp1 = Num 0 \<and> totalScore tp1 = Num 30 \<and>
      answer_invalidate s1 1 (asc ''player_a'') (asc ''cat_0'') = (s2, e2) \<and>
      rooms_get s2 (asc ''ABCDE'') = Some (0, r2) \<and>
      Map_get (players r2) (asc ''player_a'') = Some tp2 \<and>
      roundScore tp2 = Num 20 \<and> totalScore tp2 = Num 50"
proof -
  have c: "categoryScores demo_player_a = Some [asc ''cat_0'' \<mapsto>
         \<lparr>points = 20, isValid = True, answer = [0x10D1, 0x10D0, 0x10E5, 0x10DD],
          invalidatedBy = None\<rparr>]"
    by (simp add: demo_player_a_def)
  have e: "[asc ''cat_0'' \<mapsto> \<lparr>points = 20, isValid = True, answer = [0x10D1, 0x10D0, 0x10E5, 0x10DD],
          invalidatedBy = None\<rparr>] (asc ''cat_0'') = Some \<lparr>points = 20, isValid = True, answer = [0x10D1, 0x10D0, 0x10E5, 0x10DD],
          invalidatedBy = None\<rparr>"
    by simp
  have v: "roundScore demo_player_a = Num 20" "totalScore demo_player_a = Num 50"
    by (simp_all add: demo_player_a_def)
  have q: "\<not> truthy (proto_invalidatedBy (demo_server results True))"
    by (simp add: demo_server_def truthy_def)
  from round_trip_on_recorded_entry [OF demo_bound(2) demo_bound(1) demo_room_get demo_players(1) c e q] v
  show ?thesis by (simp add: truthy_def del: split_paired_Ex) blast
qed

text \<open>
  A category that names a method of \<open>Object.prototype\<close> passes the test of line 733 as
  well: the second player's toggle of \<open>toString\<close> on the first player turns both scores of
  the first player into \<open>NaN\<close>, leaves the recorded entries alone, puts the sender's id on
  the function object, and \<open>answer:toggled\<close> is sent to the room.
\<close>

lemma toggle_inherited_method:
  "\<exists>s1 r1 tp1.
      answer_invalidate (demo_server results True) 2 (asc ''player_a'') (asc ''toString'')
        = (s1, [Emit (ToRoom (Some (asc ''ABCDE''))) ''answer:toggled'' (Data r1)]) \<and>
      rooms_get s1 (asc ''ABCDE'') = Some (0, r1) \<and>
      Map_get (players r1) (asc ''player_a'') = Some tp1 \<and>
      roundScore tp1 = NaN \<and> totalScore tp1 = NaN \<and>
      categoryScores tp1 = categoryScores demo_player_a \<and>
      method_invalidatedBy s1 (asc ''toString'') = Some (asc ''player_b'') \<and>
      proto_invalidatedBy s1 = None"
proof -
  have n: "asc ''toString'' \<noteq> asc ''cat_0''" "asc ''toString'' \<noteq> asc ''__proto__''"
    "asc ''toString'' \<in> set OBJECT_PROTOTYPE_METHODS"
    by (simp_all add: asc_def OBJECT_PROTOTYPE_METHODS_def)
  have m: "method_invalidatedBy (demo_server results True) = Map.empty"
    "proto_invalidatedBy (demo_server results True) = None"
    "heap (demo_server results True) 0 = Some (demo_room results True)"
    by (simp_all add: demo_server_def)
  have t: "toggle_score (demo_server results True) (asc ''player_b'') (asc ''toString'') demo_player_a
     = Some (demo_player_a\<lparr>roundScore := NaN, totalScore := NaN\<rparr>,
             (demo_server results True)\<lparr>method_invalidatedBy := [asc ''toString'' \<mapsto> asc ''player_b'']\<rparr>)"
    using n m
    by (simp add: toggle_score_def lookup_category_def read_invalidatedBy_def truthy_def
          demo_player_a_def)
  show ?thesis
    using demo_bound(2) demo_room_get demo_players(1) t rooms_get_addr [OF demo_room_get]
    by (simp add: answer_invalidate_def Let_def rooms_get_def Map_get_modify put_room_def m)
qed

text \<open>Scenario S4 on the two-player room.\<close>

theorem round_stop_before_timer_witness:
  "is_connected (demo_server playing False) 1 \<and>
   phase (gameState (demo_room playing False)) = playing \<and>
   \<not> timerEnabled (gameState (demo_room playing False)) \<and>
   step ascii_lower ascii_upper (demo_server playing False) (RoundStop 1) =
     Inr (demo_server playing False, [Emit (ToSocket 1) ''game:error'' (Message MSG_WAIT_FOR_TIMER)])"
proof -
  have p: "phase (gameState (demo_room playing False)) = playing"
          "\<not> timerEnabled (gameState (demo_room playing False))"
    by (simp_all add: demo_room_def)
  from round_stop_before_timer [OF demo_bound(3) demo_bound(1) demo_room_get p] p demo_bound(3)
  show ?thesis by simp
qed

text \<open>A submission that arrives in the results phase.\<close>

theorem answers_submit_any_phase_witness:
  "phase (gameState (demo_room results True)) = results \<and>
   (\<exists>s' out r'. step ascii_lower ascii_upper (demo_server results True)
        (AnswersSubmit 1 [asc ''cat_0'' \<mapsto> [0x10D1]]) = Inr (s', out) \<and>
      rooms_get s' (asc ''ABCDE'') = Some (0, r') \<and>
      Map_get (players r') (asc ''player_a'') =
        Some (demo_player_a\<lparr>answers := [asc ''cat_0'' \<mapsto> [0x10D1]], hasSubmitted := True\<rparr>) \<and>
      Map_get (players r') (asc ''player_b'') = Some demo_player_b \<and>
      phase (gameState r') = results)"
proof -
  have ne: "asc ''player_b'' \<noteq> asc ''player_a''" by (simp add: asc_def)
  have p: "phase (gameState (demo_room results True)) = results" by (simp add: demo_room_def)
  from answers_submit_any_phase [OF demo_bound(3) demo_bound(1) demo_room_get demo_players(1),
      where lc = ascii_lower and uc = ascii_upper and ans = "[asc ''cat_0'' \<mapsto> [0x10D1]]"] ne p demo_players(2)
  show ?thesis by (simp del: split_paired_Ex) metis
qed

subsection \<open>Letter selection\<close>

lemma alphabet_33: "length GEORGIAN_ALPHABET = 33"
  by (simp add: GEORGIAN_ALPHABET_def)

lemma alphabet_distinct: "distinct GEORGIAN_ALPHABET"
  by (simp add: GEORGIAN_ALPHABET_def)

lemma available_set: "set (available_letters used) = set GEORGIAN_ALPHABET - set used"
  by (auto simp: available_letters_def)

lemma available_distinct: "distinct (available_letters used)"
  by (simp add: available_letters_def alphabet_distinct)

lemma draw_letter_available:
  assumes "available_letters (usedLetters (gameState r)) \<noteq> []"
  shows "draw_letter rnd r =
     (r\<lparr>gameState := (gameState r)\<lparr>
          currentLetter := available_letters (usedLetters (gameState r))
                             ! (rnd mod length (available_letters (usedLetters (gameState r)))),
          usedLetters := usedLetters (gameState r) @
             [available_letters (usedLetters (gameState r))
                ! (rnd mod length (available_letters (usedLetters (gameState r))))]\<rparr>\<rparr>,
      available_letters (usedLetters (gameState r))
         ! (rnd mod length (available_letters (usedLetters (gameState r)))))"
proof -
  let ?av = "available_letters (usedLetters (gameState r))"
  have "?av ! (rnd mod length ?av) \<in> set ?av" using assms by simp
  then have "?av ! (rnd mod length ?av) \<notin> set (usedLetters (gameState r))"
    by (simp add: available_set)
  with assms show ?thesis
    by (simp add: draw_letter_def selectRandomLetter_def available_letters_def Set_has_def
          Set_add_def random_index_def Let_def)
qed

lemma draw_letter_exhausted:
  assumes "available_letters (usedLetters (gameState r)) = []"
  shows "draw_letter rnd r =
     (r\<lparr>gameState := (gameState r)\<lparr>
          currentLetter := GEORGIAN_ALPHABET ! (rnd mod 33),
          usedLetters := [GEORGIAN_ALPHABET ! (rnd mod 33)]\<rparr>\<rparr>,
      GEORGIAN_ALPHABET ! (rnd mod 33))"
  using assms
  by (simp add: draw_letter_def selectRandomLetter_def available_letters_def Set_has_def
        Set_add_def random_index_def Let_def alphabet_33)

lemma available_nonempty:
  assumes "distinct used" and "set used \<subseteq> set GEORGIAN_ALPHABET" and "length used < 33"
  shows "available_letters used \<noteq> []"
proof
  assume "available_letters used = []"
  then have "set GEORGIAN_ALPHABET - set used = {}" using available_set [of used] by simp
  then have "set GEORGIAN_ALPHABET = set used" using assms(2) by blast
  then have "card (set GEORGIAN_ALPHABET) = card (set used)" by simp
  then show False
    using assms(1,3) alphabet_distinct alphabet_33 by (simp add: distinct_card)
qed

lemma available_empty:
  assumes "distinct used" and "set used \<subseteq> set GEORGIAN_ALPHABET" and "length used = 33"
  shows "available_letters used = []"
proof -
  have "card (set used) = card (set GEORGIAN_ALPHABET)"
    using assms(1,3) alphabet_distinct alphabet_33 by (simp add: distinct_card)
  then have "set used = set GEORGIAN_ALPHABET"
    using assms(2) by (simp add: card_subset_eq)
  then show ?thesis using available_set [of used] by simp
qed

lemma draw_many_used:
  "distinct (usedLetters (gameState r)) \<Longrightarrow>
   set (usedLetters (gameState r)) \<subseteq> set GEORGIAN_ALPHABET \<Longrightarrow>
   length (usedLetters (gameState r)) + length rnds \<le> 33 \<Longrightarrow>
   distinct (usedLetters (gameState (draw_many rnds r))) \<and>
   set (usedLetters (gameState (draw_many rnds r))) \<subseteq> set GEORGIAN_ALPHABET \<and>
   length (usedLetters (gameState (draw_many rnds r))) = length (usedLetters (gameState r)) + length rnds"
proof (induction rnds arbitrary: r)
  case Nil
  then show ?case by simp
next
  case (Cons x xs)
  let ?used = "usedLetters (gameState r)"
  let ?av = "available_letters ?used"
  have ne: "?av \<noteq> []" using Cons.prems by (intro available_nonempty) simp_all
  then have mem: "?av ! (x mod length ?av) \<in> set ?av" by simp
  then have new: "?av ! (x mod length ?av) \<in> set GEORGIAN_ALPHABET" "?av ! (x mod length ?av) \<notin> set ?used"
    by (simp_all add: available_set)
  have u: "usedLetters (gameState (fst (draw_letter x r))) = ?used @ [?av ! (x mod length ?av)]"
    by (simp add: draw_letter_available [OF ne])
  have "distinct (usedLetters (gameState (fst (draw_letter x r))))"
       "set (usedLetters (gameState (fst (draw_letter x r)))) \<subseteq> set GEORGIAN_ALPHABET"
       "length (usedLetters (gameState (fst (draw_letter x r)))) + length xs \<le> 33"
    using Cons.prems new unfolding u by simp_all
  from Cons.IH [OF this] show ?case unfolding u by simp
qed

text \<open>
  Claim C7. The letter drawn is the element of the available letters (the alphabet without
  the used letters, duplicate-free) at the index \<open>Math.floor(Math.random() * length)\<close>, so
  every available letter is drawn by exactly one index; it becomes the current letter and is
  appended to the used letters; the \<open>sticks:draw\<close> handler does this to the room of a
  bound host. When no letter is available the used set is cleared, the
  letter is drawn from the full alphabet of 33 letters and the used set becomes the singleton
  of that letter. Starting from an empty used set, 33 draws use up the alphabet, whatever
  the random numbers, and the 34th draw succeeds and leaves the used set a singleton.
\<close>

theorem letter_selection:
  "(available_letters (usedLetters (gameState r)) \<noteq> [] \<longrightarrow>
      (let av = available_letters (usedLetters (gameState r));
           (r', letter) = draw_letter rnd r
       in letter = av ! (rnd mod length av) \<and>
          letter \<in> set GEORGIAN_ALPHABET \<and> letter \<notin> set (usedLetters (gameState r)) \<and>
          currentLetter (gameState r') = letter \<and>
          usedLetters (gameState r') = usedLetters (gameState r) @ [letter])) \<and>
   (available_letters (usedLetters (gameState r)) = [] \<longrightarrow>
      (let (r', letter) = draw_letter rnd r
       in letter = GEORGIAN_ALPHABET ! (rnd mod 33) \<and> letter \<in> set GEORGIAN_ALPHABET \<and>
          currentLetter (gameState r') = letter \<and>
          usedLetters (gameState r') = [letter])) \<and>
   distinct (available_letters (usedLetters (gameState r))) \<and>
   set (available_letters (usedLetters (gameState r))) =
     set GEORGIAN_ALPHABET - set (usedLetters (gameState r)) \<and>
   length GEORGIAN_ALPHABET = 33 \<and> distinct GEORGIAN_ALPHABET \<and>
   (is_connected s k \<and> bound_ids s k = Some (rc, hostId r) \<and> rooms_get s rc = Some (a, r) \<longrightarrow>
      (\<exists>s' out. step lc uc s (SticksDraw k rnd) = Inr (s', out) \<and>
          rooms_get s' rc = Some (a, fst (draw_letter rnd r)))) \<and>
   (usedLetters (gameState r) = [] \<and> length rnds = length GEORGIAN_ALPHABET \<longrightarrow>
      set (usedLetters (gameState (draw_many rnds r))) = set GEORGIAN_ALPHABET \<and>
      (let (r', letter) = draw_letter rnd (draw_many rnds r)
       in letter \<in> set GEORGIAN_ALPHABET \<and> currentLetter (gameState r') = letter \<and>
          usedLetters (gameState r') = [letter]))"
proof -
  let ?av = "available_letters (usedLetters (gameState r))"
  have a: "?av \<noteq> [] \<Longrightarrow> ?av ! (rnd mod length ?av) \<in> set GEORGIAN_ALPHABET - set (usedLetters (gameState r))"
    using available_set [of "usedLetters (gameState r)"] nth_mem [of "rnd mod length ?av" ?av] by simp
  have m: "GEORGIAN_ALPHABET ! (rnd mod 33) \<in> set GEORGIAN_ALPHABET"
    by (simp add: alphabet_33)
  have c: "set (usedLetters (gameState (draw_many rnds r))) = set GEORGIAN_ALPHABET \<and>
      (let (r', letter) = draw_letter rnd (draw_many rnds r)
       in letter \<in> set GEORGIAN_ALPHABET \<and> currentLetter (gameState r') = letter \<and>
          usedLetters (gameState r') = [letter])"
    if h: "usedLetters (gameState r) = []" "length rnds = length GEORGIAN_ALPHABET"
  proof -
    let ?u = "usedLetters (gameState (draw_many rnds r))"
    have d: "distinct ?u" "set ?u \<subseteq> set GEORGIAN_ALPHABET" "length ?u = 33"
      using draw_many_used [of r rnds] h by (simp_all add: alphabet_33)
    have e: "available_letters ?u = []" by (rule available_empty [OF d])
    then have "set ?u = set GEORGIAN_ALPHABET" using available_set [of ?u] d(2) by auto
    then show ?thesis using m by (simp add: draw_letter_exhausted [OF e])
  qed
  have d: "\<exists>s' out. step lc uc s (SticksDraw k rnd) = Inr (s', out) \<and>
          rooms_get s' rc = Some (a, fst (draw_letter rnd r))"
    if h: "is_connected s k" "bound_ids s k = Some (rc, hostId r)" "rooms_get s rc = Some (a, r)"
    using h rooms_get_addr [OF h(3)]
    by (simp add: sticks_draw_def from_socket_def setTimeout_def split_beta Let_def
          rooms_get_def put_room_def)
  show ?thesis
    using a m c d
    by (auto simp: draw_letter_available draw_letter_exhausted available_set available_distinct
          alphabet_33 alphabet_distinct Let_def)
qed

text \<open>
  The theorem at scenario S8, twice: at the fresh room, where the draw with random number 5
  takes the sixth letter, and at the room after 33 draws, where nothing is available and the
  34th draw leaves the used set a singleton.
\<close>

theorem letter_selection_witness:
  "available_letters (usedLetters (gameState S8_room)) \<noteq> [] \<and>
   snd (draw_letter 5 S8_room) = [0x10D5] \<and>
   usedLetters (gameState (fst (draw_letter 5 S8_room))) = [[0x10D5]] \<and>
   usedLetters (gameState S8_room) = [] \<and>
   length (replicate 33 (0::nat)) = length GEORGIAN_ALPHABET \<and>
   available_letters (usedLetters (gameState (draw_many (replicate 33 0) S8_room))) = [] \<and>
   snd (draw_letter 5 (draw_many (replicate 33 0) S8_room)) = [0x10D5] \<and>
   usedLetters (gameState (fst (draw_letter 5 (draw_many (replicate 33 0) S8_room)))) = [[0x10D5]] \<and>
   is_connected (demo_server sticks False) 1 \<and>
   (\<exists>s' out. step ascii_lower ascii_upper (demo_server sticks False) (SticksDraw 1 5) = Inr (s', out) \<and>
      rooms_get s' (asc ''ABCDE'') = Some (0, fst (draw_letter 5 (demo_room sticks False))))"
proof -
  let ?ex = "draw_many (replicate 33 0) S8_room"
  have u: "usedLetters (gameState S8_room) = []" by (simp add: S8_room_def)
  have l: "length (replicate 33 (0::nat)) = length GEORGIAN_ALPHABET"
    by (simp add: GEORGIAN_ALPHABET_def)
  have av: "available_letters [] = GEORGIAN_ALPHABET" by (simp add: available_letters_def)
  have n5: "GEORGIAN_ALPHABET ! 5 = [0x10D5]" by (simp add: GEORGIAN_ALPHABET_def)
  have ne: "GEORGIAN_ALPHABET \<noteq> []" by (simp add: GEORGIAN_ALPHABET_def)
  have first: "snd (draw_letter 5 S8_room) = [0x10D5] \<and>
               usedLetters (gameState (fst (draw_letter 5 S8_room))) = [[0x10D5]]"
    using letter_selection [where r = S8_room and rnd = 5 and rnds = "replicate 33 0"] u av n5 ne
    by (simp add: Let_def split_beta)
  have all: "set (usedLetters (gameState ?ex)) = set GEORGIAN_ALPHABET"
    using letter_selection [where r = S8_room and rnd = 5 and rnds = "replicate 33 0"] u l by simp
  have e: "available_letters (usedLetters (gameState ?ex)) = []"
    using letter_selection [where r = "?ex" and rnd = 5 and rnds = "[]"] all by simp
  have last: "snd (draw_letter 5 ?ex) = [0x10D5] \<and>
              usedLetters (gameState (fst (draw_letter 5 ?ex))) = [[0x10D5]]"
    using letter_selection [where r = "?ex" and rnd = 5 and rnds = "[]"] e n5 by (simp add: Let_def split_beta)
  have hst: "hostId (demo_room sticks False) = asc ''player_a''" by (simp add: demo_room_def)
  have h: "\<exists>s' out. step ascii_lower ascii_upper (demo_server sticks False) (SticksDraw 1 5) = Inr (s', out) \<and>
      rooms_get s' (asc ''ABCDE'') = Some (0, fst (draw_letter 5 (demo_room sticks False)))"
    using letter_selection [where r = "demo_room sticks False" and rnd = 5 and s = "demo_server sticks False"
        and k = 1 and rc = "asc ''ABCDE''" and a = 0 and lc = ascii_lower and uc = ascii_upper and rnds = "[]"] demo_bound(1,3) demo_room_get hst
    by simp
  show ?thesis using u l av ne first e last h demo_bound(3) by simp
qed

subsection \<open>Evaluating runs\<close>

lemma pid_values:
  "pidA = asc ''player_a0000000''" "pidB = asc ''player_b0000000''"
  by (simp_all add: pidA_def pidB_def generatePlayerId_def uuidA_def uuidB_def asc_def)

lemma codeA_value: "codeA = asc ''AAAAA''"
  by (simp add: codeA_def generateRoomCode_def ROOM_CODE_CHARS_def random_index_def asc_def upt_rec)

lemma ids_simps [simp]:
  "pidA \<noteq> []" "pidB \<noteq> []" "codeA \<noteq> []" "pidA \<noteq> pidB" "pidB \<noteq> pidA"
  "ascii_upper codeA = codeA" "asc ''sa'' \<noteq> asc ''sb''" "asc ''sb'' \<noteq> asc ''sa''"
  by (simp_all add: pid_values codeA_value asc_def ascii_upper_def)

lemma decimal_0 [simp]: "decimal 0 = [48]"
  by (simp add: decimal.simps)

lemma cat_0_key [simp]: "asc ''cat_'' @ [48] = asc ''cat_0''"
  by (simp add: asc_def)

lemmas handler_defs =
  connect_def room_create_def createRoom_def room_join_def game_start_def sticks_draw_def
  game_nextRound_def game_returnToLobby_def round_stop_def answers_submit_def
  answer_invalidate_def toggle_score_def lookup_category_def read_invalidatedBy_def player_kick_def room_leave_def disconnect_def
  handlePlayerDisconnect_def
  settings_update_event_def player_ready_def session_restore_def restore_found_def
  fire_def find_timer_def draw_animation_done_def startRound_def min_time_elapsed_def
  endRound_def end_game_cooldown_def reconnect_expired_def
  from_socket_def is_connected_def bound_ids_def rooms_get_def put_room_def truthy_def
  setTimeout_def clearTimeout_def timer_delay_def room_var_def
  Map_get_def Map_set_def Map_modify_def Map_delete_def Map_forEach_def Map_values_def Map_keys_def
  allPlayersReady_def reset_to_lobby_def succeed_host_def merge_settings_def
  initial_def Let_def split_beta
  draw_letter_def selectRandomLetter_def Set_has_def Set_add_def random_index_def
  setupCategories_def calculateScores_def score_player_def score_step_def score_category_def
  normalized_def raw_answer_def trim_def isWhiteSpace_def startsWith_def ascii_lower_def

lemmas obs_defs = room_of_def phase_of_def letter_of_def stop_enabled_of_def round_of_def clock_of_def
  members_of_def registry_of_def bound_of_def pending_of_def timers_of_def total_of_def
  round_score_of_def entry_of_def prototype_of_def

lemma run_append:
  "run lc uc s (es @ fs) = (case run lc uc s es of Inl x \<Rightarrow> Inl x | Inr s' \<Rightarrow> run lc uc s' fs)"
  by (induction es arbitrary: s) (auto split: sum.splits)

lemmas run_simps = handler_defs obs_defs pidA_def [symmetric] pidB_def [symmetric]
  codeA_def [symmetric] GEORGIAN_ALPHABET_def

subsection \<open>Stale timers\<close>

text \<open>
  Against claim C5 as stated. In the first run a one-round game ends at 8501 ms and arms the
  end-game cooldown (timer 4, due at 18501 ms); the host returns to the lobby and starts a
  new game, so the room is in the sticks phase when the cooldown fires: the callback resets
  it to the lobby. In the second run the host abandons a round whose min-time timer (timer 2,
  due at 18500 ms) is pending and starts another game; its round starts at 7000 ms with the
  stop button locked until 22000 ms, and the old timer unlocks it at 18500 ms.
\<close>

theorem stale_timer_counterexample:
  "phase_of (run ascii_lower ascii_upper initial one_round) codeA = Some ended \<and>
   timers_of (run ascii_lower ascii_upper initial one_round) = [(4, 18501, EndGameCooldown 1 0)] \<and>
   phase_of (run ascii_lower ascii_upper initial new_game_in_cooldown) codeA = Some sticks \<and>
   clock_of (run ascii_lower ascii_upper initial new_game_in_cooldown) = Some 18501 \<and>
   phase_of (run ascii_lower ascii_upper initial (new_game_in_cooldown @ [Fire 4 0])) codeA = Some lobby \<and>
   stop_enabled_of (run ascii_lower ascii_upper initial second_game) codeA = Some False \<and>
   timers_of (run ascii_lower ascii_upper initial second_game)
     = [(2, 18500, MinTimeElapsed 0), (5, 22000, MinTimeElapsed 0)] \<and>
   clock_of (run ascii_lower ascii_upper initial second_game) = Some 18500 \<and>
   stop_enabled_of (run ascii_lower ascii_upper initial (second_game @ [Fire 2 0])) codeA = Some True \<and>
   phase_of (run ascii_lower ascii_upper initial (second_game @ [Fire 2 0])) codeA = Some playing"
  by (simp add: one_round_def new_game_in_cooldown_def second_game_def playing_round_def run_simps)

subsection \<open>A toggle after a write to \<open>Object.prototype\<close>\<close>

lemma category_names [simp]:
  "asc ''__proto__'' \<noteq> asc ''cat_0''" "asc ''cat_0'' \<noteq> asc ''__proto__''"
  by (simp_all add: asc_def)

text \<open>
  Claim C2 at its failing input. After a round of one category the host has a recorded entry
  of 20 points for \<open>cat_0\<close>, a round score and a total of 20. Two toggles of that entry
  leave the total at 20. When the second player first sends \<open>answer:invalidate\<close> with the
  category \<open>__proto__\<close> for its own scores, the handler takes \<open>Object.prototype\<close> for the
  score entry and writes the sender's id to its property \<open>invalidatedBy\<close> (the sender's own
  scores become \<open>NaN\<close>). The host's entry still has no \<open>invalidatedBy\<close> of its own and its
  total is still 20, but it now reads as invalidated, and \<open>delete\<close> does not remove an
  inherited property: each of the two toggles takes the re-validate branch and adds the
  cached 20 points, so the round score and the total are 40 after the first toggle and 60
  after the second, with the entry unchanged.
\<close>

theorem toggle_after_prototype_write:
  "phase_of (run ascii_lower ascii_upper initial two_player_results) codeA = Some results \<and>
   entry_of (run ascii_lower ascii_upper initial two_player_results) codeA pidA (asc ''cat_0'')
     = Some \<lparr>points = 20, isValid = True, answer = [0x10D0, 0x10DB], invalidatedBy = None\<rparr> \<and>
   round_score_of (run ascii_lower ascii_upper initial two_player_results) codeA pidA = Some (Num 20) \<and>
   total_of (run ascii_lower ascii_upper initial two_player_results) codeA pidA = Some (Num 20) \<and>
   total_of (run ascii_lower ascii_upper initial (two_player_results @ toggle_twice)) codeA pidA
     = Some (Num 20) \<and>
   prototype_of (run ascii_lower ascii_upper initial (two_player_results @ [proto_toggle])) = Some pidB \<and>
   entry_of (run ascii_lower ascii_upper initial (two_player_results @ [proto_toggle])) codeA pidA (asc ''cat_0'')
     = Some \<lparr>points = 20, isValid = True, answer = [0x10D0, 0x10DB], invalidatedBy = None\<rparr> \<and>
   total_of (run ascii_lower ascii_upper initial (two_player_results @ [proto_toggle])) codeA pidA
     = Some (Num 20) \<and>
   total_of (run ascii_lower ascii_upper initial (two_player_results @ [proto_toggle])) codeA pidB
     = Some NaN \<and>
   total_of (run ascii_lower ascii_upper initial (two_player_results @ [proto_toggle] @ take 1 toggle_twice))
      codeA pidA = Some (Num 40) \<and>
   round_score_of (run ascii_lower ascii_upper initial (two_player_results @ [proto_toggle] @ toggle_twice))
      codeA pidA = Some (Num 60) \<and>
   total_of (run ascii_lower ascii_upper initial (two_player_results @ [proto_toggle] @ toggle_twice))
      codeA pidA = Some (Num 60) \<and>
   entry_of (run ascii_lower ascii_upper initial (two_player_results @ [proto_toggle] @ toggle_twice))
      codeA pidA (asc ''cat_0'')
     = Some \<lparr>points = 20, isValid = True, answer = [0x10D0, 0x10DB], invalidatedBy = None\<rparr>"
  by (simp add: two_player_results_def toggle_twice_def proto_toggle_def run_simps)

subsection \<open>Events outside their phase\<close>

text \<open>
  Against claim C3 as stated. \<open>game:nextRound\<close> from the host of a room in the lobby moves
  the room to the sticks phase; \<open>game:start\<close> from the host of a room that is playing
  round 1 moves it to the sticks phase of a new game; \<open>answer:invalidate\<close> in the ended
  phase takes the 20 points of the recorded entry off the total.
\<close>

theorem game_events_phase_counterexample:
  "phase_of (run ascii_lower ascii_upper initial (take 2 playing_round)) codeA = Some lobby \<and>
   phase_of (run ascii_lower ascii_upper initial (take 2 playing_round @ [GameNextRound 1])) codeA = Some sticks \<and>
   phase_of (run ascii_lower ascii_upper initial playing_round) codeA = Some playing \<and>
   round_of (run ascii_lower ascii_upper initial playing_round) codeA = Some 1 \<and>
   phase_of (run ascii_lower ascii_upper initial (playing_round @ [GameStart 1])) codeA = Some sticks \<and>
   round_of (run ascii_lower ascii_upper initial (playing_round @ [GameStart 1])) codeA = Some 0 \<and>
   phase_of (run ascii_lower ascii_upper initial one_round) codeA = Some ended \<and>
   total_of (run ascii_lower ascii_upper initial one_round) codeA pidA = Some (Num 20) \<and>
   total_of (run ascii_lower ascii_upper initial
               (one_round @ [AnswerInvalidate 1 pidA (asc ''cat_0'')])) codeA pidA = Some (Num 0)"
  by (simp add: playing_round_def one_round_def run_simps)

subsection \<open>The current letter outside a round\<close>

text \<open>
  Against claim C8 as stated. \<open>sticks:draw\<close> sets the letter while the phase is still
  sticks, and nothing clears it: after the game the room is back in the lobby with the
  letter of the last round.
\<close>

theorem currentLetter_iff_counterexample:
  "phase_of (run ascii_lower ascii_upper initial (take 4 playing_round)) codeA = Some sticks \<and>
   letter_of (run ascii_lower ascii_upper initial (take 4 playing_round)) codeA = Some [0x10D0] \<and>
   phase_of (run ascii_lower ascii_upper initial (one_round @ [Advance 1000, GameReturnToLobby 1])) codeA = Some lobby \<and>
   letter_of (run ascii_lower ascii_upper initial (one_round @ [Advance 1000, GameReturnToLobby 1])) codeA = Some [0x10D0]"
  by (simp add: playing_round_def one_round_def run_simps)

subsection \<open>Two rooms, one code\<close>

text \<open>
  Claim C4 at its failing input. The second \<open>room:create\<close> draws the code of the first
  room, which is live with one member: \<open>createRoom\<close> stores the new room under that code, the
  registry no longer holds the first room, and the first player's connection, still bound
  to the code, now resolves to a room the player is not a member of. (The registry itself
  never holds two entries with one code, \<open>registry_codes_distinct\<close>, and every code has five
  characters of the code alphabet, \<open>generateRoomCode_shape\<close>.)
\<close>

theorem createRoom_code_collision:
  "registry_of (run ascii_lower ascii_upper initial (take 2 two_creates)) = [(codeA, 0)] \<and>
   members_of (run ascii_lower ascii_upper initial (take 2 two_creates)) codeA = Some [pidA] \<and>
   registry_of (run ascii_lower ascii_upper initial two_creates) = [(codeA, 1)] \<and>
   members_of (run ascii_lower ascii_upper initial two_creates) codeA = Some [pidB] \<and>
   bound_of (run ascii_lower ascii_upper initial two_creates) 1 = Some (codeA, pidA)"
  by (simp add: two_creates_def run_simps)

subsection \<open>Removing a disconnected player\<close>

text \<open>
  Claim C6 at its failing inputs. After \<open>player:kick\<close> of a disconnected player, and after
  \<open>room:leave\<close> of a player whose latest connection dropped, the player is gone from the
  room but the entry of \<open>disconnectedPlayers\<close> and its timer are still pending. For
  comparison, \<open>session:restore\<close> of the disconnected player removes both.
\<close>

theorem kick_leaves_reconnect_timer:
  "members_of (run ascii_lower ascii_upper initial kick_disconnected) codeA = Some [pidA] \<and>
   map fst (pending_of (run ascii_lower ascii_upper initial kick_disconnected)) = [pidB] \<and>
   timers_of (run ascii_lower ascii_upper initial kick_disconnected)
     = [(0, 120000, ReconnectExpired pidB codeA (asc ''Beka''))] \<and>
   members_of (run ascii_lower ascii_upper initial leave_disconnected) codeA = Some [pidA] \<and>
   map fst (pending_of (run ascii_lower ascii_upper initial leave_disconnected)) = [pidB] \<and>
   timers_of (run ascii_lower ascii_upper initial leave_disconnected)
     = [(0, 120000, ReconnectExpired pidB codeA (asc ''Beka''))] \<and>
   timers_of (run ascii_lower ascii_upper initial (take 5 restore_disconnected))
     = [(0, 120000, ReconnectExpired pidB codeA (asc ''Beka''))] \<and>
   members_of (run ascii_lower ascii_upper initial restore_disconnected) codeA = Some [pidA, pidB] \<and>
   pending_of (run ascii_lower ascii_upper initial restore_disconnected) = [] \<and>
   timers_of (run ascii_lower ascii_upper initial restore_disconnected) = []"
  by (simp add: kick_disconnected_def leave_disconnected_def restore_disconnected_def run_simps)

subsection \<open>Guards of the game events\<close>

lemma guard_fails_unchanged:
  "\<not> guard s e \<Longrightarrow> \<exists>out. step lc uc s e = Inr (s, out)"
  by (cases e)
     (auto simp: bound_room_def host_room_def from_socket_def game_start_def sticks_draw_def
        game_nextRound_def game_returnToLobby_def round_stop_def answers_submit_def
        split: option.splits if_splits)

lemma game_start_any_phase:
  assumes "host_room s k = Some (rc, me, a, r)" and "allPlayersReady r"
  shows "\<exists>s' out r'. step lc uc s (GameStart k) = Inr (s', out) \<and> rooms_get s' rc = Some (a, r') \<and>
           phase (gameState r') = sticks \<and> currentRound (gameState r') = 0"
proof -
  from assms(1) have h: "is_connected s k" "bound_ids s k = Some (rc, me)"
    "rooms_get s rc = Some (a, r)" "hostId r = me"
    by (auto simp: host_room_def bound_room_def split: option.splits if_splits)
  from rooms_get_addr [OF h(3)] h assms(2) show ?thesis
    by (simp add: game_start_def from_socket_def Let_def rooms_get_put_room)
qed

lemma game_nextRound_any_phase:
  assumes "host_room s k = Some (rc, me, a, r)"
  shows "\<exists>s' out r'. step lc uc s (GameNextRound k) = Inr (s', out) \<and> rooms_get s' rc = Some (a, r') \<and>
           phase (gameState r') =
             (if currentRound (gameState r) \<ge> maxRounds (settings r) then ended else sticks)"
proof -
  from assms(1) have h: "is_connected s k" "bound_ids s k = Some (rc, me)"
    "rooms_get s rc = Some (a, r)" "hostId r = me"
    by (auto simp: host_room_def bound_room_def split: option.splits if_splits)
  from rooms_get_addr [OF h(3)] h show ?thesis
    by (simp add: game_nextRound_def from_socket_def Let_def rooms_get_put_room setTimeout_def
          split_beta rooms_get_def put_room_def)
qed

text \<open>
  Claim C3, amended. Each of \<open>game:start\<close>, \<open>sticks:draw\<close>, \<open>game:nextRound\<close>,
  \<open>game:returnToLobby\<close>, \<open>round:stop\<close> and \<open>answers:submit\<close> takes effect only when the
  guard its handler codes holds, and leaves the whole server state unchanged when that guard
  fails. \<open>round:stop\<close> acts in the playing phase only. The guards of \<open>game:start\<close> and
  \<open>game:nextRound\<close> do not mention the phase: \<open>game:start\<close> from the host of a room whose
  connected players are all ready moves the room to the sticks phase with round 0 whatever
  its phase was, and \<open>game:nextRound\<close> from the host moves it to ended or sticks whatever
  its phase was. Nothing is said here about \<open>answer:invalidate\<close>.
\<close>

theorem game_event_guards:
  "(\<not> guard s e \<longrightarrow> (\<exists>out. step lc uc s e = Inr (s, out))) \<and>
   (guard s (RoundStop k) \<longrightarrow>
      (\<exists>rc me a r. bound_room s k = Some (rc, me, a, r) \<and> phase (gameState r) = playing)) \<and>
   (host_room s k = Some (rc, me, a, r) \<and> allPlayersReady r \<longrightarrow>
      (\<exists>s' out r'. step lc uc s (GameStart k) = Inr (s', out) \<and> rooms_get s' rc = Some (a, r') \<and>
         phase (gameState r') = sticks \<and> currentRound (gameState r') = 0)) \<and>
   (host_room s k = Some (rc, me, a, r) \<longrightarrow>
      (\<exists>s' out r'. step lc uc s (GameNextRound k) = Inr (s', out) \<and> rooms_get s' rc = Some (a, r') \<and>
         phase (gameState r') =
            (if currentRound (gameState r) \<ge> maxRounds (settings r) then ended else sticks)))"
  using guard_fails_unchanged [of s e lc uc] game_start_any_phase [of s k rc me a r lc uc]
    game_nextRound_any_phase [of s k rc me a r lc uc]
  by (auto split: option.splits)

text \<open>
  The theorem on the two-player room in its results phase: \<open>game:start\<close> from the second
  player, who is not the host, changes nothing; from the host it moves the room to the
  sticks phase; \<open>game:nextRound\<close> from the host moves it to the sticks phase as well (round
  3 of 5); \<open>round:stop\<close> passes its guard when the room is playing and stopping is enabled.
\<close>

theorem game_event_guards_witness:
  "\<not> guard (demo_server results True) (GameStart 2) \<and>
   (\<exists>out. step ascii_lower ascii_upper (demo_server results True) (GameStart 2)
             = Inr (demo_server results True, out)) \<and>
   host_room (demo_server results True) 1
     = Some (asc ''ABCDE'', asc ''player_a'', 0, demo_room results True) \<and>
   allPlayersReady (demo_room results True) \<and>
   (\<exists>s' out r'. step ascii_lower ascii_upper (demo_server results True) (GameStart 1) = Inr (s', out) \<and>
       rooms_get s' (asc ''ABCDE'') = Some (0, r') \<and> phase (gameState r') = sticks) \<and>
   (\<exists>s' out r'. step ascii_lower ascii_upper (demo_server results True) (GameNextRound 1) = Inr (s', out) \<and>
       rooms_get s' (asc ''ABCDE'') = Some (0, r') \<and> phase (gameState r') = sticks) \<and>
   guard (demo_server playing True) (RoundStop 2) \<and>
   bound_room (demo_server playing True) 2
     = Some (asc ''ABCDE'', asc ''player_b'', 0, demo_room playing True)"
proof -
  let ?s = "demo_server results True"
  have ne: "asc ''player_b'' \<noteq> asc ''player_a''" by (simp add: asc_def)
  have hostA: "hostId (demo_room ph te) = asc ''player_a''" for ph te by (simp add: demo_room_def)
  have b1: "host_room ?s 1 = Some (asc ''ABCDE'', asc ''player_a'', 0, demo_room results True)"
    using demo_bound demo_room_get by (simp add: host_room_def bound_room_def hostA)
  have b2: "bound_room (demo_server ph te) 2 = Some (asc ''ABCDE'', asc ''player_b'', 0, demo_room ph te)" for ph te
    using demo_bound demo_room_get by (simp add: bound_room_def)
  have g2: "\<not> guard ?s (GameStart 2)"
    using ne by (simp add: host_room_def b2 hostA)
  have rdy: "allPlayersReady (demo_room results True)"
    by (simp add: allPlayersReady_def demo_room_def Map_values_def demo_player_a_def demo_player_b_def)
  have rs: "guard (demo_server playing True) (RoundStop 2)"
    by (simp add: b2) (simp add: demo_room_def)
  have rnd: "currentRound (gameState (demo_room results True)) < maxRounds (settings (demo_room results True))"
    by (simp add: demo_room_def)
  note th = game_event_guards [where s = ?s and lc = ascii_lower and uc = ascii_upper]
  have w1: "\<exists>out. step ascii_lower ascii_upper ?s (GameStart 2) = Inr (?s, out)"
    using th [where e = "GameStart 2"] g2 by blast
  have w2: "\<exists>s' out r'. step ascii_lower ascii_upper ?s (GameStart 1) = Inr (s', out) \<and>
       rooms_get s' (asc ''ABCDE'') = Some (0, r') \<and> phase (gameState r') = sticks"
    using th [where e = "GameStart 2" and k = 1 and rc = "asc ''ABCDE''" and me = "asc ''player_a''"
        and a = 0 and r = "demo_room results True"] b1 rdy
    by (simp del: split_paired_Ex) blast
  have w3: "\<exists>s' out r'. step ascii_lower ascii_upper ?s (GameNextRound 1) = Inr (s', out) \<and>
       rooms_get s' (asc ''ABCDE'') = Some (0, r') \<and> phase (gameState r') = sticks"
    using th [where e = "GameStart 2" and k = 1 and rc = "asc ''ABCDE''" and me = "asc ''player_a''"
        and a = 0 and r = "demo_room results True"] b1 rnd
    by (simp del: split_paired_Ex)
  have w4: "bound_room (demo_server playing True) 2
              = Some (asc ''ABCDE'', asc ''player_b'', 0, demo_room playing True)"
    using game_event_guards [where s = "demo_server playing True" and k = 2 and e = "GameStart 2"
        and lc = ascii_lower and uc = ascii_upper] rs b2 [of playing True]
    by simp
  show ?thesis using g2 w1 b1 rdy w2 w3 rs w4 by simp
qed

subsection \<open>What the timer callbacks do\<close>

lemma heap_clearTimeout [simp]: "heap (clearTimeout s h) = heap s"
  by (simp add: clearTimeout_def)

lemma fields_clearTimeout [simp]:
  "nextTimer (clearTimeout s h) = nextTimer s" "clock (clearTimeout s h) = clock s"
  "rooms (clearTimeout s h) = rooms s" "conns (clearTimeout s h) = conns s"
  "nextAddr (clearTimeout s h) = nextAddr s"
  "playerSessions (clearTimeout s h) = playerSessions s"
  "disconnectedPlayers (clearTimeout s h) = disconnectedPlayers s"
  by (simp_all add: clearTimeout_def)

lemma rooms_get_clearTimeout [simp]: "rooms_get (clearTimeout s h) rc = rooms_get s rc"
  by (simp add: rooms_get_def clearTimeout_def split: option.splits)

lemma fire_due:
  "find_timer s h = Some (due, cb) \<Longrightarrow> due \<le> clock s \<Longrightarrow>
   fire lc s h rnd = run_callback lc (clearTimeout s h) rnd cb"
  by (simp add: fire_def)

lemma reconnect_expired_noop:
  "(case rooms_get s rc of
      None \<Rightarrow> True
    | Some (a, r) \<Rightarrow> (case Map_get (players r) p of None \<Rightarrow> True | Some q \<Rightarrow> isConnected q)) \<Longrightarrow>
   reconnect_expired (clearTimeout s h) p rc n = (clearTimeout s h, [])"
  by (auto simp: reconnect_expired_def split: option.splits)

text \<open>
  Claim C5, amended. A pending timer whose delay has elapsed fires as follows. The
  reconnect-grace callback is the only one that checks its target: it changes nothing
  (beyond being consumed) when no room is registered under its code, when the player is no
  longer in that room, or when the player is connected again. The other callbacks act on the
  room object they captured when they were armed, whatever phase that room is in when they
  fire and whether or not it is still registered: the end-game cooldown resets it to the
  lobby, the min-time timer enables stopping, the stop countdown moves it to the results
  phase and runs the scoring pass, the letter-reveal timer starts the next round, and the
  draw-animation timer arms the letter-reveal timer.
\<close>

theorem timer_callbacks:
  "(find_timer s h = Some (due, ReconnectExpired p rc n) \<and> due \<le> clock s \<and>
    (case rooms_get s rc of
       None \<Rightarrow> True
     | Some (a, r) \<Rightarrow> (case Map_get (players r) p of None \<Rightarrow> True | Some q \<Rightarrow> isConnected q))
      \<longrightarrow> step lc uc s (Fire h rnd) = Inr (clearTimeout s h, [])) \<and>
   (find_timer s h = Some (due, EndGameCooldown k a) \<and> due \<le> clock s \<and> heap s a = Some r
      \<longrightarrow> (\<exists>s' out. step lc uc s (Fire h rnd) = Inr (s', out) \<and>
             heap s' a = Some (reset_to_lobby r) \<and>
             phase (gameState (reset_to_lobby r)) = lobby \<and>
             currentRound (gameState (reset_to_lobby r)) = 0)) \<and>
   (find_timer s h = Some (due, MinTimeElapsed a) \<and> due \<le> clock s \<and> heap s a = Some r
      \<longrightarrow> (\<exists>s' out. step lc uc s (Fire h rnd) = Inr (s', out) \<and>
             heap s' a = Some (r\<lparr>gameState := (gameState r)\<lparr>timerEnabled := True\<rparr>\<rparr>))) \<and>
   (find_timer s h = Some (due, StopCountdownDone a) \<and> due \<le> clock s \<and> heap s a = Some r
      \<longrightarrow> (\<exists>s' out. step lc uc s (Fire h rnd) = Inr (s', out) \<and>
             heap s' a = Some (calculateScores lc (r\<lparr>gameState := (gameState r)\<lparr>phase := results\<rparr>\<rparr>)))) \<and>
   (find_timer s h = Some (due, LetterShown a) \<and> due \<le> clock s \<and> heap s a = Some r
      \<longrightarrow> (\<exists>s' out r'. step lc uc s (Fire h rnd) = Inr (s', out) \<and> heap s' a = Some r' \<and>
             phase (gameState r') = playing \<and>
             currentRound (gameState r') = currentRound (gameState r) + 1 \<and>
             \<not> timerEnabled (gameState r'))) \<and>
   (find_timer s h = Some (due, DrawAnimationDone k a letter) \<and> due \<le> clock s
      \<longrightarrow> (\<exists>s' out. step lc uc s (Fire h rnd) = Inr (s', out) \<and> heap s' = heap s \<and>
             timers s' = timers (clearTimeout s h) @ [(nextTimer s, clock s + 1500, LetterShown a)]))"
  by (auto simp: fire_due reconnect_expired_noop end_game_cooldown_def min_time_elapsed_def
        endRound_def startRound_def draw_animation_done_def put_room_def setTimeout_def
        timer_delay_def reset_to_lobby_def setupCategories_def
        Let_def split_beta)

text \<open>
  The theorem at that server, the room being in the sticks phase of a new game: the
  reconnect timer of the second player, who is connected, does nothing; the cooldown sends
  the room to the lobby, the min-time timer enables stopping, the stop countdown sends it
  to the results phase, the letter-reveal timer to the playing phase of round 4.
\<close>

theorem timer_callbacks_witness:
  "step ascii_lower ascii_upper (timers_server sticks) (Fire 1 0)
     = Inr (clearTimeout (timers_server sticks) 1, []) \<and>
   (\<exists>s' out r'. step ascii_lower ascii_upper (timers_server sticks) (Fire 2 0) = Inr (s', out) \<and>
       heap s' 0 = Some r' \<and> phase (gameState r') = lobby) \<and>
   (\<exists>s' out r'. step ascii_lower ascii_upper (timers_server sticks) (Fire 3 0) = Inr (s', out) \<and>
       heap s' 0 = Some r' \<and> timerEnabled (gameState r') \<and> phase (gameState r') = sticks) \<and>
   (\<exists>s' out r'. step ascii_lower ascii_upper (timers_server sticks) (Fire 4 0) = Inr (s', out) \<and>
       heap s' 0 = Some r' \<and> phase (gameState r') = results) \<and>
   (\<exists>s' out r'. step ascii_lower ascii_upper (timers_server sticks) (Fire 5 0) = Inr (s', out) \<and>
       heap s' 0 = Some r' \<and> phase (gameState r') = playing \<and> currentRound (gameState r') = 4) \<and>
   (\<exists>s' out. step ascii_lower ascii_upper (timers_server sticks) (Fire 6 0) = Inr (s', out) \<and>
       heap s' = heap (timers_server sticks))"
proof -
  let ?s = "timers_server sticks"
  have f: "find_timer ?s 1 = Some (100, ReconnectExpired (asc ''player_b'') (asc ''ABCDE'') (asc ''B''))"
    "find_timer ?s 2 = Some (200, EndGameCooldown 1 0)"
    "find_timer ?s 3 = Some (300, MinTimeElapsed 0)"
    "find_timer ?s 4 = Some (400, StopCountdownDone 0)"
    "find_timer ?s 5 = Some (500, LetterShown 0)"
    "find_timer ?s 6 = Some (600, DrawAnimationDone 1 0 [0x10D0])"
    by (simp_all add: find_timer_def timers_server_def)
  have c: "clock ?s = 20000" by (simp add: timers_server_def)
  have h: "heap ?s 0 = Some (demo_room sticks False)"
    by (simp add: timers_server_def demo_server_def)
  have g: "rooms_get ?s (asc ''ABCDE'') = Some (0, demo_room sticks False)"
    by (simp add: rooms_get_def timers_server_def demo_server_def Map_get_def)
  have b: "isConnected demo_player_b" by (simp add: demo_player_b_def)
  have p: "phase (gameState (demo_room sticks False)) = sticks"
          "currentRound (gameState (demo_room sticks False)) = 3"
    by (simp_all add: demo_room_def)
  note th = timer_callbacks [where s = ?s and lc = ascii_lower and uc = ascii_upper and rnd = 0
      and a = 0 and r = "demo_room sticks False"]
  have w1: "step ascii_lower ascii_upper ?s (Fire 1 0) = Inr (clearTimeout ?s 1, [])"
    using th [where h = 1 and due = 100 and p = "asc ''player_b''" and rc = "asc ''ABCDE''"
        and n = "asc ''B''"] f(1) c g demo_players(2) b
    by simp
  have w2: "\<exists>s' out r'. step ascii_lower ascii_upper ?s (Fire 2 0) = Inr (s', out) \<and>
       heap s' 0 = Some r' \<and> phase (gameState r') = lobby"
    using th [where h = 2 and due = 200 and k = 1] f(2) c h by (simp del: split_paired_Ex) blast
  have w3: "\<exists>s' out r'. step ascii_lower ascii_upper ?s (Fire 3 0) = Inr (s', out) \<and>
       heap s' 0 = Some r' \<and> timerEnabled (gameState r') \<and> phase (gameState r') = sticks"
    using th [where h = 3 and due = 300] f(3) c h p by (simp del: split_paired_Ex) fastforce
  have cs: "phase (gameState (calculateScores ascii_lower
               ((demo_room sticks False)\<lparr>gameState := (gameState (demo_room sticks False))\<lparr>phase := results\<rparr>\<rparr>)))
            = results"
    by (simp add: calculateScores_def Let_def)
  have w4: "\<exists>s' out r'. step ascii_lower ascii_upper ?s (Fire 4 0) = Inr (s', out) \<and>
       heap s' 0 = Some r' \<and> phase (gameState r') = results"
    using th [where h = 4 and due = 400] f(4) c h cs by (simp del: split_paired_Ex) blast
  have w5: "\<exists>s' out r'. step ascii_lower ascii_upper ?s (Fire 5 0) = Inr (s', out) \<and>
       heap s' 0 = Some r' \<and> phase (gameState r') = playing \<and> currentRound (gameState r') = 4"
    using th [where h = 5 and due = 500] f(5) c h p by (simp del: split_paired_Ex) fastforce
  have w6: "\<exists>s' out. step ascii_lower ascii_upper ?s (Fire 6 0) = Inr (s', out) \<and> heap s' = heap ?s"
    using th [where h = 6 and due = 600 and k = 1 and letter = "[0x10D0]"] f(6) c
    by (simp del: split_paired_Ex) blast
  show ?thesis using w1 w2 w3 w4 w5 w6 by simp
qed

subsection \<open>A room in a round has its letter\<close>

lemma letter_inv_room: "letter_inv s \<Longrightarrow> heap s a = Some r \<Longrightarrow> in_round r \<Longrightarrow> letter_set r"
  by (auto simp: letter_inv_def)

lemma letter_inv_put:
  assumes "letter_inv s" and "heap s a = Some r"
    and "letter_set r \<Longrightarrow> letter_set r'" and "in_round r' \<Longrightarrow> letter_set r'"
  shows "letter_inv (put_room s a r')"
  using assms unfolding letter_inv_def put_room_def
  by (auto split: if_splits) (metis option.inject)+

lemma letter_inv_setTimeout:
  assumes "letter_inv s"
    and "\<And>a. needs_letter cb = Some a \<Longrightarrow> \<exists>r. heap s a = Some r \<and> letter_set r"
  shows "letter_inv (fst (setTimeout s cb d))"
  using assms unfolding letter_inv_def setTimeout_def by auto

lemma letter_inv_clearTimeout: "letter_inv s \<Longrightarrow> letter_inv (clearTimeout s h)"
  unfolding letter_inv_def clearTimeout_def by auto

lemma letter_inv_fields [simp]:
  "letter_inv (s\<lparr>conns := c\<rparr>) = letter_inv s"
  "letter_inv (s\<lparr>rooms := rs\<rparr>) = letter_inv s"
  "letter_inv (s\<lparr>playerSessions := ps\<rparr>) = letter_inv s"
  "letter_inv (s\<lparr>disconnectedPlayers := ds\<rparr>) = letter_inv s"
  "letter_inv (s\<lparr>clock := t\<rparr>) = letter_inv s"
  "letter_inv (s\<lparr>proto_invalidatedBy := pr, method_invalidatedBy := ms\<rparr>) = letter_inv s"
  by (simp_all add: letter_inv_def)

lemma letter_inv_initial: "letter_inv initial"
  by (simp add: letter_inv_def initial_def)

lemma alphabet_nonempty_letters: "l \<in> set GEORGIAN_ALPHABET \<Longrightarrow> l \<noteq> []"
  by (auto simp: GEORGIAN_ALPHABET_def)

lemma draw_letter_sets: "letter_set (fst (draw_letter rnd r))"
proof (cases "available_letters (usedLetters (gameState r)) = []")
  case True
  have "GEORGIAN_ALPHABET ! (rnd mod 33) \<in> set GEORGIAN_ALPHABET" by (simp add: alphabet_33)
  then show ?thesis
    by (simp add: draw_letter_exhausted [OF True] letter_set_def alphabet_nonempty_letters)
next
  case False
  let ?av = "available_letters (usedLetters (gameState r))"
  have "?av ! (rnd mod length ?av) \<in> set ?av" using False by simp
  then have "?av ! (rnd mod length ?av) \<in> set GEORGIAN_ALPHABET" by (simp add: available_set)
  then show ?thesis
    by (simp add: draw_letter_available [OF False] letter_set_def alphabet_nonempty_letters)
qed

lemma gameState_calculateScores [simp]: "gameState (calculateScores lc r) = gameState r"
  by (simp add: calculateScores_def Let_def)

lemma letter_phase_simps [simp]:
  "letter_set (r\<lparr>players := ps\<rparr>) = letter_set r"
  "letter_set (r\<lparr>settings := st\<rparr>) = letter_set r"
  "letter_set (r\<lparr>hostId := hid\<rparr>) = letter_set r"
  "in_round (r\<lparr>players := ps\<rparr>) = in_round r"
  "in_round (r\<lparr>settings := st\<rparr>) = in_round r"
  "in_round (r\<lparr>hostId := hid\<rparr>) = in_round r"
  "letter_set (calculateScores lc r) = letter_set r"
  "in_round (calculateScores lc r) = in_round r"
  by (simp_all add: letter_set_def in_round_def)

lemma succeed_host_letter [simp]:
  "letter_set (fst (succeed_host rc p r)) = letter_set r"
  "in_round (fst (succeed_host rc p r)) = in_round r"
  by (auto simp: succeed_host_def letter_set_def in_round_def split: list.splits)

lemma letter_inv_put_same:
  assumes "letter_inv s" and "heap s a = Some r"
    and "currentLetter (gameState r') = currentLetter (gameState r)"
    and "phase (gameState r') = phase (gameState r) \<or> phase (gameState r') = lobby \<or>
         phase (gameState r') = sticks \<or> phase (gameState r') = ended"
  shows "letter_inv (put_room s a r')"
proof (rule letter_inv_put [OF assms(1,2)])
  show "letter_set r \<Longrightarrow> letter_set r'" using assms(3) by (simp add: letter_set_def)
  show "in_round r' \<Longrightarrow> letter_set r'"
    using assms(3,4) letter_inv_room [OF assms(1,2)]
    by (auto simp: letter_set_def in_round_def)
qed

lemma letter_inv_put_set:
  assumes "letter_inv s" and "heap s a = Some r" and "letter_set r'"
  shows "letter_inv (put_room s a r')"
  using assms by (intro letter_inv_put [OF assms(1,2)]) simp_all

lemma heap_fields [simp]:
  "heap (s\<lparr>conns := c\<rparr>) = heap s" "heap (s\<lparr>playerSessions := ps\<rparr>) = heap s"
  by simp_all

lemma letter_inv_restore_found:
  "letter_inv s \<Longrightarrow> heap s a = Some r \<Longrightarrow> letter_inv (fst (restore_found s k p rc a r))"
  by (auto simp: restore_found_def Let_def split: option.splits
      intro!: letter_inv_put_same letter_inv_clearTimeout)

lemma scan_rooms_heap: "scan_rooms s rs p sid = Some (rc, a, r) \<Longrightarrow> heap s a = Some r"
  by (induction rs) (auto split: option.splits if_splits)

lemma inv_session_restore: "letter_inv s \<Longrightarrow> letter_inv (fst (session_restore s k sid p))"
  by (auto simp: session_restore_def Let_def split: option.splits prod.splits
      dest!: rooms_get_addr scan_rooms_heap intro!: letter_inv_restore_found)

lemma inv_room_create: "letter_inv s \<Longrightarrow> letter_inv (fst (room_create s k n av sid rnd uuid))"
  unfolding room_create_def createRoom_def Let_def split_beta
  by (simp add: letter_inv_def in_round_def) (metis less_Suc_eq not_less_iff_gr_or_eq option.distinct(1))

lemma inv_room_join: "letter_inv s \<Longrightarrow> letter_inv (fst (room_join uc s k rc0 n av sid uuid))"
  by (auto simp: room_join_def Let_def split: option.splits
      dest!: rooms_get_addr intro!: letter_inv_put_same)

lemma inv_player_ready: "letter_inv s \<Longrightarrow> letter_inv (fst (player_ready s k b))"
  by (auto simp: player_ready_def Let_def split: option.splits
      dest!: rooms_get_addr intro!: letter_inv_put_same)

lemma inv_settings_update: "letter_inv s \<Longrightarrow> letter_inv (fst (settings_update_event s k pt))"
  by (auto simp: settings_update_event_def Let_def split: option.splits
      dest!: rooms_get_addr intro!: letter_inv_put_same)

lemma inv_game_start: "letter_inv s \<Longrightarrow> letter_inv (fst (game_start s k))"
  by (auto simp: game_start_def Let_def split: option.splits
      dest!: rooms_get_addr intro!: letter_inv_put_same)

lemma inv_sticks_draw: "letter_inv s \<Longrightarrow> letter_inv (fst (sticks_draw s k rnd))"
  by (auto simp: sticks_draw_def Let_def split_beta put_room_def split: option.splits
      dest!: rooms_get_addr
      intro!: letter_inv_setTimeout letter_inv_put_set [unfolded put_room_def] draw_letter_sets)

lemma inv_answers_submit: "letter_inv s \<Longrightarrow> letter_inv (fst (answers_submit s k ans))"
  by (auto simp: answers_submit_def Let_def split: option.splits
      dest!: rooms_get_addr intro!: letter_inv_put_same)

lemma inv_answer_invalidate:
  assumes "letter_inv s"
  shows "letter_inv (fst (answer_invalidate s k t c))"
proof -
  have "letter_inv (put_room s1 a (r\<lparr>players := Map_modify (players r) t (\<lambda>q. tp')\<rparr>))"
    if h: "rooms_get s rc = Some (a, r)" "toggle_score s me c tp = Some (tp', s1)"
    for rc me a r tp tp' s1
  proof (rule letter_inv_put_same)
    show "letter_inv s1" using assms toggle_score_frame [OF h(2)] by (simp add: letter_inv_def)
    show "heap s1 a = Some r" using rooms_get_addr [OF h(1)] toggle_score_frame [OF h(2)] by simp
  qed simp_all
  then show ?thesis
    using assms by (auto simp: answer_invalidate_def Let_def split: option.splits)
qed

lemma inv_game_returnToLobby: "letter_inv s \<Longrightarrow> letter_inv (fst (game_returnToLobby s k))"
  by (auto simp: game_returnToLobby_def reset_to_lobby_def Let_def split: option.splits
      dest!: rooms_get_addr intro!: letter_inv_put_same)

lemma inv_game_nextRound: "letter_inv s \<Longrightarrow> letter_inv (fst (game_nextRound s k))"
  by (auto simp: game_nextRound_def Let_def split_beta split: option.splits
      dest!: rooms_get_addr intro!: letter_inv_setTimeout letter_inv_put_same)

lemma inv_player_kick: "letter_inv s \<Longrightarrow> letter_inv (fst (player_kick s k t))"
  by (auto simp: player_kick_def Let_def split: option.splits
      dest!: rooms_get_addr intro!: letter_inv_put_same)

lemma round_stop_cases:
  assumes "round_stop s k = Inr (s', out)"
  shows "s' = s \<or>
   (\<exists>a r (p::player). heap s a = Some r \<and> phase (gameState r) = playing \<and>
      s' = fst (setTimeout
                 (put_room s a (r\<lparr>gameState := (gameState r)\<lparr>phase := stopped,
                                                                stoppedBy := Some (nick p)\<rparr>\<rparr>))
                 (StopCountdownDone a) 5000))"
proof (cases "bound_ids s k")
  case None
  with assms show ?thesis by (simp add: round_stop_def)
next
  case ids: (Some ids)
  obtain rc me where rcme: "ids = (rc, me)" by (cases ids)
  show ?thesis
  proof (cases "rooms_get s rc")
    case None
    with assms ids rcme show ?thesis by (simp add: round_stop_def)
  next
    case ar: (Some ar)
    obtain a r where [simp]: "ar = (a, r)" by (cases ar)
    from ar have h: "heap s a = Some r" by (auto dest: rooms_get_addr)
    show ?thesis
    proof (cases "phase (gameState r) = playing \<and> timerEnabled (gameState r)")
      case False
      with assms ids rcme ar show ?thesis by (auto simp: round_stop_def split: if_splits)
    next
      case True
      show ?thesis
      proof (cases "Map_get (players r) me")
        case None
        with assms ids rcme ar True show ?thesis by (simp add: round_stop_def)
      next
        case (Some p)
        with assms ids rcme ar True
        have "s' = fst (setTimeout
                 (put_room s a (r\<lparr>gameState := (gameState r)\<lparr>phase := stopped,
                                                                stoppedBy := Some (nick p)\<rparr>\<rparr>))
                 (StopCountdownDone a) 5000)"
          by (auto simp: round_stop_def Let_def split_beta)
        with h True have "\<exists>a r (p::player). heap s a = Some r \<and> phase (gameState r) = playing \<and>
            s' = fst (setTimeout
                 (put_room s a (r\<lparr>gameState := (gameState r)\<lparr>phase := stopped,
                                                                stoppedBy := Some (nick p)\<rparr>\<rparr>))
                 (StopCountdownDone a) 5000)"
          by blast
        then show ?thesis by (rule disjI2)
      qed
    qed
  qed
qed

lemma inv_round_stop:
  assumes "letter_inv s" and "round_stop s k = Inr (s', out)"
  shows "letter_inv s'"
proof -
  from round_stop_cases [OF assms(2)] show ?thesis
  proof (elim disjE exE conjE)
    assume "s' = s"
    then show ?thesis using assms(1) by simp
  next
    fix a r p
    assume h: "heap s a = Some r" "phase (gameState r) = playing"
      and s': "s' = fst (setTimeout
                 (put_room s a (r\<lparr>gameState := (gameState r)\<lparr>phase := stopped,
                                                                stoppedBy := Some (nick p)\<rparr>\<rparr>))
                 (StopCountdownDone a) 5000)"
    have ls: "letter_set r"
      using letter_inv_room [OF assms(1) h(1)] h(2) by (simp add: in_round_def)
    let ?r' = "r\<lparr>gameState := (gameState r)\<lparr>phase := stopped, stoppedBy := Some (nick p)\<rparr>\<rparr>"
    have ls': "letter_set ?r'" using ls by (simp add: letter_set_def)
    have i1: "letter_inv (put_room s a ?r')"
      by (rule letter_inv_put_set [OF assms(1) h(1) ls'])
    show ?thesis unfolding s'
      by (rule letter_inv_setTimeout [OF i1]) (use ls' in \<open>auto simp: put_room_def\<close>)
  qed
qed

lemma succeed_host_gameState [simp]: "gameState (fst (succeed_host rc p r)) = gameState r"
  by (auto simp: succeed_host_def split: list.splits)

lemma inv_room_leave: "letter_inv s \<Longrightarrow> letter_inv (fst (room_leave s k))"
  by (auto simp: room_leave_def Let_def split_beta split: option.splits
      dest!: rooms_get_addr intro!: letter_inv_put_same)

lemma inv_handlePlayerDisconnect:
  "letter_inv s \<Longrightarrow> letter_inv (fst (handlePlayerDisconnect s k p rc))"
  by (auto simp: handlePlayerDisconnect_def Let_def split_beta split: option.splits
      dest!: rooms_get_addr
      intro!: letter_inv_setTimeout letter_inv_clearTimeout letter_inv_put_same)

lemma inv_disconnect: "letter_inv s \<Longrightarrow> letter_inv (fst (disconnect s k))"
  by (auto simp: disconnect_def Let_def split_beta split: option.splits
      intro!: inv_handlePlayerDisconnect)

lemma inv_connect: "letter_inv s \<Longrightarrow> letter_inv (fst (connect s k))"
  by (auto simp: connect_def split: option.splits)

lemma inv_player_typing: "letter_inv s \<Longrightarrow> letter_inv (fst (player_typing s k c))"
  by (auto simp: player_typing_def split: option.splits)

lemma inv_chat_message: "letter_inv s \<Longrightarrow> letter_inv (fst (chat_message s k m))"
  by (auto simp: chat_message_def split: option.splits)

lemma inv_reconnect_expired: "letter_inv s \<Longrightarrow> letter_inv (fst (reconnect_expired s p rc n))"
  by (auto simp: reconnect_expired_def Let_def split_beta split: option.splits
      dest!: rooms_get_addr intro!: letter_inv_put_same)

lemma inv_end_game_cooldown: "letter_inv s \<Longrightarrow> letter_inv (fst (end_game_cooldown s k a))"
  by (auto simp: end_game_cooldown_def reset_to_lobby_def Let_def split: option.splits
      intro!: letter_inv_put_same)

lemma inv_min_time_elapsed: "letter_inv s \<Longrightarrow> letter_inv (fst (min_time_elapsed s a))"
  by (auto simp: min_time_elapsed_def Let_def split: option.splits
      intro!: letter_inv_put_same)

lemma inv_draw_animation_done:
  "letter_inv s \<Longrightarrow> \<exists>r. heap s a = Some r \<and> letter_set r \<Longrightarrow>
   letter_inv (fst (draw_animation_done s k a l))"
  by (auto simp: draw_animation_done_def Let_def split_beta intro!: letter_inv_setTimeout)

lemma inv_startRound:
  "letter_inv s \<Longrightarrow> \<exists>r. heap s a = Some r \<and> letter_set r \<Longrightarrow>
   letter_inv (fst (startRound s a rnd))"
  by (auto simp: startRound_def setupCategories_def Let_def split_beta letter_set_def
      intro!: letter_inv_setTimeout letter_inv_put_set)

lemma inv_endRound:
  "letter_inv s \<Longrightarrow> \<exists>r. heap s a = Some r \<and> letter_set r \<Longrightarrow>
   letter_inv (fst (endRound lc s a))"
  by (auto simp: endRound_def Let_def letter_set_def intro!: letter_inv_put_set)

lemma inv_run_callback:
  assumes "letter_inv s"
    and "\<And>a. needs_letter cb = Some a \<Longrightarrow> \<exists>r. heap s a = Some r \<and> letter_set r"
  shows "letter_inv (fst (run_callback lc s rnd cb))"
  using assms
  by (cases cb)
     (simp_all add: inv_draw_animation_done inv_startRound inv_min_time_elapsed inv_endRound
        inv_end_game_cooldown inv_reconnect_expired)

lemma inv_fire: "letter_inv s \<Longrightarrow> letter_inv (fst (fire lc s h rnd))"
proof -
  assume i: "letter_inv s"
  show ?thesis
  proof (cases "find_timer s h")
    case None
    then show ?thesis using i by (simp add: fire_def)
  next
    case (Some dc)
    obtain due cb where dc: "dc = (due, cb)" by (cases dc)
    have m: "(h, due, cb) \<in> set (timers s)"
      using Some dc by (auto simp: find_timer_def dest: map_of_SomeD)
    have n: "\<exists>r. heap (clearTimeout s h) a = Some r \<and> letter_set r" if "needs_letter cb = Some a" for a
      using i m that by (auto simp: letter_inv_def)
    show ?thesis
      using Some dc i
        inv_run_callback [OF letter_inv_clearTimeout [OF i, of h] n, where lc = lc and rnd = rnd]
      by (simp add: fire_def)
  qed
qed

lemma inv_step:
  assumes "letter_inv s" and "step lc uc s e = Inr (s', out)"
  shows "letter_inv s'"
proof -
  have fs: "letter_inv (fst res) \<Longrightarrow> from_socket s k res = Inr (s', out) \<Longrightarrow> letter_inv s'" for k res
    using assms(1) by (auto simp: from_socket_def split: if_splits)
  have pr: "letter_inv (fst res) \<Longrightarrow> res = (s', out) \<Longrightarrow> letter_inv s'" for res
    by auto
  show ?thesis
    using assms pr [OF inv_connect [OF assms(1)]] pr [OF inv_fire [OF assms(1)]]
    by (cases e)
       (auto intro: fs inv_session_restore inv_room_create inv_room_join inv_player_ready
          inv_settings_update inv_game_start inv_sticks_draw inv_player_typing inv_answers_submit
          inv_answer_invalidate inv_game_nextRound inv_game_returnToLobby inv_room_leave
          inv_player_kick inv_chat_message inv_disconnect
          dest: inv_round_stop [OF assms(1)]
          split: if_splits)
qed

lemma reachable_letter_inv: "reachable lc uc s \<Longrightarrow> letter_inv s"
  by (induction rule: reachable.induct) (auto intro: letter_inv_initial inv_step)

lemma run_reachable: "reachable lc uc s \<Longrightarrow> run lc uc s es = Inr s' \<Longrightarrow> reachable lc uc s'"
  by (induction es arbitrary: s) (auto split: sum.splits intro: reachable_step)

text \<open>
  Claim C8, amended. In every state the server can reach, every room object (registered
  under a code or not) whose phase is playing, stopped or results has a non-empty
  \<open>currentLetter\<close>. Only this direction holds: the letter is also set in other phases.
\<close>

theorem currentLetter_set_in_round:
  assumes "reachable lc uc s"
  shows "(\<forall>a r. heap s a = Some r \<longrightarrow>
            phase (gameState r) = playing \<or> phase (gameState r) = stopped \<or>
            phase (gameState r) = results \<longrightarrow>
            currentLetter (gameState r) \<noteq> []) \<and>
         (\<forall>rc a r. rooms_get s rc = Some (a, r) \<longrightarrow>
            phase (gameState r) = playing \<or> phase (gameState r) = stopped \<or>
            phase (gameState r) = results \<longrightarrow>
            currentLetter (gameState r) \<noteq> [])"
proof -
  have i: "letter_inv s" by (rule reachable_letter_inv [OF assms])
  have "currentLetter (gameState r) \<noteq> []"
    if "heap s a = Some r"
      and "phase (gameState r) = playing \<or> phase (gameState r) = stopped \<or>
           phase (gameState r) = results" for a r
    using letter_inv_room [OF i that(1)] that(2) by (simp add: in_round_def letter_set_def)
  then show ?thesis by (auto dest!: rooms_get_addr)
qed

text \<open>
  The theorem at the state a run reaches when the first round is being played: the room is
  in the playing phase, so its letter is set.
\<close>

theorem currentLetter_set_in_round_witness:
  "\<exists>s r. run ascii_lower ascii_upper initial playing_round = Inr s \<and>
      reachable ascii_lower ascii_upper s \<and>
      rooms_get s codeA = Some (0, r) \<and> phase (gameState r) = playing \<and>
      currentLetter (gameState r) \<noteq> []"
proof -
  have "\<exists>s r. run ascii_lower ascii_upper initial playing_round = Inr s \<and>
      rooms_get s codeA = Some (0, r) \<and> phase (gameState r) = playing"
    by (simp add: playing_round_def run_simps)
  then obtain s r where
    h: "run ascii_lower ascii_upper initial playing_round = Inr s"
       "rooms_get s codeA = Some (0, r)" "phase (gameState r) = playing"
    by blast
  have re: "reachable ascii_lower ascii_upper s"
    by (rule run_reachable [OF reachable_initial h(1)])
  from currentLetter_set_in_round [OF re] h(2,3)
  have "currentLetter (gameState r) \<noteq> []" by blast
  with h re show ?thesis by blast
qed

subsection \<open>Room codes and the registry\<close>

lemma generateRoomCode_shape:
  "length (generateRoomCode rnd) = 5 \<and> set (generateRoomCode rnd) \<subseteq> set ROOM_CODE_CHARS"
proof -
  have n: "length ROOM_CODE_CHARS = 32" by (simp add: ROOM_CODE_CHARS_def asc_def)
  have m: "ROOM_CODE_CHARS ! (x mod 32) \<in> set ROOM_CODE_CHARS" for x
    using n by simp
  show ?thesis
    by (simp add: generateRoomCode_def random_index_def n m upt_rec)
qed

lemma registry_keys_Map_set: "distinct (map fst m) \<Longrightarrow> distinct (map fst (Map_set m k v))"
  by (simp add: Map_set_def distinct_update)

lemma registry_keys_Map_delete: "distinct (map fst m) \<Longrightarrow> distinct (map fst (Map_delete m k))"
  by (simp add: Map_delete_def distinct_delete)

lemma rooms_put_room [simp]: "rooms (put_room s a r) = rooms s"
  by (simp add: put_room_def)

lemma rooms_setTimeout [simp]: "rooms (fst (setTimeout s cb d)) = rooms s"
  by (simp add: setTimeout_def)

lemma rooms_restore_found [simp]: "rooms (fst (restore_found s k p rc a r)) = rooms s"
  by (simp add: restore_found_def Let_def split: option.splits)

lemma rooms_handlePlayerDisconnect [simp]: "rooms (fst (handlePlayerDisconnect s k p rc)) = rooms s"
  by (simp add: handlePlayerDisconnect_def Let_def split_beta split: option.splits)

lemma registry_ok_fields [simp]:
  "registry_ok (s\<lparr>conns := c\<rparr>) = registry_ok s"
  "registry_ok (s\<lparr>playerSessions := ps\<rparr>) = registry_ok s"
  "registry_ok (s\<lparr>disconnectedPlayers := ds\<rparr>) = registry_ok s"
  "registry_ok (s\<lparr>clock := t\<rparr>) = registry_ok s"
  "registry_ok (s\<lparr>proto_invalidatedBy := pr, method_invalidatedBy := ms\<rparr>) = registry_ok s"
  "registry_ok (put_room s a r) = registry_ok s"
  "registry_ok (fst (setTimeout s cb d)) = registry_ok s"
  "registry_ok (clearTimeout s h) = registry_ok s"
  "registry_ok (fst (restore_found s k p rc a r)) = registry_ok s"
  "registry_ok (fst (handlePlayerDisconnect s k p rc)) = registry_ok s"
  by (simp_all add: registry_ok_def)

lemma registry_ok_delete:
  "registry_ok s \<Longrightarrow> registry_ok (s\<lparr>rooms := Map_delete (rooms s) rc\<rparr>)"
  by (simp add: registry_ok_def registry_keys_Map_delete)

lemma registry_ok_handlers:
  assumes "registry_ok s"
  shows "registry_ok (fst (session_restore s k sid p))"
    and "registry_ok (fst (room_create s k n av sid rnd uuid))"
    and "registry_ok (fst (room_join uc s k rc0 n av sid uuid))"
    and "registry_ok (fst (player_ready s k b))"
    and "registry_ok (fst (settings_update_event s k pt))"
    and "registry_ok (fst (game_start s k))"
    and "registry_ok (fst (sticks_draw s k x))"
    and "registry_ok (fst (player_typing s k c))"
    and "registry_ok (fst (answers_submit s k ans))"
    and "registry_ok (fst (answer_invalidate s k t c))"
    and "registry_ok (fst (game_nextRound s k))"
    and "registry_ok (fst (game_returnToLobby s k))"
    and "registry_ok (fst (room_leave s k))"
    and "registry_ok (fst (player_kick s k t))"
    and "registry_ok (fst (chat_message s k m))"
    and "registry_ok (fst (disconnect s k))"
    and "registry_ok (fst (connect s k))"
  using assms
  by (auto simp: session_restore_def room_create_def createRoom_def room_join_def
        player_ready_def settings_update_event_def game_start_def sticks_draw_def
        player_typing_def answers_submit_def answer_invalidate_def game_nextRound_def
        game_returnToLobby_def room_leave_def player_kick_def chat_message_def disconnect_def
        connect_def Let_def split_beta registry_ok_def registry_keys_Map_set
        registry_keys_Map_delete
        dest: toggle_score_frame(4)
        split: option.splits prod.splits)

lemma registry_ok_callback:
  "registry_ok s \<Longrightarrow> registry_ok (fst (run_callback lc s x cb))"
  by (cases cb)
     (auto simp: draw_animation_done_def startRound_def min_time_elapsed_def endRound_def
        end_game_cooldown_def reconnect_expired_def Let_def split_beta registry_ok_def
        registry_keys_Map_delete
        split: option.splits)

lemma registry_ok_fire: "registry_ok s \<Longrightarrow> registry_ok (fst (fire lc s h x))"
  by (auto simp: fire_def split: option.splits intro!: registry_ok_callback)

lemma registry_ok_round_stop:
  "registry_ok s \<Longrightarrow> round_stop s k = Inr (s', out) \<Longrightarrow> registry_ok s'"
  by (drule round_stop_cases) auto

lemma registry_ok_step:
  assumes "registry_ok s" and "step lc uc s e = Inr (s', out)"
  shows "registry_ok s'"
proof -
  have pr: "registry_ok (fst res) \<Longrightarrow> res = (s', out) \<Longrightarrow> registry_ok s'" for res
    by auto
  have fs: "registry_ok (fst res) \<Longrightarrow> from_socket s k res = Inr (s', out) \<Longrightarrow> registry_ok s'" for k res
    using assms(1) by (auto simp: from_socket_def split: if_splits)
  show ?thesis
    using assms pr [OF registry_ok_handlers(17) [OF assms(1)]] pr [OF registry_ok_fire [OF assms(1)]]
    by (cases e)
       (auto intro: fs registry_ok_handlers [OF assms(1)]
          dest: registry_ok_round_stop [OF assms(1)] split: if_splits)
qed

lemma registry_codes_distinct: "reachable lc uc s \<Longrightarrow> distinct (map fst (rooms s))"
proof (induction rule: reachable.induct)
  case reachable_initial
  show ?case by (simp add: initial_def)
next
  case (reachable_step s e s' out)
  then show ?case using registry_ok_step [of s lc uc e s' out] by (simp add: registry_ok_def)
qed

end
